theory Spec2Isabelle
  imports Complex_Main "HOL-Library.AList"
begin

section \<open>Python values, errors and the geometry library\<close>

text \<open>
  The repository is one Python module, \<^verbatim>\<open>functions.py\<close>, written against pandas,
  geopandas and shapely. A raised exception is a value of \<open>py_error\<close>; a computation
  that may raise returns \<open>py_error + 'a\<close>, with \<open>Inl\<close> for the exception.
\<close>

datatype py_error =
    KeyError | ValueError | IndexError | AttributeError | TypeError | NotImplementedError
  | NameError

definition and_then :: "'e + 'a \<Rightarrow> ('a \<Rightarrow> 'e + 'b) \<Rightarrow> 'e + 'b" where
  "and_then m f = (case m of Inl e \<Rightarrow> Inl e | Inr v \<Rightarrow> f v)"

fun traverse :: "('a \<Rightarrow> 'e + 'b) \<Rightarrow> 'a list \<Rightarrow> 'e + 'b list" where
  "traverse f [] = Inr []"
| "traverse f (x # xs) = and_then (f x) (\<lambda>y. and_then (traverse f xs) (\<lambda>ys. Inr (y # ys)))"

text \<open>
  The values a table cell holds in this module: a shapely geometry \<open>'g\<close>, a string, an
  integer, a float (the real number it denotes: the floats of this module are finite), a
  boolean, the tuple \<open>'b\<close> that \<^verbatim>\<open>geometry.bounds\<close> returns, and a Python list of
  row positions.
\<close>

datatype ('g, 'b) cell =
    Geom 'g
  | Str string
  | IntV int
  | FloatV real
  | Flag bool
  | Box 'b
  | Hits "nat list"

text \<open>
  The calls into shapely and into the geopandas spatial index are parameters of the model:
  \<open>buffer0 g\<close> is \<^verbatim>\<open>g.buffer(0)\<close>, \<open>sindex gs b\<close> is
  \<^verbatim>\<open>list(df.sindex.intersection(b))\<close> for a table whose geometry column is \<open>gs\<close>
  (it returns row positions), \<open>is_multi\<close> and \<open>geoms\<close> are the test and the parts
  that \<^verbatim>\<open>GeoSeries.explode\<close> uses, \<open>geom_truth\<close> and \<open>box_truth\<close> are Python's
  truth value of a geometry and of a bounds tuple.

  Two facts about the installation the module runs on are parameters as well. The module
  calls \<^verbatim>\<open>reduce\<close>, which it neither imports nor defines: \<open>reduce_bound\<close> says
  whether the name is bound all the same, to the function of \<^verbatim>\<open>functools\<close> (it is a
  builtin of Python 2; on Python 3 it is bound only when a caller has put it into the
  module's namespace). And \<open>frame_explode\<close> says which of its two behaviours
  \<^verbatim>\<open>GeoDataFrame.explode\<close> has: it returns the table with all its columns from
  geopandas 0.4 on, and the series of the geometries before.
\<close>

record ('g, 'b) geo =
  buffer0 :: "'g \<Rightarrow> 'g"
  intersection :: "'g \<Rightarrow> 'g \<Rightarrow> 'g"
  difference :: "'g \<Rightarrow> 'g \<Rightarrow> 'g"
  is_empty :: "'g \<Rightarrow> bool"
  bounds :: "'g \<Rightarrow> 'b"
  sindex :: "'g list \<Rightarrow> 'b \<Rightarrow> nat list"
  is_multi :: "'g \<Rightarrow> bool"
  geoms :: "'g \<Rightarrow> 'g list"
  geom_truth :: "'g \<Rightarrow> bool"
  box_truth :: "'b \<Rightarrow> bool"
  reduce_bound :: bool
  frame_explode :: bool

fun truthy :: "('g, 'b) geo \<Rightarrow> ('g, 'b) cell \<Rightarrow> bool" where
  "truthy G (Geom g) = geom_truth G g"
| "truthy G (Str s) = (s \<noteq> [])"
| "truthy G (IntV i) = (i \<noteq> 0)"
| "truthy G (FloatV r) = (r \<noteq> 0)"
| "truthy G (Flag b) = b"
| "truthy G (Box b) = box_truth G b"
| "truthy G (Hits ks) = (ks \<noteq> [])"

text \<open>
  A pandas Series that is one row of a table: the column names with their values.
  \<open>getitem x k\<close> is \<^verbatim>\<open>x[k]\<close>; \<open>geometry_of c\<close> is the receiver of a shapely
  method call, which fails on a value that is no geometry.
\<close>

type_synonym ('g, 'b) series = "(string \<times> ('g, 'b) cell) list"

definition getitem :: "('g, 'b) series \<Rightarrow> string \<Rightarrow> py_error + ('g, 'b) cell" where
  "getitem x k = (case map_of x k of None \<Rightarrow> Inl KeyError | Some v \<Rightarrow> Inr v)"

fun geometry_of :: "('g, 'b) cell \<Rightarrow> py_error + 'g" where
  "geometry_of (Geom g) = Inr g"
| "geometry_of _ = Inl AttributeError"

section \<open>Tables\<close>

text \<open>
  A pandas DataFrame (a geopandas GeoDataFrame when it has a column \<^verbatim>\<open>geometry\<close>):
  the column names in order, the rows in order, each with its index label and its values
  by column name, and the coordinate reference system. In a well-formed table every row
  has exactly the table's columns and no column name occurs twice.
\<close>

record ('l, 'g, 'b) frame =
  columns :: "string list"
  rows :: "('l \<times> ('g, 'b) series) list"
  crs :: string

definition wf_frame :: "('l, 'g, 'b) frame \<Rightarrow> bool" where
  "wf_frame df =
     (distinct (columns df) \<and> list_all (\<lambda>r. map fst (snd r) = columns df) (rows df))"

text \<open>\<^verbatim>\<open>df[name]\<close>: the values of one column, KeyError when there is no such column.\<close>

definition get_column ::
  "('l, 'g, 'b) frame \<Rightarrow> string \<Rightarrow> py_error + ('g, 'b) cell list" where
  "get_column df name =
     (if name \<in> set (columns df) then traverse (\<lambda>r. getitem (snd r) name) (rows df)
      else Inl KeyError)"

text \<open>
  A column assignment replaces the column of that name where it stands, or appends a new
  column. \<open>assign_from_column name src f df\<close> is
  \<^verbatim>\<open>df[name] = df[src].apply(f)\<close> (and \<^verbatim>\<open>.map(f)\<close>);
  \<open>assign_from_rows name f df\<close> is \<^verbatim>\<open>df[name] = df.apply(f, axis=1)\<close>.
  An exception raised by \<open>f\<close> on some row propagates.
\<close>

definition with_column :: "string \<Rightarrow> string list \<Rightarrow> string list" where
  "with_column name cs = (if name \<in> set cs then cs else cs @ [name])"

definition assign_from_rows ::
  "string \<Rightarrow> (('g, 'b) series \<Rightarrow> py_error + ('g, 'b) cell) \<Rightarrow> ('l, 'g, 'b) frame
     \<Rightarrow> py_error + ('l, 'g, 'b) frame" where
  "assign_from_rows name f df =
     and_then (traverse (\<lambda>r. and_then (f (snd r)) (\<lambda>v.
                 Inr (fst r, AList.update name v (snd r)))) (rows df)) (\<lambda>rs.
       Inr (df\<lparr>columns := with_column name (columns df), rows := rs\<rparr>))"

definition assign_from_column ::
  "string \<Rightarrow> string \<Rightarrow> (('g, 'b) cell \<Rightarrow> py_error + ('g, 'b) cell) \<Rightarrow> ('l, 'g, 'b) frame
     \<Rightarrow> py_error + ('l, 'g, 'b) frame" where
  "assign_from_column name src f df =
     (if src \<in> set (columns df)
      then assign_from_rows name (\<lambda>x. and_then (getitem x src) f) df
      else Inl KeyError)"

text \<open>
  \<^verbatim>\<open>df[p(df[name])]\<close> and \<^verbatim>\<open>df.loc[p(df[name])]\<close>: the rows at which a boolean
  mask, computed value by value from one column, is true.
\<close>

definition select_where ::
  "string \<Rightarrow> (('g, 'b) cell \<Rightarrow> py_error + bool) \<Rightarrow> ('l, 'g, 'b) frame
     \<Rightarrow> py_error + ('l, 'g, 'b) frame" where
  "select_where name p df =
     and_then (get_column df name) (\<lambda>vs.
     and_then (traverse p vs) (\<lambda>mask.
       Inr (df\<lparr>rows := map fst (filter snd (zip (rows df) mask))\<rparr>)))"

text \<open>
  \<^verbatim>\<open>df.geometry\<close> as a list of geometries: an AttributeError when the table has no
  geometry column or a value in it is no geometry.
\<close>

definition geometry_column :: "('l, 'g, 'b) frame \<Rightarrow> py_error + 'g list" where
  "geometry_column df =
     (if ''geometry'' \<in> set (columns df)
      then traverse (\<lambda>r. and_then (getitem (snd r) ''geometry'') geometry_of) (rows df)
      else Inl AttributeError)"

text \<open>\<^verbatim>\<open>df[name] = df.geometry.apply(f)\<close>, for \<open>f\<close> a function of a geometry.\<close>

definition assign_from_geometry ::
  "string \<Rightarrow> ('g \<Rightarrow> ('g, 'b) cell) \<Rightarrow> ('l, 'g, 'b) frame \<Rightarrow> py_error + ('l, 'g, 'b) frame" where
  "assign_from_geometry name f df =
     (if ''geometry'' \<in> set (columns df)
      then assign_from_rows name
             (\<lambda>x. and_then (getitem x ''geometry'') (\<lambda>c.
                  and_then (geometry_of c) (\<lambda>g. Inr (f g)))) df
      else Inl AttributeError)"

text \<open>
  \<^verbatim>\<open>df[names]\<close>: the named columns in the order of \<open>names\<close> (KeyError when one is
  missing); \<^verbatim>\<open>df.rename(columns={old: new})\<close>, which ignores a missing \<open>old\<close>;
  \<^verbatim>\<open>df.drop(names, axis=1)\<close>, KeyError when a name is missing;
  \<^verbatim>\<open>df.iloc[positions]\<close>, IndexError when a position is out of range.
\<close>

definition select_columns ::
  "string list \<Rightarrow> ('l, 'g, 'b) frame \<Rightarrow> py_error + ('l, 'g, 'b) frame" where
  "select_columns names df =
     (if set names \<subseteq> set (columns df)
      then and_then (traverse (\<lambda>r. and_then (traverse (\<lambda>n. and_then (getitem (snd r) n)
                                  (\<lambda>v. Inr (n, v))) names) (\<lambda>x. Inr (fst r, x))) (rows df))
             (\<lambda>rs. Inr (df\<lparr>columns := names, rows := rs\<rparr>))
      else Inl KeyError)"

definition rename_column ::
  "string \<Rightarrow> string \<Rightarrow> ('l, 'g, 'b) frame \<Rightarrow> ('l, 'g, 'b) frame" where
  "rename_column old new df =
     df\<lparr>columns := map (\<lambda>c. if c = old then new else c) (columns df),
        rows := map (\<lambda>r. (fst r, map (\<lambda>kv. (if fst kv = old then new else fst kv, snd kv)) (snd r)))
                  (rows df)\<rparr>"

definition drop_columns ::
  "string list \<Rightarrow> ('l, 'g, 'b) frame \<Rightarrow> py_error + ('l, 'g, 'b) frame" where
  "drop_columns names df =
     (if set names \<subseteq> set (columns df)
      then Inr (df\<lparr>columns := filter (\<lambda>c. c \<notin> set names) (columns df),
                   rows := map (\<lambda>r. (fst r, filter (\<lambda>kv. fst kv \<notin> set names) (snd r))) (rows df)\<rparr>)
      else Inl KeyError)"

definition iloc :: "nat list \<Rightarrow> ('l, 'g, 'b) frame \<Rightarrow> py_error + ('l, 'g, 'b) frame" where
  "iloc positions df =
     (if \<forall>j \<in> set positions. j < length (rows df)
      then Inr (df\<lparr>rows := map (\<lambda>j. rows df ! j) positions\<rparr>)
      else Inl IndexError)"

text \<open>
  \<^verbatim>\<open>left.merge(right, left_on=key, right_index=True, suffixes=sfx)\<close>, an inner join of
  the left table's column \<open>key\<close> with the right table's integer index labels. A column
  name that both tables have gets the first suffix on the left and the second on the
  right. The result keeps the order of the left rows, and within one left row the order
  of the matching right rows; it carries the left rows' index labels.
\<close>

definition suffixed :: "string list \<Rightarrow> string \<Rightarrow> string \<Rightarrow> string" where
  "suffixed others sfx c = (if c \<in> set others then c @ sfx else c)"

definition merge_on_index ::
  "('l, 'g, 'b) frame \<Rightarrow> string \<Rightarrow> (int, 'g, 'b) frame \<Rightarrow> string \<times> string
     \<Rightarrow> py_error + ('l, 'g, 'b) frame" where
  "merge_on_index left key right sfx =
     (if key \<in> set (columns left) then
        Inr \<lparr>columns = map (suffixed (columns right) (fst sfx)) (columns left)
                       @ map (suffixed (columns left) (snd sfx)) (columns right),
             rows = concat (map (\<lambda>l.
                      map (\<lambda>r. (fst l,
                              map (\<lambda>kv. (suffixed (columns right) (fst sfx) (fst kv), snd kv)) (snd l)
                              @ map (\<lambda>kv. (suffixed (columns left) (snd sfx) (fst kv), snd kv)) (snd r)))
                        (filter (\<lambda>r. getitem (snd l) key = Inr (IntV (fst r))) (rows right)))
                      (rows left)),
             crs = crs left\<rparr>
      else Inl KeyError)"

section \<open>Row-wise conditional geometry transforms\<close>

text \<open>
  \<^verbatim>\<open>
  def geom_within_country(x,geo_country):
      if not x['within_country']:
          return x['geometry'].intersection(geo_country)
      else:
          return x['geometry']

  def delete_roads_urb(x,geo_urban):
      if x['inter_urb']:
          return x['geometry'].difference(geo_urban)
      else:
          return x['geometry']
  \<close>
\<close>

definition geom_within_country ::
  "('g, 'b) geo \<Rightarrow> ('g, 'b) series \<Rightarrow> 'g \<Rightarrow> py_error + ('g, 'b) cell" where
  "geom_within_country G x geo_country =
     and_then (getitem x ''within_country'') (\<lambda>flag.
       if \<not> truthy G flag then
         and_then (getitem x ''geometry'') (\<lambda>c.
         and_then (geometry_of c) (\<lambda>g.
           Inr (Geom (intersection G g geo_country))))
       else getitem x ''geometry'')"

definition delete_roads_urb ::
  "('g, 'b) geo \<Rightarrow> ('g, 'b) series \<Rightarrow> 'g \<Rightarrow> py_error + ('g, 'b) cell" where
  "delete_roads_urb G x geo_urban =
     and_then (getitem x ''inter_urb'') (\<lambda>flag.
       if truthy G flag then
         and_then (getitem x ''geometry'') (\<lambda>c.
         and_then (geometry_of c) (\<lambda>g.
           Inr (Geom (difference G g geo_urban))))
       else getitem x ''geometry'')"

section \<open>Road reclassification\<close>

text \<open>The literal \<^verbatim>\<open>dict_map\<close> of \<^verbatim>\<open>map_roads\<close>, in the order of the source.\<close>

definition dict_map :: "(string \<times> string) list" where
  "dict_map =
  [(''disused'', ''other''),
   (''dummy'', ''other''),
   (''planned'', ''other''),
   (''platform'', ''other''),
   (''unsurfaced'', ''track''),
   (''traffic_island'', ''other''),
   (''razed'', ''other''),
   (''abandoned'', ''other''),
   (''services'', ''track''),
   (''proposed'', ''other''),
   (''corridor'', ''track''),
   (''bus_guideway'', ''other''),
   (''bus_stop'', ''other''),
   (''rest_area'', ''other''),
   (''yes'', ''other''),
   (''trail'', ''other''),
   (''escape'', ''track''),
   (''raceway'', ''other''),
   (''emergency_access_point'', ''track''),
   (''emergency_bay'', ''track''),
   (''construction'', ''track''),
   (''bridleway'', ''track''),
   (''cycleway'', ''other''),
   (''footway'', ''other''),
   (''living_street'', ''tertiary''),
   (''path'', ''track''),
   (''pedestrian'', ''other''),
   (''primary'', ''primary''),
   (''primary_link'', ''primary''),
   (''residential'', ''tertiary''),
   (''road'', ''secondary''),
   (''secondary'', ''secondary''),
   (''secondary_link'', ''secondary''),
   (''service'', ''tertiary''),
   (''steps'', ''other''),
   (''tertiary'', ''tertiary''),
   (''tertiary_link'', ''tertiary''),
   (''track'', ''track''),
   (''unclassified'', ''tertiary''),
   (''trunk'', ''primary''),
   (''motorway'', ''primary''),
   (''trunk_link'', ''primary''),
   (''motorway_link'', ''primary''),
   (''via_ferrata'', ''other''),
   (''elevator'', ''other''),
   (''crossing'', ''other''),
   (''seasonal'', ''other''),
   (''traffic_signals'', ''other''),
   (''piste'', ''other''),
   (''dismantled'', ''other''),
   (''winter_road'', ''other''),
   (''access'', ''other''),
   (''ohm:military:Trench'', ''other''),
   (''no'', ''other''),
   (''byway'', ''other''),
   (''unmarked_route'', ''other''),
   (''track_grade1'', ''track''),
   (''track_grade2'', ''track''),
   (''track_grade3'', ''track''),
   (''track_grade4'', ''track''),
   (''track_grade5'', ''track''),
   (''unknown'', ''other'')]"

text \<open>
  \<^verbatim>\<open>dict_map[x]\<close>: a key that is not in the dictionary raises KeyError; a list is not
  hashable and raises TypeError; only a string can be equal to a key.
\<close>

fun dict_map_getitem :: "('g, 'b) cell \<Rightarrow> py_error + ('g, 'b) cell" where
  "dict_map_getitem (Str s) =
     (case map_of dict_map s of None \<Rightarrow> Inl KeyError | Some v \<Rightarrow> Inr (Str v))"
| "dict_map_getitem (Hits ks) = Inl TypeError"
| "dict_map_getitem _ = Inl KeyError"

text \<open>
  \<^verbatim>\<open>
  def map_roads(load_country):
      dict_map = { ... }
      load_country['roads'] = load_country['fclass'].map(lambda x: (dict_map[x]))
      return load_country
  \<close>
\<close>

definition map_roads :: "('l, 'g, 'b) frame \<Rightarrow> py_error + ('l, 'g, 'b) frame" where
  "map_roads load_country = assign_from_column ''roads'' ''fclass'' dict_map_getitem load_country"

definition coarse_classes :: "string set" where
  "coarse_classes = {''primary'', ''secondary'', ''tertiary'', ''track'', ''other''}"

section \<open>Country extraction\<close>

text \<open>
  \<^verbatim>\<open>line_length\<close> looks at a geometry through \<^verbatim>\<open>geometryType()\<close>, iteration over
  the parts of a MultiLineString and \<^verbatim>\<open>coords\<close>: \<open>line_shape\<close> is that view of a
  geometry. A coordinate is a tuple of floats (a list of reals here). The geodesic
  distance \<^verbatim>\<open>vincenty(a, b, ellipsoid=ellipsoid).kilometers\<close> of geopy is a parameter;
  it may raise (a latitude out of range). A float is the real number it denotes, and a
  comparison of floats is the comparison of these reals. The sum of two floats is not
  their real sum but the float nearest to it: \<open>float_add\<close>, the addition of the
  machine's floats, is a parameter too.
\<close>

datatype line_shape =
    Coords "real list list"
  | MultiLineString "line_shape list"
  | NoCoords

record 'g geodesy =
  line_view :: "'g \<Rightarrow> line_shape"
  vincenty :: "real list \<Rightarrow> real list \<Rightarrow> py_error + real"
  float_add :: "real \<Rightarrow> real \<Rightarrow> real"

text \<open>\<^verbatim>\<open>pairwise\<close> of boltons: the consecutive pairs of a sequence.\<close>

definition pairwise :: "'a list \<Rightarrow> ('a \<times> 'a) list" where
  "pairwise xs = zip xs (tl xs)"

text \<open>
  Python's \<^verbatim>\<open>sum(xs)\<close>: it starts from the integer 0 and adds the items one by one
  from the left, rounding after every addition.
\<close>

definition py_sum :: "(real \<Rightarrow> real \<Rightarrow> real) \<Rightarrow> real list \<Rightarrow> real" where
  "py_sum add xs = foldl add 0 xs"

text \<open>
  \<^verbatim>\<open>
  def line_length(line, ellipsoid='WGS-84'):
      if line.geometryType() == 'MultiLineString':
          return sum(line_length(segment) for segment in line)
      try:
          return sum(vincenty(a, b, ellipsoid=ellipsoid).kilometers
                     for a, b in pairwise(line.coords))
      except:
          return sum(vincenty(a, b, ellipsoid=ellipsoid).kilometers
                     for a, b in pairwise(list([t[::-1] for t in list(line.coords)])))
  \<close>
  A geometry without a coordinate sequence raises at \<^verbatim>\<open>line.coords\<close> in the
  \<^verbatim>\<open>try\<close> block and again in the handler.
\<close>

fun line_length ::
  "(real \<Rightarrow> real \<Rightarrow> real) \<Rightarrow> (real list \<Rightarrow> real list \<Rightarrow> py_error + real) \<Rightarrow> line_shape
     \<Rightarrow> py_error + real" where
  "line_length add V (MultiLineString segments) =
     and_then (traverse (\<lambda>d. d) (map (line_length add V) segments)) (\<lambda>ds. Inr (py_sum add ds))"
| "line_length add V (Coords coords) =
     (case traverse (\<lambda>ab. V (fst ab) (snd ab)) (pairwise coords) of
        Inr ds \<Rightarrow> Inr (py_sum add ds)
      | Inl _ \<Rightarrow>
          and_then (traverse (\<lambda>ab. V (fst ab) (snd ab)) (pairwise (map rev coords)))
            (\<lambda>ds. Inr (py_sum add ds)))"
| "line_length add V NoCoords = Inl NotImplementedError"

text \<open>
  \<^verbatim>\<open>Series.value_counts()\<close>: each distinct value with the number of its occurrences
  (pandas orders them by count; the code only uses which values pass the threshold).
  A Python list is not hashable and cannot be counted.
\<close>

fun hashable :: "('g, 'b) cell \<Rightarrow> bool" where
  "hashable (Hits ks) = False"
| "hashable _ = True"

definition value_counts :: "('g, 'b) cell list \<Rightarrow> py_error + (('g, 'b) cell \<times> nat) list" where
  "value_counts vs =
     (if list_all hashable vs then Inr (map (\<lambda>v. (v, count_list vs v)) (remdups vs))
      else Inl TypeError)"

text \<open>\<^verbatim>\<open>value < k\<close> for a number \<open>k\<close>: defined on numbers, a TypeError otherwise.\<close>

fun value_lt :: "real \<Rightarrow> ('g, 'b) cell \<Rightarrow> py_error + bool" where
  "value_lt k (FloatV d) = Inr (d < k)"
| "value_lt k (IntV i) = Inr (real_of_int i < k)"
| "value_lt k (Flag b) = Inr ((if b then 1 else 0) < k)"
| "value_lt k _ = Inl TypeError"

text \<open>
  Reading the shapefile: \<open>read_file n\<close> is the outcome of the \<open>n\<close>-th call of
  \<^verbatim>\<open>gpd.read_file(country_shp)\<close>. The file system, the external tools that write the
  file and the waiting between the attempts are outside the model.
  \<^verbatim>\<open>
      try:
          load_country = gpd.read_file(country_shp)
      except:
          sleep(30)
          try:
              load_country = gpd.read_file(country_shp)
          except:
              sleep(60)
              load_country = gpd.read_file(country_shp)
  \<close>
\<close>

definition read_with_retries ::
  "(nat \<Rightarrow> py_error + ('l, 'g, 'b) frame) \<Rightarrow> py_error + ('l, 'g, 'b) frame" where
  "read_with_retries read_file =
     (case read_file 0 of Inr d \<Rightarrow> Inr d
      | Inl _ \<Rightarrow> (case read_file 1 of Inr d \<Rightarrow> Inr d | Inl _ \<Rightarrow> read_file 2))"

text \<open>
  \<^verbatim>\<open>
      uniq = load_country['highway'].value_counts()
      uniq = list(uniq[uniq > 20].index)
      uniq.extend(['primary','secondary','trunk','motorway'])
      uniq = list(set(uniq))
      load_country = load_country[load_country['highway'].isin(uniq)]
      if RAI is False:
          load_country['distance'] = load_country['geometry'].apply(line_length)
          load_country = load_country[load_country['distance'] < 500]
      load_country = map_roads(load_country)
      return load_country
  \<close>
  The arguments that name files (\<^verbatim>\<open>country\<close>, \<^verbatim>\<open>continent_osm\<close>,
  \<^verbatim>\<open>base_path\<close>, \<^verbatim>\<open>overwrite\<close>) only decide which file is read.
\<close>

definition get_country ::
  "'g geodesy \<Rightarrow> (nat \<Rightarrow> py_error + ('l, 'g, 'b) frame) \<Rightarrow> bool
     \<Rightarrow> py_error + ('l, 'g, 'b) frame" where
  "get_country V read_file RAI =
     and_then (read_with_retries read_file) (\<lambda>load_country.
     and_then (get_column load_country ''highway'') (\<lambda>highway.
     and_then (value_counts highway) (\<lambda>uniq.
     let uniq = map fst (filter (\<lambda>vn. 20 < snd vn) uniq);
         uniq = uniq @ [Str ''primary'', Str ''secondary'', Str ''trunk'', Str ''motorway''];
         uniq = remdups uniq
     in
     and_then (select_where ''highway'' (\<lambda>c. Inr (c \<in> set uniq)) load_country) (\<lambda>load_country.
     and_then (if \<not> RAI then
                 and_then (assign_from_column ''distance'' ''geometry''
                             (\<lambda>c. and_then (geometry_of c) (\<lambda>line.
                                  and_then (line_length (float_add V) (vincenty V) (line_view V line)) (\<lambda>d.
                                    Inr (FloatV d))))
                             load_country)
                   (select_where ''distance'' (value_lt 500))
               else Inr load_country) (\<lambda>load_country.
     map_roads load_country)))))"

text \<open>
  The two conditions the filters of \<^verbatim>\<open>get_country\<close> are compared with. A row passes
  the tag condition when its \<^verbatim>\<open>highway\<close> value occurs more than 20 times in the loaded
  column \<open>highway\<close> or is one of the four major tags; \<open>measured V x L\<close> says that
  \<^verbatim>\<open>line_length\<close> computes the length \<open>L\<close> for the row's geometry (the float sum of
  the distances of its segments).
\<close>

definition tag_kept :: "('g, 'b) cell list \<Rightarrow> ('g, 'b) series \<Rightarrow> bool" where
  "tag_kept highway x =
     (\<exists>t. getitem x ''highway'' = Inr t \<and>
        (20 < count_list highway t
         \<or> t \<in> {Str ''primary'', Str ''secondary'', Str ''trunk'', Str ''motorway''}))"

definition measured :: "'g geodesy \<Rightarrow> ('g, 'b) series \<Rightarrow> real \<Rightarrow> bool" where
  "measured V x L =
     (\<exists>g. getitem x ''geometry'' = Inr (Geom g)
        \<and> line_length (float_add V) (vincenty V) (line_view V g) = Inr L)"

section \<open>Multi-part explosion\<close>

text \<open>
  \<^verbatim>\<open>gdf.explode()\<close> takes every geometry apart: a multi-part geometry gives one entry
  per part, numbered from 0; any other geometry gives itself with part number 0.
\<close>

definition parts :: "('g, 'b) geo \<Rightarrow> 'g \<Rightarrow> (nat \<times> 'g) list" where
  "parts G g = (if is_multi G g then enumerate 0 (geoms G g) else [(0, g)])"

text \<open>
  Before geopandas 0.4 the result is a GeoSeries of the parts with a two-level index, the
  row's label and the part number. The series takes over the attribute \<^verbatim>\<open>name\<close> of
  the table; a table with a column called \<^verbatim>\<open>name\<close> hands over that column, which is
  not a name a series can have, and the call raises TypeError.
\<close>

definition explode_geometry ::
  "('g, 'b) geo \<Rightarrow> (int, 'g, 'b) frame \<Rightarrow> py_error + ((int \<times> nat) \<times> 'g) list" where
  "explode_geometry G gdf =
     and_then (geometry_column gdf) (\<lambda>gs.
       if ''name'' \<in> set (columns gdf) then Inl TypeError
       else Inr (concat (map (\<lambda>rg. map (\<lambda>jp. ((fst (fst rg), fst jp), snd jp)) (parts G (snd rg)))
                   (zip (rows gdf) gs))))"

text \<open>
  \<^verbatim>\<open>gs.reset_index().rename(columns={0: 'geometry'})\<close> on that series: a table with a
  fresh index 0, 1, ... and the columns \<^verbatim>\<open>level_0\<close>, \<^verbatim>\<open>level_1\<close> and
  \<^verbatim>\<open>geometry\<close>.
\<close>

definition reset_index_geometry ::
  "((int \<times> nat) \<times> 'g) list \<Rightarrow> (int, 'g, 'b) frame" where
  "reset_index_geometry gs =
     \<lparr>columns = [''level_0'', ''level_1'', ''geometry''],
      rows = map (\<lambda>ne. (int (fst ne),
                    [(''level_0'', IntV (fst (fst (snd ne)))),
                     (''level_1'', IntV (int (snd (fst (snd ne))))),
                     (''geometry'', Geom (snd (snd ne)))]))
               (enumerate 0 gs),
      crs = []\<rparr>"

text \<open>
  From geopandas 0.4 on the result is the table itself with the same two-level index:
  every row stands once for each part of its geometry, with the other columns first and
  the geometry column, which holds the part, last.
\<close>

definition explode_frame ::
  "('g, 'b) geo \<Rightarrow> (int, 'g, 'b) frame \<Rightarrow> py_error + (int \<times> nat, 'g, 'b) frame" where
  "explode_frame G gdf =
     and_then (geometry_column gdf) (\<lambda>gs.
       Inr \<lparr>columns = filter (\<lambda>c. c \<noteq> ''geometry'') (columns gdf) @ [''geometry''],
            rows = concat (map (\<lambda>rg. map (\<lambda>jp. ((fst (fst rg), fst jp),
                               filter (\<lambda>kv. fst kv \<noteq> ''geometry'') (snd (fst rg))
                               @ [(''geometry'', Geom (snd jp))]))
                             (parts G (snd rg)))
                      (zip (rows gdf) gs)),
            crs = crs gdf\<rparr>)"

text \<open>
  \<^verbatim>\<open>gs.reset_index().rename(columns={0: 'geometry'})\<close> on that table: the two index
  levels become the columns \<^verbatim>\<open>level_0\<close> and \<^verbatim>\<open>level_1\<close> in front of the others, a
  ValueError when the table has a column of such a name already; no column is called
  \<^verbatim>\<open>0\<close>, and the renaming changes nothing.
\<close>

definition reset_index_levels ::
  "(int \<times> nat, 'g, 'b) frame \<Rightarrow> py_error + (int, 'g, 'b) frame" where
  "reset_index_levels df =
     (if ''level_0'' \<in> set (columns df) \<or> ''level_1'' \<in> set (columns df) then Inl ValueError
      else Inr \<lparr>columns = [''level_0'', ''level_1''] @ columns df,
                rows = map (\<lambda>ne. (int (fst ne),
                              [(''level_0'', IntV (fst (fst (snd ne)))),
                               (''level_1'', IntV (int (snd (fst (snd ne)))))]
                              @ snd (snd ne)))
                         (enumerate 0 (rows df)),
                crs = crs df\<rparr>)"

text \<open>
  \<^verbatim>\<open>df.set_index([k0, k1])\<close>: the two columns become the index and leave the columns.
  Index labels are pairs of integers in this model.
\<close>

fun integer_of :: "('g, 'b) cell \<Rightarrow> py_error + int" where
  "integer_of (IntV i) = Inr i"
| "integer_of _ = Inl TypeError"

definition set_index2 ::
  "string \<Rightarrow> string \<Rightarrow> ('l, 'g, 'b) frame \<Rightarrow> py_error + (int \<times> int, 'g, 'b) frame" where
  "set_index2 k0 k1 df =
     (if k0 \<in> set (columns df) \<and> k1 \<in> set (columns df) then
        and_then (traverse (\<lambda>r.
                    and_then (getitem (snd r) k0) (\<lambda>v0. and_then (integer_of v0) (\<lambda>i0.
                    and_then (getitem (snd r) k1) (\<lambda>v1. and_then (integer_of v1) (\<lambda>i1.
                      Inr ((i0, i1), filter (\<lambda>kv. fst kv \<noteq> k0 \<and> fst kv \<noteq> k1) (snd r)))))))
                  (rows df)) (\<lambda>rs.
          Inr \<lparr>columns = filter (\<lambda>c. c \<noteq> k0 \<and> c \<noteq> k1) (columns df), rows = rs, crs = crs df\<rparr>)
      else Inl KeyError)"

text \<open>
  \<^verbatim>\<open>
  def explode(gdf):
      gs = gdf.explode()
      gdf2 = gs.reset_index().rename(columns={0: 'geometry'})
      gdf_out = gdf2.merge(gdf.drop('geometry', axis=1), left_on='level_0', right_index=True)
      gdf_out = gdf_out.set_index(['level_0', 'level_1']).set_geometry('geometry')
      gdf_out.crs = gdf.crs
      return gdf_out
  \<close>
\<close>

definition explode ::
  "('g, 'b) geo \<Rightarrow> (int, 'g, 'b) frame \<Rightarrow> py_error + (int \<times> int, 'g, 'b) frame" where
  "explode G gdf =
     and_then (if frame_explode G
               then and_then (explode_frame G gdf) reset_index_levels
               else and_then (explode_geometry G gdf) (\<lambda>gs. Inr (reset_index_geometry gs))) (\<lambda>gdf2.
     and_then (drop_columns [''geometry''] gdf) (\<lambda>attributes.
     and_then (merge_on_index gdf2 ''level_0'' attributes (''_x'', ''_y'')) (\<lambda>gdf_out.
     and_then (set_index2 ''level_0'' ''level_1'' gdf_out) (\<lambda>gdf_out.
       Inr (gdf_out\<lparr>crs := crs gdf\<rparr>)))))"

section \<open>The spatial overlay\<close>

subsection \<open>Objects and statements\<close>

text \<open>
  \<^verbatim>\<open>spatial_overlays\<close> receives references to two tables of its caller, and most of its
  statements change a table in place. The store is the list of all table objects; a
  reference is a position in it. A statement maps the store to an outcome (an exception
  or a value) and the store after it: \<open>new_frame e\<close> evaluates the expression \<open>e\<close> and
  binds a name to a new object holding its value (\<^verbatim>\<open>.copy()\<close>, a merge, a selection,
  a constructor); \<open>update_frame r e\<close> replaces the value of the object \<open>r\<close> in
  place (a column assignment, \<^verbatim>\<open>inplace=True\<close>); \<open>compute e\<close> evaluates an
  expression that makes no table. An exception ends the function with the store as it is.
\<close>

type_synonym ('g, 'b) heap = "(int, 'g, 'b) frame list"

type_synonym ('g, 'b, 'a) prog = "('g, 'b) heap \<Rightarrow> (py_error + 'a) \<times> ('g, 'b) heap"

definition ret :: "'a \<Rightarrow> ('g, 'b, 'a) prog" where
  "ret v h = (Inr v, h)"

definition seq :: "('g, 'b, 'a) prog \<Rightarrow> ('a \<Rightarrow> ('g, 'b, 'c) prog) \<Rightarrow> ('g, 'b, 'c) prog" where
  "seq m f h = (case m h of (Inl e, h') \<Rightarrow> (Inl e, h') | (Inr v, h') \<Rightarrow> f v h')"

definition compute :: "(('g, 'b) heap \<Rightarrow> py_error + 'a) \<Rightarrow> ('g, 'b, 'a) prog" where
  "compute e h = (e h, h)"

definition new_frame ::
  "(('g, 'b) heap \<Rightarrow> py_error + (int, 'g, 'b) frame) \<Rightarrow> ('g, 'b, nat) prog" where
  "new_frame e h = (case e h of Inl err \<Rightarrow> (Inl err, h) | Inr d \<Rightarrow> (Inr (length h), h @ [d]))"

definition update_frame ::
  "nat \<Rightarrow> (('g, 'b) heap \<Rightarrow> py_error + (int, 'g, 'b) frame) \<Rightarrow> ('g, 'b, unit) prog" where
  "update_frame r e h = (case e h of Inl err \<Rightarrow> (Inl err, h) | Inr d \<Rightarrow> (Inr (), h[r := d]))"

subsection \<open>The expressions of the two branches\<close>

text \<open>
  \<^verbatim>\<open>list(spatial_index.intersection(x))\<close> for the bounds tuple \<open>x\<close>, where the index was
  built over the geometries \<open>gs\<close>.
\<close>

fun index_query :: "('g, 'b) geo \<Rightarrow> 'g list \<Rightarrow> ('g, 'b) cell \<Rightarrow> py_error + ('g, 'b) cell" where
  "index_query G gs (Box b) = Inr (Hits (sindex G gs b))"
| "index_query G gs _ = Inl TypeError"

text \<open>
  \<^verbatim>\<open>df1['histreg'].to_dict()\<close>: a dictionary from index label to value, in the order
  of insertion (Python 3.7 and later); a label that occurs again replaces the value and
  keeps its place.
\<close>

definition to_dict :: "('k \<times> 'v) list \<Rightarrow> ('k \<times> 'v) list" where
  "to_dict kvs = fold (\<lambda>kv d. AList.update (fst kv) (snd kv) d) kvs []"

text \<open>
  \<^verbatim>\<open>
          nei = []
          for i,j in pairs.items():
              for k in j:
                  nei.append([i,k])
  \<close>
\<close>

fun hits_of :: "('g, 'b) cell \<Rightarrow> py_error + nat list" where
  "hits_of (Hits ks) = Inr ks"
| "hits_of _ = Inl TypeError"

definition candidate_pairs :: "(int \<times> ('g, 'b) cell) list \<Rightarrow> py_error + (int \<times> nat) list" where
  "candidate_pairs pairs =
     and_then (traverse (\<lambda>ij. and_then (hits_of (snd ij)) (\<lambda>ks. Inr (map (\<lambda>k. (fst ij, k)) ks))) pairs)
       (\<lambda>nei. Inr (concat nei))"

text \<open>\<^verbatim>\<open>gpd.GeoDataFrame(nei, columns=['idx1','idx2'], crs=df1.crs)\<close>.\<close>

definition pairs_frame :: "(int \<times> nat) list \<Rightarrow> string \<Rightarrow> (int, 'g, 'b) frame" where
  "pairs_frame nei c =
     \<lparr>columns = [''idx1'', ''idx2''],
      rows = map (\<lambda>ne. (int (fst ne), [(''idx1'', IntV (fst (snd ne))),
                                        (''idx2'', IntV (int (snd (snd ne))))]))
               (enumerate 0 nei),
      crs = c\<rparr>"

text \<open>
  The function applied to each row of the joined table:
  \<^verbatim>\<open>lambda x: (x['geometry_1'].intersection(x['geometry_2'])).buffer(0)\<close>.
\<close>

definition intersect_row :: "('g, 'b) geo \<Rightarrow> ('g, 'b) series \<Rightarrow> py_error + ('g, 'b) cell" where
  "intersect_row G x =
     and_then (getitem x ''geometry_1'') (\<lambda>c1. and_then (geometry_of c1) (\<lambda>g1.
     and_then (getitem x ''geometry_2'') (\<lambda>c2. and_then (geometry_of c2) (\<lambda>g2.
       Inr (Geom (buffer0 G (intersection G g1 g2)))))))"

text \<open>\<^verbatim>\<open>cols.remove(name)\<close>: removes the first occurrence, ValueError when there is none.\<close>

definition list_remove :: "'a \<Rightarrow> 'a list \<Rightarrow> py_error + 'a list" where
  "list_remove x xs = (if x \<in> set xs then Inr (remove1 x xs) else Inl ValueError)"

text \<open>\<^verbatim>\<open>df.geometry.is_empty == False\<close>, value by value.\<close>

definition not_empty :: "('g, 'b) geo \<Rightarrow> ('g, 'b) cell \<Rightarrow> py_error + bool" where
  "not_empty G c = and_then (geometry_of c) (\<lambda>g. Inr (is_empty G g = False))"

text \<open>
  \<^verbatim>\<open>functools.reduce(f, xs)\<close> without an initial value, and the function of the
  difference branch, \<^verbatim>\<open>lambda x, y: x.difference(y).buffer(0)\<close>.
\<close>

fun reduce :: "('a \<Rightarrow> 'a \<Rightarrow> py_error + 'a) \<Rightarrow> 'a list \<Rightarrow> py_error + 'a" where
  "reduce f [] = Inl TypeError"
| "reduce f [x] = Inr x"
| "reduce f (x # y # ys) = and_then (f x y) (\<lambda>z. reduce f (z # ys))"

definition subtract ::
  "('g, 'b) geo \<Rightarrow> ('g, 'b) cell \<Rightarrow> ('g, 'b) cell \<Rightarrow> py_error + ('g, 'b) cell" where
  "subtract G x y =
     and_then (geometry_of x) (\<lambda>gx. and_then (geometry_of y) (\<lambda>gy.
       Inr (Geom (buffer0 G (difference G gx gy)))))"

text \<open>
  The function applied to each row of \<^verbatim>\<open>df1\<close> in the difference branch:
  \<^verbatim>\<open>lambda x: reduce(lambda x, y: x.difference(y).buffer(0),
                      [x.geometry]+list(df2.iloc[x.histreg].geometry))\<close>.
  The call looks the name \<^verbatim>\<open>reduce\<close> up before it evaluates the arguments: where
  the name is not bound, the row raises NameError.
\<close>

definition erase_row ::
  "('g, 'b) geo \<Rightarrow> (int, 'g, 'b) frame \<Rightarrow> ('g, 'b) series \<Rightarrow> py_error + ('g, 'b) cell" where
  "erase_row G df2 x =
     (if \<not> reduce_bound G then Inl NameError
      else
        and_then (getitem x ''geometry'') (\<lambda>own.
        and_then (getitem x ''histreg'') (\<lambda>histreg.
        and_then (hits_of histreg) (\<lambda>ks.
        and_then (iloc ks df2) (\<lambda>candidates.
        and_then (geometry_column candidates) (\<lambda>gs.
          reduce (subtract G) ([own] @ map Geom gs)))))))"

subsection \<open>The function\<close>

text \<open>
  \<^verbatim>\<open>
      if how=='intersection':
          spatial_index = df2.sindex
          df1['bbox'] = df1.geometry.apply(lambda x: x.bounds)
          df1['histreg']=df1.bbox.apply(lambda x:list(spatial_index.intersection(x)))
          pairs = df1['histreg'].to_dict()
          nei = []
          for i,j in pairs.items():
              for k in j:
                  nei.append([i,k])
          pairs = gpd.GeoDataFrame(nei, columns=['idx1','idx2'], crs=df1.crs)
          pairs = pairs.merge(df1, left_on='idx1', right_index=True)
          pairs = pairs.merge(df2, left_on='idx2', right_index=True, suffixes=['_1','_2'])
          pairs['Intersection'] = pairs.apply(lambda x: (x['geometry_1'].intersection(x['geometry_2'])).buffer(0), axis=1)
          pairs = gpd.GeoDataFrame(pairs, columns=pairs.columns, crs=df1.crs)
          cols = pairs.columns.tolist()
          cols.remove('geometry_1')
          cols.remove('geometry_2')
          cols.remove('histreg')
          cols.remove('bbox')
          cols.remove('Intersection')
          dfinter = pairs[cols+['Intersection']].copy()
          dfinter.rename(columns={'Intersection':'geometry'}, inplace=True)
          dfinter = gpd.GeoDataFrame(dfinter, columns=dfinter.columns, crs=pairs.crs)
          dfinter = dfinter.loc[dfinter.geometry.is_empty==False]
          return dfinter
  \<close>
  The names \<open>df1\<close> and \<open>df2\<close> are the references the local variables hold when the
  branch is entered. The spatial index is the list of the geometries of \<^verbatim>\<open>df2\<close>.
\<close>

definition overlay_intersection ::
  "('g, 'b) geo \<Rightarrow> nat \<Rightarrow> nat \<Rightarrow> ('g, 'b, nat option) prog" where
  "overlay_intersection G df1 df2 =
     seq (compute (\<lambda>h. geometry_column (h ! df2))) (\<lambda>spatial_index.
     seq (update_frame df1 (\<lambda>h. assign_from_geometry ''bbox'' (\<lambda>x. Box (bounds G x)) (h ! df1))) (\<lambda>_.
     seq (update_frame df1 (\<lambda>h. assign_from_column ''histreg'' ''bbox''
                                   (index_query G spatial_index) (h ! df1))) (\<lambda>_.
     seq (compute (\<lambda>h. and_then (get_column (h ! df1) ''histreg'') (\<lambda>histreg.
                          Inr (to_dict (zip (map fst (rows (h ! df1))) histreg))))) (\<lambda>pairs.
     seq (compute (\<lambda>h. candidate_pairs pairs)) (\<lambda>nei.
     seq (new_frame (\<lambda>h. Inr (pairs_frame nei (crs (h ! df1))))) (\<lambda>pairs.
     seq (new_frame (\<lambda>h. merge_on_index (h ! pairs) ''idx1'' (h ! df1) (''_x'', ''_y''))) (\<lambda>pairs.
     seq (new_frame (\<lambda>h. merge_on_index (h ! pairs) ''idx2'' (h ! df2) (''_1'', ''_2''))) (\<lambda>pairs.
     seq (update_frame pairs (\<lambda>h. assign_from_rows ''Intersection'' (intersect_row G) (h ! pairs))) (\<lambda>_.
     seq (new_frame (\<lambda>h. Inr ((h ! pairs)\<lparr>crs := crs (h ! df1)\<rparr>))) (\<lambda>pairs.
     seq (compute (\<lambda>h. Inr (columns (h ! pairs)))) (\<lambda>cols.
     seq (compute (\<lambda>h. list_remove ''geometry_1'' cols)) (\<lambda>cols.
     seq (compute (\<lambda>h. list_remove ''geometry_2'' cols)) (\<lambda>cols.
     seq (compute (\<lambda>h. list_remove ''histreg'' cols)) (\<lambda>cols.
     seq (compute (\<lambda>h. list_remove ''bbox'' cols)) (\<lambda>cols.
     seq (compute (\<lambda>h. list_remove ''Intersection'' cols)) (\<lambda>cols.
     seq (new_frame (\<lambda>h. select_columns (cols @ [''Intersection'']) (h ! pairs))) (\<lambda>dfinter.
     seq (update_frame dfinter (\<lambda>h. Inr (rename_column ''Intersection'' ''geometry'' (h ! dfinter)))) (\<lambda>_.
     seq (new_frame (\<lambda>h. Inr ((h ! dfinter)\<lparr>crs := crs (h ! pairs)\<rparr>))) (\<lambda>dfinter.
     seq (new_frame (\<lambda>h. select_where ''geometry'' (not_empty G) (h ! dfinter))) (\<lambda>dfinter.
     ret (Some dfinter)))))))))))))))))))))"

text \<open>
  \<^verbatim>\<open>
      elif how=='difference':
          spatial_index = df2.sindex
          df1['bbox'] = df1.geometry.apply(lambda x: x.bounds)
          df1['histreg']=df1.bbox.apply(lambda x:list(spatial_index.intersection(x)))
          df1['new_g'] = df1.apply(lambda x: reduce(lambda x, y: x.difference(y).buffer(0), [x.geometry]+list(df2.iloc[x.histreg].geometry)) , axis=1)
          df1.geometry = df1.new_g
          df1 = df1.loc[df1.geometry.is_empty==False].copy()
          df1.drop(['bbox', 'histreg', 'new_g'], axis=1, inplace=True)
          return df1
  \<close>
\<close>

definition overlay_difference ::
  "('g, 'b) geo \<Rightarrow> nat \<Rightarrow> nat \<Rightarrow> ('g, 'b, nat option) prog" where
  "overlay_difference G df1 df2 =
     seq (compute (\<lambda>h. geometry_column (h ! df2))) (\<lambda>spatial_index.
     seq (update_frame df1 (\<lambda>h. assign_from_geometry ''bbox'' (\<lambda>x. Box (bounds G x)) (h ! df1))) (\<lambda>_.
     seq (update_frame df1 (\<lambda>h. assign_from_column ''histreg'' ''bbox''
                                   (index_query G spatial_index) (h ! df1))) (\<lambda>_.
     seq (update_frame df1 (\<lambda>h. assign_from_rows ''new_g'' (erase_row G (h ! df2)) (h ! df1))) (\<lambda>_.
     seq (update_frame df1 (\<lambda>h. assign_from_column ''geometry'' ''new_g'' Inr (h ! df1))) (\<lambda>_.
     seq (new_frame (\<lambda>h. select_where ''geometry'' (not_empty G) (h ! df1))) (\<lambda>df1.
     seq (update_frame df1 (\<lambda>h. drop_columns [''bbox'', ''histreg'', ''new_g''] (h ! df1))) (\<lambda>_.
     ret (Some df1))))))))"

text \<open>
  \<^verbatim>\<open>
  def spatial_overlays(df1, df2, how='intersection'):
      df1 = df1.copy()
      df2 = df2.copy()
      df1['geometry'] = df1.geometry.buffer(0)
      df2['geometry'] = df2.geometry.buffer(0)
      if how=='intersection':
          ...
      elif how=='difference':
          ...
  \<close>
  A call with another \<^verbatim>\<open>how\<close> reaches the end of the function, which returns
  \<^verbatim>\<open>None\<close>: the result is \<open>Some r\<close> for a returned table and \<open>None\<close> for
  \<^verbatim>\<open>None\<close>.
\<close>

definition spatial_overlays ::
  "('g, 'b) geo \<Rightarrow> nat \<Rightarrow> nat \<Rightarrow> string \<Rightarrow> ('g, 'b, nat option) prog" where
  "spatial_overlays G df1 df2 how =
     seq (new_frame (\<lambda>h. Inr (h ! df1))) (\<lambda>df1.
     seq (new_frame (\<lambda>h. Inr (h ! df2))) (\<lambda>df2.
     seq (update_frame df1 (\<lambda>h. assign_from_geometry ''geometry'' (\<lambda>g. Geom (buffer0 G g)) (h ! df1))) (\<lambda>_.
     seq (update_frame df2 (\<lambda>h. assign_from_geometry ''geometry'' (\<lambda>g. Geom (buffer0 G g)) (h ! df2))) (\<lambda>_.
     if how = ''intersection'' then overlay_intersection G df1 df2
     else if how = ''difference'' then overlay_difference G df1 df2
     else ret None))))"

subsection \<open>Notions for the properties of the overlay\<close>

text \<open>
  \<open>repaired G df gs\<close> is the table \<open>df\<close>, whose geometries are \<open>gs\<close>, with every
  geometry replaced by its zero buffer. \<open>candidates G gb g\<close> are the geometries of the
  repaired second table, whose unrepaired geometries are \<open>gb\<close>, that the index query
  with the bounds of the repaired \<open>g\<close> returns, in the order of the query's answer.
  \<open>difference_fold G g cs\<close> is the fold the specification describes: start from the
  repaired \<open>g\<close>, subtract the candidates from left to right, repair after every
  subtraction. \<open>no_empty_geometry G df\<close> says that every row of \<open>df\<close> holds a geometry
  that is not empty.
\<close>

definition repaired :: "('g, 'b) geo \<Rightarrow> ('l, 'g, 'b) frame \<Rightarrow> 'g list \<Rightarrow> ('l, 'g, 'b) frame" where
  "repaired G df gs =
     df\<lparr>rows := map (\<lambda>rg. (fst (fst rg),
                      AList.update ''geometry'' (Geom (buffer0 G (snd rg))) (snd (fst rg))))
                 (zip (rows df) gs)\<rparr>"

definition candidates :: "('g, 'b) geo \<Rightarrow> 'g list \<Rightarrow> 'g \<Rightarrow> 'g list" where
  "candidates G gb g =
     map (\<lambda>j. map (buffer0 G) gb ! j) (sindex G (map (buffer0 G) gb) (bounds G (buffer0 G g)))"

definition difference_fold :: "('g, 'b) geo \<Rightarrow> 'g \<Rightarrow> 'g list \<Rightarrow> 'g" where
  "difference_fold G g cs = foldl (\<lambda>acc c. buffer0 G (difference G acc c)) (buffer0 G g) cs"

definition no_empty_geometry :: "('g, 'b) geo \<Rightarrow> ('l, 'g, 'b) frame \<Rightarrow> bool" where
  "no_empty_geometry G df =
     list_all (\<lambda>r. \<exists>g. getitem (snd r) ''geometry'' = Inr (Geom g) \<and> \<not> is_empty G g) (rows df)"

text \<open>
  Two assertions about statements: \<open>preserves n m\<close> says that \<open>m\<close> leaves the first
  \<open>n\<close> objects of the store as they are, whatever its outcome; \<open>ensures m Q\<close> says that
  \<open>Q\<close> holds of the value and the store whenever \<open>m\<close> ends without an exception.
\<close>

definition preserves :: "nat \<Rightarrow> ('g, 'b, 'a) prog \<Rightarrow> bool" where
  "preserves n m =
     (\<forall>h. n \<le> length h \<longrightarrow> n \<le> length (snd (m h)) \<and> take n (snd (m h)) = take n h)"

definition ensures :: "('g, 'b, 'a) prog \<Rightarrow> ('a \<Rightarrow> ('g, 'b) heap \<Rightarrow> bool) \<Rightarrow> bool" where
  "ensures m Q = (\<forall>h v h'. m h = (Inr v, h') \<longrightarrow> Q v h')"

section \<open>A small geometry library for evaluation\<close>

text \<open>
  To evaluate the model on concrete tables, geometries are taken to be lists of grid
  cells on a line: the zero buffer removes repeated cells, the bounds are the least and
  the greatest cell, and the index returns the positions of the non-empty geometries
  whose bounds overlap the query. A geometry with more than one cell is multi-part.
  \<open>grid\<close> is this library on Python 3 with a geopandas before 0.4: the name
  \<^verbatim>\<open>reduce\<close> is not bound, and \<^verbatim>\<open>explode\<close> returns a series.
  \<open>grid_with_reduce\<close> is the same where \<^verbatim>\<open>reduce\<close> is bound, and
  \<open>grid_frame_explode\<close> the same with a geopandas from 0.4 on.
\<close>

definition grid_bounds :: "nat list \<Rightarrow> nat \<times> nat" where
  "grid_bounds g = (if g = [] then (1, 0) else (fold min g (hd g), fold max g (hd g)))"

definition grid_sindex :: "nat list list \<Rightarrow> nat \<times> nat \<Rightarrow> nat list" where
  "grid_sindex gs q =
     map fst (filter (\<lambda>(j, g). g \<noteq> [] \<and> fst q \<le> snd (grid_bounds g) \<and> fst (grid_bounds g) \<le> snd q)
       (enumerate 0 gs))"

definition grid :: "(nat list, nat \<times> nat) geo" where
  "grid = \<lparr> buffer0 = remdups,
            intersection = (\<lambda>a b. filter (\<lambda>c. c \<in> set b) a),
            difference = (\<lambda>a b. filter (\<lambda>c. c \<notin> set b) a),
            is_empty = (\<lambda>a. a = []),
            bounds = grid_bounds,
            sindex = grid_sindex,
            is_multi = (\<lambda>a. 1 < length a),
            geoms = map (\<lambda>c. [c]),
            geom_truth = (\<lambda>a. a \<noteq> []),
            box_truth = (\<lambda>b. True),
            reduce_bound = False,
            frame_explode = False \<rparr>"

definition grid_with_reduce :: "(nat list, nat \<times> nat) geo" where
  "grid_with_reduce = grid\<lparr>reduce_bound := True\<rparr>"

definition grid_frame_explode :: "(nat list, nat \<times> nat) geo" where
  "grid_frame_explode = grid\<lparr>frame_explode := True\<rparr>"

text \<open>
  On the grid a geometry is read as the line through its cells, and the distance of two
  cells is half their difference. These distances are multiples of one half below
  1000, which floats add without rounding.
\<close>

definition grid_geodesy :: "nat list geodesy" where
  "grid_geodesy =
     \<lparr> line_view = (\<lambda>g. Coords (map (\<lambda>c. [real c]) g)),
       vincenty = (\<lambda>a b. case (a, b) of ([x], [y]) \<Rightarrow> Inr (\<bar>x - y\<bar> / 2)
                                      | _ \<Rightarrow> Inl ValueError),
       float_add = (+) \<rparr>"

text \<open>
  A road table with 21 rows tagged \<^verbatim>\<open>track\<close>, 20 rows tagged \<^verbatim>\<open>service\<close> and one
  row tagged \<^verbatim>\<open>trunk\<close>, and the table \<^verbatim>\<open>get_country\<close> makes of it.
\<close>

definition sample_roads :: "(int, nat list, nat \<times> nat) frame" where
  "sample_roads =
     \<lparr>columns = [''highway'', ''fclass'', ''geometry''],
      rows = map (\<lambda>i. (int i, [(''highway'', Str ''track''), (''fclass'', Str ''track''),
                               (''geometry'', Geom [i, i + 1])])) [0..<21]
           @ map (\<lambda>i. (int i, [(''highway'', Str ''service''), (''fclass'', Str ''service''),
                                 (''geometry'', Geom [i, i + 1])])) [21..<41]
           @ [(41, [(''highway'', Str ''trunk''), (''fclass'', Str ''trunk''),
                    (''geometry'', Geom [5, 6])])],
      crs = ''epsg:4326''\<rparr>"

definition sample_roads_out :: "(int, nat list, nat \<times> nat) frame" where
  "sample_roads_out =
     \<lparr>columns = [''highway'', ''fclass'', ''geometry'', ''roads''],
      rows = map (\<lambda>i. (int i, [(''highway'', Str ''track''), (''fclass'', Str ''track''),
                               (''geometry'', Geom [i, i + 1]), (''roads'', Str ''track'')])) [0..<21]
           @ [(41, [(''highway'', Str ''trunk''), (''fclass'', Str ''trunk''),
                    (''geometry'', Geom [5, 6]), (''roads'', Str ''primary'')])],
      crs = ''epsg:4326''\<rparr>"

text \<open>
  Four primary roads of the lengths 499.5, 500, 500.5 and 499 (a line of three
  points), and the table \<^verbatim>\<open>get_country\<close> makes of them when the lengths are computed.
\<close>

definition sample_lines :: "(int, nat list, nat \<times> nat) frame" where
  "sample_lines =
     \<lparr>columns = [''highway'', ''fclass'', ''geometry''],
      rows = [(0, [(''highway'', Str ''primary''), (''fclass'', Str ''primary''),
                   (''geometry'', Geom [0, 999])]),
              (1, [(''highway'', Str ''primary''), (''fclass'', Str ''primary''),
                   (''geometry'', Geom [0, 1000])]),
              (2, [(''highway'', Str ''primary''), (''fclass'', Str ''primary''),
                   (''geometry'', Geom [0, 1001])]),
              (3, [(''highway'', Str ''trunk''), (''fclass'', Str ''trunk''),
                   (''geometry'', Geom [0, 400, 998])])],
      crs = ''epsg:4326''\<rparr>"

definition sample_lines_out :: "(int, nat list, nat \<times> nat) frame" where
  "sample_lines_out =
     \<lparr>columns = [''highway'', ''fclass'', ''geometry'', ''distance'', ''roads''],
      rows = [(0, [(''highway'', Str ''primary''), (''fclass'', Str ''primary''),
                   (''geometry'', Geom [0, 999]), (''distance'', FloatV (999 / 2)),
                   (''roads'', Str ''primary'')]),
              (3, [(''highway'', Str ''trunk''), (''fclass'', Str ''trunk''),
                   (''geometry'', Geom [0, 400, 998]), (''distance'', FloatV 499),
                   (''roads'', Str ''primary'')])],
      crs = ''epsg:4326''\<rparr>"

text \<open>
  Two tables on the grid. The first geometry of \<open>sample_A\<close> repeats a cell, which the
  zero buffer removes; its second geometry has overlapping bounds with two geometries
  of \<open>sample_B\<close> and shares a cell with one of them only; its third geometry has no
  candidate; its fourth geometry lies inside a geometry of \<open>sample_B\<close>.
\<close>

definition sample_A :: "(int, nat list, nat \<times> nat) frame" where
  "sample_A =
     \<lparr>columns = [''name'', ''geometry''],
      rows = [(0, [(''name'', Str ''a0''), (''geometry'', Geom [1, 2, 2, 3])]),
              (1, [(''name'', Str ''a1''), (''geometry'', Geom [7, 9])]),
              (2, [(''name'', Str ''a2''), (''geometry'', Geom [20])]),
              (3, [(''name'', Str ''a3''), (''geometry'', Geom [4])])],
      crs = ''epsg:4326''\<rparr>"

definition sample_B :: "(int, nat list, nat \<times> nat) frame" where
  "sample_B =
     \<lparr>columns = [''name'', ''geometry''],
      rows = [(0, [(''name'', Str ''b0''), (''geometry'', Geom [2, 3, 4])]),
              (1, [(''name'', Str ''b1''), (''geometry'', Geom [8])]),
              (2, [(''name'', Str ''b2''), (''geometry'', Geom [3, 3, 7])])],
      crs = ''epsg:4326''\<rparr>"

text \<open>
  A table with an attribute column that is named \<open>bbox\<close>, like the helper column of the
  overlay.
\<close>

definition sample_boxed :: "(int, nat list, nat \<times> nat) frame" where
  "sample_boxed =
     \<lparr>columns = [''bbox'', ''geometry''],
      rows = [(0, [(''bbox'', Str ''north''), (''geometry'', Geom [1, 2, 2, 3])]),
              (1, [(''bbox'', Str ''south''), (''geometry'', Geom [7, 9])])],
      crs = ''epsg:4326''\<rparr>"

section \<open>Theorems\<close>

lemma getitem_Cons:
  "getitem ((k, v) # x) k' = (if k = k' then Inr v else getitem x k')"
  by (simp add: getitem_def)

lemma getitem_Nil: "getitem [] k = Inl KeyError"
  by (simp add: getitem_def)

lemma and_then_Inr: "and_then (Inr v) f = f v"
  by (simp add: and_then_def)

lemma and_then_Inl: "and_then (Inl e) f = Inl e"
  by (simp add: and_then_def)

lemma dict_map_values: "\<forall>kv \<in> set dict_map. snd kv \<in> coarse_classes"
  unfolding dict_map_def coarse_classes_def by simp

lemma dict_map_lookup_class:
  assumes "map_of dict_map s = Some v"
  shows "v \<in> coarse_classes"
proof -
  from assms have "(s, v) \<in> set dict_map" by (rule map_of_SomeD)
  with dict_map_values show ?thesis by fastforce
qed

subsection \<open>Error propagation over lists and column assignment\<close>

lemma traverse_InrD:
  "traverse f xs = Inr ys \<Longrightarrow> list_all2 (\<lambda>x y. f x = Inr y) xs ys"
  by (induction xs arbitrary: ys) (auto simp: and_then_def split: sum.splits)

lemma traverse_fails:
  "x \<in> set xs \<Longrightarrow> f x = Inl e \<Longrightarrow> \<exists>e'. traverse f xs = Inl e'"
  by (induction xs) (auto simp: and_then_def split: sum.splits)

lemma traverse_map:
  "(\<And>x. x \<in> set xs \<Longrightarrow> f x = Inr (g x)) \<Longrightarrow> traverse f xs = Inr (map g xs)"
  by (induction xs) (auto simp: and_then_def)

lemma list_all2_memD:
  "list_all2 P xs ys \<Longrightarrow> x \<in> set xs \<Longrightarrow> \<exists>y \<in> set ys. P x y"
  by (induction rule: list_all2_induct) auto

lemma assign_from_rows_Inr:
  assumes "assign_from_rows name f df = Inr out"
  shows "columns out = with_column name (columns df) \<and> crs out = crs df
       \<and> list_all2 (\<lambda>r r'. \<exists>v. f (snd r) = Inr v \<and> r' = (fst r, AList.update name v (snd r)))
            (rows df) (rows out)"
proof -
  from assms obtain rs where
    rs: "traverse (\<lambda>r. and_then (f (snd r)) (\<lambda>v. Inr (fst r, AList.update name v (snd r))))
           (rows df) = Inr rs"
    and out: "out = df\<lparr>columns := with_column name (columns df), rows := rs\<rparr>"
    by (auto simp: assign_from_rows_def and_then_def split: sum.splits)
  from traverse_InrD[OF rs]
  have "list_all2 (\<lambda>r r'. \<exists>v. f (snd r) = Inr v \<and> r' = (fst r, AList.update name v (snd r)))
            (rows df) rs"
    by (rule list_all2_mono) (auto simp: and_then_def split: sum.splits)
  with out show ?thesis by simp
qed

lemma assign_from_rows_Inl:
  assumes "r \<in> set (rows df)" and "f (snd r) = Inl e"
  shows "\<exists>e'. assign_from_rows name f df = Inl e'"
proof -
  have "\<exists>e'. traverse (\<lambda>r. and_then (f (snd r)) (\<lambda>v. Inr (fst r, AList.update name v (snd r))))
          (rows df) = Inl e'"
    by (rule traverse_fails[OF assms(1)]) (simp add: assms(2) and_then_def)
  then show ?thesis by (auto simp: assign_from_rows_def and_then_def)
qed

subsection \<open>Row-wise conditional geometry transforms\<close>

text \<open>
  Claim C6, as the code has it. On a row whose \<^verbatim>\<open>geometry\<close> is a geometry \<open>g\<close>:
  \<^verbatim>\<open>geom_within_country\<close> returns \<open>g\<close> itself when the flag
  \<^verbatim>\<open>within_country\<close> is true and the intersection of \<open>g\<close> with the reference
  geometry when it is false; \<^verbatim>\<open>delete_roads_urb\<close> has the opposite polarity: it returns
  the difference of \<open>g\<close> and the reference geometry when the flag \<^verbatim>\<open>inter_urb\<close> is
  true and \<open>g\<close> itself when it is false. Both results depend on the row and the
  reference geometry only.
\<close>

theorem conditional_transforms_by_flag:
  assumes "getitem x ''geometry'' = Inr (Geom g)"
  shows "(getitem x ''within_country'' = Inr (Flag b) \<longrightarrow>
            geom_within_country G x r = Inr (Geom (if b then g else intersection G g r)))
       \<and> (getitem x ''inter_urb'' = Inr (Flag b) \<longrightarrow>
            delete_roads_urb G x r = Inr (Geom (if b then difference G g r else g)))"
  using assms by (simp add: geom_within_country_def delete_roads_urb_def and_then_def)

theorem conditional_transforms_by_flag_witness:
  "geom_within_country grid
      [(''geometry'', Geom [1, 2]), (''within_country'', Flag False), (''inter_urb'', Flag False)]
      [2, 3] = Inr (Geom [2])
   \<and> delete_roads_urb grid
      [(''geometry'', Geom [1, 2]), (''within_country'', Flag False), (''inter_urb'', Flag False)]
      [2, 3] = Inr (Geom [1, 2])"
  using conditional_transforms_by_flag[of
      "[(''geometry'', Geom [1, 2]), (''within_country'', Flag False), (''inter_urb'', Flag False)]"
      "[1, 2]" False grid "[2, 3]"]
  by (simp add: getitem_Cons grid_def)

text \<open>
  Claim C6 as stated fails for \<^verbatim>\<open>delete_roads_urb\<close>: with the flag true, the row's
  geometry (cells 1 and 2) is not returned; the reference geometry (cell 2) is subtracted.
\<close>

theorem delete_roads_urb_flag_true_counterexample:
  "delete_roads_urb grid [(''geometry'', Geom [1, 2]), (''inter_urb'', Flag True)] [2]
     = Inr (Geom [1])
   \<and> delete_roads_urb grid [(''geometry'', Geom [1, 2]), (''inter_urb'', Flag True)] [2]
     \<noteq> Inr (Geom [1, 2])"
  by (simp add: delete_roads_urb_def getitem_Cons and_then_def grid_def)

subsection \<open>Road reclassification\<close>

text \<open>
  Claim C7. For a row of the table whose \<^verbatim>\<open>fclass\<close> is the tag \<open>s\<close>: when \<open>s\<close> is a
  key of the static table, the lookup returns one of the five coarse classes and, if
  \<^verbatim>\<open>map_roads\<close> returns, the row carries that class in the column \<^verbatim>\<open>roads\<close>; when
  \<open>s\<close> is not a key, the lookup raises KeyError and \<^verbatim>\<open>map_roads\<close> raises: no default
  class is substituted.
\<close>

theorem map_roads_closed_world:
  assumes "''fclass'' \<in> set (columns df)" and "r \<in> set (rows df)"
    and "getitem (snd r) ''fclass'' = Inr (Str s)"
  shows "(s \<in> fst ` set dict_map \<longrightarrow>
           (\<exists>c \<in> coarse_classes. dict_map_getitem (Str s) = Inr (Str c)
              \<and> (\<forall>out. map_roads df = Inr out \<longrightarrow>
                    (fst r, AList.update ''roads'' (Str c) (snd r)) \<in> set (rows out))))
       \<and> (s \<notin> fst ` set dict_map \<longrightarrow>
           dict_map_getitem (Str s) = Inl KeyError \<and> (\<exists>e. map_roads df = Inl e))"
proof (cases "map_of dict_map s")
  case None
  then have absent: "s \<notin> fst ` set dict_map" by (simp add: map_of_eq_None_iff)
  from None have h: "map_of dict_map s = None" .
  have look: "dict_map_getitem (Str s) = Inl KeyError"
    by (simp only: dict_map_getitem.simps h option.case)
  have "and_then (getitem (snd r) ''fclass'') dict_map_getitem = Inl KeyError"
    by (simp add: assms(3) and_then_def look del: dict_map_getitem.simps)
  from assign_from_rows_Inl[of r df "\<lambda>x. and_then (getitem x ''fclass'') dict_map_getitem"
      KeyError "''roads''", OF assms(2) this]
  have "\<exists>e. map_roads df = Inl e"
    by (simp add: map_roads_def assign_from_column_def assms(1))
  with absent look show ?thesis by (simp del: dict_map_getitem.simps)
next
  case (Some c)
  then have cls: "c \<in> coarse_classes" by (rule dict_map_lookup_class)
  from Some have present: "s \<in> fst ` set dict_map"
    by (metis map_of_eq_None_iff option.distinct(1))
  from Some have h: "map_of dict_map s = Some c" .
  have look: "dict_map_getitem (Str s) = Inr (Str c)"
    by (simp only: dict_map_getitem.simps h option.case)
  have "(fst r, AList.update ''roads'' (Str c) (snd r)) \<in> set (rows out)"
    if "map_roads df = Inr out" for out
  proof -
    from that have "assign_from_rows ''roads''
        (\<lambda>x. and_then (getitem x ''fclass'') dict_map_getitem) df = Inr out"
      by (simp add: map_roads_def assign_from_column_def assms(1))
    from assign_from_rows_Inr[OF this]
    have "list_all2 (\<lambda>r r'. \<exists>v. and_then (getitem (snd r) ''fclass'') dict_map_getitem = Inr v
             \<and> r' = (fst r, AList.update ''roads'' v (snd r))) (rows df) (rows out)"
      by simp
    with assms(2) obtain r' where "r' \<in> set (rows out)"
      and "\<exists>v. and_then (getitem (snd r) ''fclass'') dict_map_getitem = Inr v
             \<and> r' = (fst r, AList.update ''roads'' v (snd r))"
      by (blast dest: list_all2_memD)
    then show ?thesis
      by (auto simp: assms(3) and_then_def look simp del: dict_map_getitem.simps)
  qed
  with cls present look show ?thesis by blast
qed

theorem map_roads_closed_world_witness:
  "(\<exists>e. map_roads \<lparr>columns = [''fclass'', ''geometry''],
                    rows = [(0::int, [(''fclass'', Str ''ford''), (''geometry'', Geom [1::nat, 2])])],
                    crs = ''epsg:4326''\<rparr>
          = (Inl e :: py_error + (int, nat list, nat \<times> nat) frame))
   \<and> (\<exists>c \<in> coarse_classes.
          dict_map_getitem (Str ''trunk'' :: (nat list, nat \<times> nat) cell) = Inr (Str c))"
  using map_roads_closed_world[of
      "\<lparr>columns = [''fclass'', ''geometry''],
        rows = [(0::int, [(''fclass'', Str ''ford''), (''geometry'', Geom [1::nat, 2])])],
        crs = ''epsg:4326''\<rparr>"
      "(0::int, [(''fclass'', Str ''ford''), (''geometry'', Geom [1::nat, 2])])" "''ford''"]
    map_roads_closed_world[of
      "\<lparr>columns = [''fclass'', ''geometry''],
        rows = [(0::int, [(''fclass'', Str ''trunk''), (''geometry'', Geom [1::nat, 2])])],
        crs = ''epsg:4326''\<rparr>"
      "(0::int, [(''fclass'', Str ''trunk''), (''geometry'', Geom [1::nat, 2])])" "''trunk''"]
  by (simp add: getitem_Cons dict_map_def coarse_classes_def)

subsection \<open>Country extraction\<close>

lemma and_then_InrE:
  assumes "and_then m f = Inr y"
  obtains x where "m = Inr x" and "f x = Inr y"
  using assms by (cases m) (auto simp: and_then_def)

lemma getitem_update_same: "getitem (AList.update k v x) k = Inr v"
  by (simp add: getitem_def update_conv')

lemma getitem_update_other: "k' \<noteq> k \<Longrightarrow> getitem (AList.update k v x) k' = getitem x k'"
  by (simp add: getitem_def update_conv')

lemma zip_ms_filter:
  "list_all2 (\<lambda>r m. q r = m) rs ms \<Longrightarrow> map fst (filter snd (zip rs ms)) = filter q rs"
  by (induction rule: list_all2_induct) auto

lemma list_all2_filter:
  "list_all2 P xs ys \<Longrightarrow> (\<And>x y. P x y \<Longrightarrow> q x = q' y)
     \<Longrightarrow> list_all2 (\<lambda>x y. P x y \<and> q x) (filter q xs) (filter q' ys)"
  by (induction rule: list_all2_induct) auto

lemma list_all2_compose:
  "list_all2 P xs ys \<Longrightarrow> list_all2 Q ys zs \<Longrightarrow> (\<And>x y z. P x y \<Longrightarrow> Q y z \<Longrightarrow> R x z)
     \<Longrightarrow> list_all2 R xs zs"
  by (induction arbitrary: zs rule: list_all2_induct) (auto simp: list_all2_Cons1)

lemma get_column_InrD:
  assumes "get_column df name = Inr vs"
  shows "name \<in> set (columns df) \<and> list_all2 (\<lambda>r v. getitem (snd r) name = Inr v) (rows df) vs"
  using assms by (auto simp: get_column_def dest: traverse_InrD split: if_splits)

lemma select_where_Inr:
  assumes "select_where name p df = Inr out"
  shows "out = df\<lparr>rows := filter (\<lambda>r. \<exists>c. getitem (snd r) name = Inr c \<and> p c = Inr True) (rows df)\<rparr>"
proof -
  from assms obtain vs ms where vs: "get_column df name = Inr vs"
    and ms: "traverse p vs = Inr ms"
    and out: "out = df\<lparr>rows := map fst (filter snd (zip (rows df) ms))\<rparr>"
    by (auto simp: select_where_def elim!: and_then_InrE)
  from get_column_InrD[OF vs] have 1: "list_all2 (\<lambda>r v. getitem (snd r) name = Inr v) (rows df) vs"
    by simp
  from traverse_InrD[OF ms] have 2: "list_all2 (\<lambda>v m. p v = Inr m) vs ms" .
  have "list_all2 (\<lambda>r m. (\<exists>c. getitem (snd r) name = Inr c \<and> p c = Inr True) = m) (rows df) ms"
    by (rule list_all2_compose[OF 1 2]) auto
  from zip_ms_filter[OF this] out show ?thesis by simp
qed


lemma uniq_membership:
  "c \<in> set (remdups (map fst (filter (\<lambda>vn. 20 < snd vn) (map (\<lambda>v. (v, count_list vs v)) (remdups vs))) @ extra))
     \<longleftrightarrow> 20 < count_list vs c \<or> c \<in> set extra"
proof -
  have "20 < count_list vs c \<Longrightarrow> c \<in> set vs"
    by (metis count_list_0_iff less_nat_zero_code)
  then show ?thesis by (auto simp: image_iff)
qed

lemma measured_unique: "measured V x L \<Longrightarrow> measured V x L' \<Longrightarrow> L = L'"
  by (auto simp: measured_def)

text \<open>
  The computed length is the float sum, not the real sum, of the distances. The floats
  \<open>500 - 1 / 2 ^ 44\<close> and \<open>3 / 2 ^ 46\<close> have a real sum below 500, and the float
  nearest to it is 500: a line of these two segments has the computed length 500.
\<close>

lemma line_length_three_points:
  assumes "V a b = Inr d1" and "V b c = Inr d2"
  shows "line_length add V (Coords [a, b, c]) = Inr (add (add 0 d1) d2)"
  using assms by (simp add: pairwise_def and_then_def py_sum_def)

lemma length_is_the_rounded_sum:
  assumes "V p q = Inr a" and "V q r = Inr b" and "add 0 a = a" and "add a b = s"
  shows "line_length add V (Coords [p, q, r]) = Inr s"
proof -
  have "line_length add V (Coords [p, q, r]) = Inr (add (add 0 a) b)"
    by (rule line_length_three_points[OF assms(1,2)])
  then show ?thesis unfolding assms(3) assms(4) .
qed

lemma boundary_sum_rounds_to_500:
  assumes "V p q = Inr (500 - 1 / 2 ^ 44)" and "V q r = Inr (3 / 2 ^ 46)"
    and "add 0 (500 - 1 / 2 ^ 44) = 500 - 1 / 2 ^ 44"
    and "add (500 - 1 / 2 ^ 44) (3 / 2 ^ 46) = 500"
  shows "line_length add V (Coords [p, q, r]) = Inr 500"
  by (rule length_is_the_rounded_sum[OF assms])

lemma boundary_real_sum_below_500: "(500 - 1 / 2 ^ 44) + 3 / 2 ^ 46 < (500 :: real)"
  by simp

lemma geometry_of_InrD: "geometry_of c = Inr g \<Longrightarrow> c = Geom g"
  by (cases c) auto

lemma map_roads_rows:
  assumes "map_roads d = Inr out"
  shows "list_all2 (\<lambda>r r'. \<exists>c. r' = (fst r, AList.update ''roads'' c (snd r))) (rows d) (rows out)"
proof -
  from assms have "assign_from_rows ''roads''
      (\<lambda>x. and_then (getitem x ''fclass'') dict_map_getitem) d = Inr out"
    by (simp add: map_roads_def assign_from_column_def split: if_splits)
  from assign_from_rows_Inr[OF this] show ?thesis
    by (auto elim!: list_all2_mono)
qed

lemma measure_rows:
  assumes "assign_from_column ''distance'' ''geometry''
             (\<lambda>c. and_then (geometry_of c) (\<lambda>line.
                and_then (line_length (float_add V) (vincenty V) (line_view V line)) (\<lambda>d. Inr (FloatV d)))) d1 = Inr d1'"
  shows "list_all2 (\<lambda>r r'. \<exists>L. measured V (snd r) L
            \<and> r' = (fst r, AList.update ''distance'' (FloatV L) (snd r))) (rows d1) (rows d1')"
proof -
  from assms have "assign_from_rows ''distance''
      (\<lambda>x. and_then (getitem x ''geometry'') (\<lambda>c. and_then (geometry_of c) (\<lambda>line.
                and_then (line_length (float_add V) (vincenty V) (line_view V line)) (\<lambda>d. Inr (FloatV d))))) d1 = Inr d1'"
    by (simp add: assign_from_column_def split: if_splits)
  from assign_from_rows_Inr[OF this] show ?thesis
    by (auto elim!: list_all2_mono and_then_InrE simp: measured_def dest!: geometry_of_InrD)
qed

lemma get_country_rows:
  assumes "get_country V read_file RAI = Inr out" and "read_with_retries read_file = Inr df"
  shows "\<exists>highway. get_column df ''highway'' = Inr highway
      \<and> (\<not> RAI \<longrightarrow> (\<forall>r \<in> set (rows df). tag_kept highway (snd r) \<longrightarrow> (\<exists>L. measured V (snd r) L)))
      \<and> list_all2 (\<lambda>r r'. fst r' = fst r \<and>
            (\<exists>c. if RAI then snd r' = AList.update ''roads'' c (snd r)
                 else \<exists>L. measured V (snd r) L \<and> L < 500 \<and>
                        snd r' = AList.update ''roads'' c (AList.update ''distance'' (FloatV L) (snd r))))
          (filter (\<lambda>r. tag_kept highway (snd r) \<and> (RAI \<or> (\<exists>L. measured V (snd r) L \<and> L < 500))) (rows df))
          (rows out)"
proof -
  let ?major = "[Str ''primary'', Str ''secondary'', Str ''trunk'', Str ''motorway'']"
  from assms obtain highway counts d1 d2 where
    hw: "get_column df ''highway'' = Inr highway"
    and counts: "value_counts highway = Inr counts"
    and d1: "select_where ''highway'' (\<lambda>c. Inr (c \<in> set (remdups (map fst (filter (\<lambda>vn. 20 < snd vn) counts) @ ?major)))) df = Inr d1"
    and d2: "(if \<not> RAI then
                 and_then (assign_from_column ''distance'' ''geometry''
                             (\<lambda>c. and_then (geometry_of c) (\<lambda>line.
                                  and_then (line_length (float_add V) (vincenty V) (line_view V line)) (\<lambda>d.
                                    Inr (FloatV d))))
                             d1)
                   (select_where ''distance'' (value_lt 500))
               else Inr d1) = Inr d2"
    and out: "map_roads d2 = Inr out"
    unfolding get_country_def Let_def by (auto elim!: and_then_InrE)
  from counts have counts_eq: "counts = map (\<lambda>v. (v, count_list highway v)) (remdups highway)"
    by (auto simp: value_counts_def split: if_splits)
  have rows1: "rows d1 = filter (\<lambda>r. tag_kept highway (snd r)) (rows df)"
    using select_where_Inr[OF d1] unfolding counts_eq uniq_membership tag_kept_def by simp
  note roads = map_roads_rows[OF out]
  show ?thesis
  proof (cases RAI)
    case True
    with d2 have "d2 = d1" by simp
    with roads rows1 True hw show ?thesis
      by (auto elim!: list_all2_mono)
  next
    case False
    with d2 obtain d1' where
      m: "assign_from_column ''distance'' ''geometry''
             (\<lambda>c. and_then (geometry_of c) (\<lambda>line.
                and_then (line_length (float_add V) (vincenty V) (line_view V line)) (\<lambda>d. Inr (FloatV d)))) d1 = Inr d1'"
      and sel: "select_where ''distance'' (value_lt 500) d1' = Inr d2"
      by (auto elim!: and_then_InrE)
    note ms = measure_rows[OF m]
    have all_measured: "\<forall>r \<in> set (rows df). tag_kept highway (snd r) \<longrightarrow> (\<exists>L. measured V (snd r) L)"
      using list_all2_memD[OF ms] by (fastforce simp: rows1)
    have rows2: "rows d2 = filter (\<lambda>r. \<exists>c. getitem (snd r) ''distance'' = Inr c \<and> value_lt 500 c = Inr True) (rows d1')"
      using select_where_Inr[OF sel] by simp
    have short: "list_all2 (\<lambda>r r'. (\<exists>L. measured V (snd r) L
            \<and> r' = (fst r, AList.update ''distance'' (FloatV L) (snd r)))
            \<and> (\<exists>L. measured V (snd r) L \<and> L < 500))
          (filter (\<lambda>r. \<exists>L. measured V (snd r) L \<and> L < 500) (rows d1)) (rows d2)"
      unfolding rows2
    proof (rule list_all2_filter[OF ms])
      fix r r'
      assume "\<exists>L. measured V (snd r) L \<and> r' = (fst r, AList.update ''distance'' (FloatV L) (snd r))"
      then obtain L where L: "measured V (snd r) L"
        and r': "r' = (fst r, AList.update ''distance'' (FloatV L) (snd r))" by blast
      have "(\<exists>L. measured V (snd r) L \<and> L < 500) = (L < 500)"
        using L measured_unique by blast
      moreover have "(\<exists>c. getitem (snd r') ''distance'' = Inr c \<and> value_lt 500 c = Inr True) = (L < 500)"
        by (simp add: r' getitem_update_same)
      ultimately show "(\<exists>L. measured V (snd r) L \<and> L < 500)
          = (\<exists>c. getitem (snd r') ''distance'' = Inr c \<and> value_lt 500 c = Inr True)"
        by simp
    qed
    have "list_all2 (\<lambda>r r'. fst r' = fst r \<and>
            (\<exists>c L. measured V (snd r) L \<and> L < 500 \<and>
                        snd r' = AList.update ''roads'' c (AList.update ''distance'' (FloatV L) (snd r))))
          (filter (\<lambda>r. \<exists>L. measured V (snd r) L \<and> L < 500) (rows d1)) (rows out)"
    proof (rule list_all2_compose[OF short roads])
      fix x y z
      assume xy: "(\<exists>L. measured V (snd x) L \<and> y = (fst x, AList.update ''distance'' (FloatV L) (snd x)))
            \<and> (\<exists>L. measured V (snd x) L \<and> L < 500)"
        and yz: "\<exists>c. z = (fst y, AList.update ''roads'' c (snd y))"
      from xy obtain L where L: "measured V (snd x) L"
        and y: "y = (fst x, AList.update ''distance'' (FloatV L) (snd x))" by blast
      from xy L have lt: "L < 500" using measured_unique by blast
      from yz y obtain c where
        z: "z = (fst x, AList.update ''roads'' c (AList.update ''distance'' (FloatV L) (snd x)))"
        by auto
      have "measured V (snd x) L \<and> L < 500 \<and>
                 snd z = AList.update ''roads'' c (AList.update ''distance'' (FloatV L) (snd x))"
        using L lt z by simp
      then have "\<exists>c L. measured V (snd x) L \<and> L < 500 \<and>
                 snd z = AList.update ''roads'' c (AList.update ''distance'' (FloatV L) (snd x))"
        by blast
      then show "fst z = fst x \<and>
            (\<exists>c L. measured V (snd x) L \<and> L < 500 \<and>
                 snd z = AList.update ''roads'' c (AList.update ''distance'' (FloatV L) (snd x)))"
        using z by simp
    qed
    with False hw all_measured show ?thesis
      by (auto simp: rows1 elim!: list_all2_mono)
  qed
qed



lemma sample_roads_eval:
  "get_country grid_geodesy (\<lambda>n. if n < 2 then Inl ValueError else Inr sample_roads) True
     = Inr sample_roads_out"
  by code_simp

lemma sample_roads_read:
  "read_with_retries (\<lambda>n. if n < 2 then Inl ValueError else Inr sample_roads) = Inr sample_roads"
  by (simp add: read_with_retries_def)

lemma sample_lines_eval:
  "get_country grid_geodesy (\<lambda>n. Inr sample_lines) False = Inr sample_lines_out"
  by code_simp

lemma sample_lines_read: "read_with_retries (\<lambda>n. Inr sample_lines) = Inr sample_lines"
  by (simp add: read_with_retries_def)

text \<open>
  Claim C8. When \<^verbatim>\<open>get_country\<close> is called with \<^verbatim>\<open>RAI\<close> false and returns, every
  loaded record that passes the tag filter has a computed length \<open>L\<close>, and the returned
  records are, in order and with their index labels, exactly those among them with
  \<open>L < 500\<close> (each with its length in \<^verbatim>\<open>distance\<close> and its class in \<^verbatim>\<open>roads\<close>): a
  record of length 500 or more is not returned.
\<close>

theorem get_country_length_filter:
  assumes "get_country V read_file False = Inr out"
    and "read_with_retries read_file = Inr df"
  shows "\<exists>highway. get_column df ''highway'' = Inr highway
      \<and> (\<forall>r \<in> set (rows df). tag_kept highway (snd r) \<longrightarrow> (\<exists>L. measured V (snd r) L))
      \<and> list_all2 (\<lambda>r r'. fst r' = fst r \<and>
            (\<exists>c L. measured V (snd r) L \<and> L < 500 \<and>
               snd r' = AList.update ''roads'' c (AList.update ''distance'' (FloatV L) (snd r))))
          (filter (\<lambda>r. tag_kept highway (snd r) \<and> (\<exists>L. measured V (snd r) L \<and> L < 500)) (rows df))
          (rows out)"
  using get_country_rows[OF assms] by (auto elim!: list_all2_mono)

theorem get_country_length_filter_witness:
  "get_country grid_geodesy (\<lambda>n. Inr sample_lines) False = Inr sample_lines_out
   \<and> (\<exists>highway. get_column sample_lines ''highway'' = Inr highway
      \<and> (\<forall>r \<in> set (rows sample_lines).
            tag_kept highway (snd r) \<longrightarrow> (\<exists>L. measured grid_geodesy (snd r) L))
      \<and> list_all2 (\<lambda>r r'. fst r' = fst r \<and>
            (\<exists>c L. measured grid_geodesy (snd r) L \<and> L < 500 \<and>
               snd r' = AList.update ''roads'' c (AList.update ''distance'' (FloatV L) (snd r))))
          (filter (\<lambda>r. tag_kept highway (snd r)
                      \<and> (\<exists>L. measured grid_geodesy (snd r) L \<and> L < 500)) (rows sample_lines))
          (rows sample_lines_out))"
  using get_country_length_filter[OF sample_lines_eval sample_lines_read] sample_lines_eval
  by simp

text \<open>
  Claim C10. When \<^verbatim>\<open>get_country\<close> returns, the returned records are, in order and with
  their index labels, exactly the loaded records whose \<^verbatim>\<open>highway\<close> tag occurs more than
  20 times in the loaded data or is one of \<^verbatim>\<open>primary\<close>, \<^verbatim>\<open>secondary\<close>,
  \<^verbatim>\<open>trunk\<close>, \<^verbatim>\<open>motorway\<close> (and, when \<^verbatim>\<open>RAI\<close> is false, whose length is below
  500); apart from the added columns \<^verbatim>\<open>roads\<close> and \<^verbatim>\<open>distance\<close> they are unchanged.
\<close>

theorem get_country_tag_frequency_filter:
  assumes "get_country V read_file RAI = Inr out"
    and "read_with_retries read_file = Inr df"
  shows "\<exists>highway. get_column df ''highway'' = Inr highway
      \<and> list_all2 (\<lambda>r r'. fst r' = fst r \<and>
            (\<exists>c. if RAI then snd r' = AList.update ''roads'' c (snd r)
                 else \<exists>L. snd r' = AList.update ''roads'' c
                                      (AList.update ''distance'' (FloatV L) (snd r))))
          (filter (\<lambda>r. tag_kept highway (snd r)
                      \<and> (RAI \<or> (\<exists>L. measured V (snd r) L \<and> L < 500))) (rows df))
          (rows out)"
proof -
  from get_country_rows[OF assms] obtain highway where
    hw: "get_column df ''highway'' = Inr highway"
    and rel: "list_all2 (\<lambda>r r'. fst r' = fst r \<and>
            (\<exists>c. if RAI then snd r' = AList.update ''roads'' c (snd r)
                 else \<exists>L. measured V (snd r) L \<and> L < 500 \<and>
                        snd r' = AList.update ''roads'' c (AList.update ''distance'' (FloatV L) (snd r))))
          (filter (\<lambda>r. tag_kept highway (snd r) \<and> (RAI \<or> (\<exists>L. measured V (snd r) L \<and> L < 500))) (rows df))
          (rows out)"
    by blast
  from rel have "list_all2 (\<lambda>r r'. fst r' = fst r \<and>
            (\<exists>c. if RAI then snd r' = AList.update ''roads'' c (snd r)
                 else \<exists>L. snd r' = AList.update ''roads'' c
                                      (AList.update ''distance'' (FloatV L) (snd r))))
          (filter (\<lambda>r. tag_kept highway (snd r)
                      \<and> (RAI \<or> (\<exists>L. measured V (snd r) L \<and> L < 500))) (rows df))
          (rows out)"
    by (rule list_all2_mono) (auto split: if_splits)
  with hw show ?thesis by blast
qed

theorem get_country_tag_frequency_filter_witness:
  "get_country grid_geodesy (\<lambda>n. if n < 2 then Inl ValueError else Inr sample_roads) True
     = Inr sample_roads_out
   \<and> (\<exists>highway. get_column sample_roads ''highway'' = Inr highway
      \<and> list_all2 (\<lambda>r r'. fst r' = fst r \<and> (\<exists>c. snd r' = AList.update ''roads'' c (snd r)))
          (filter (\<lambda>r. tag_kept highway (snd r)) (rows sample_roads))
          (rows sample_roads_out))"
  using get_country_tag_frequency_filter[OF sample_roads_eval sample_roads_read] sample_roads_eval
  by simp

subsection \<open>Multi-part explosion\<close>

lemma filter_label_single:
  assumes "distinct (map fst rs)" and "r \<in> set rs"
  shows "filter (\<lambda>r'. fst r' = fst r) rs = [r]"
  using assms
proof (induction rs)
  case Nil then show ?case by simp
next
  case (Cons a rs)
  show ?case
  proof (cases "a = r")
    case True
    with Cons.prems have "fst r \<notin> fst ` set rs" by auto
    then have "\<forall>r' \<in> set rs. fst r' \<noteq> fst r" by (metis imageI)
    then have "filter (\<lambda>r'. fst r' = fst r) rs = []" by (simp add: filter_empty_conv)
    with True show ?thesis by simp
  next
    case False
    with Cons.prems have "r \<in> set rs" and "fst a \<noteq> fst r" by force+
    with Cons show ?thesis by simp
  qed
qed

lemma geometry_column_InrD:
  assumes "geometry_column df = Inr gs"
  shows "''geometry'' \<in> set (columns df)
       \<and> list_all2 (\<lambda>r g. getitem (snd r) ''geometry'' = Inr (Geom g)) (rows df) gs"
proof -
  from assms have c: "''geometry'' \<in> set (columns df)"
    and t: "traverse (\<lambda>r. and_then (getitem (snd r) ''geometry'') geometry_of) (rows df) = Inr gs"
    by (auto simp: geometry_column_def split: if_splits)
  from traverse_InrD[OF t]
  have "list_all2 (\<lambda>r g. getitem (snd r) ''geometry'' = Inr (Geom g)) (rows df) gs"
    by (rule list_all2_mono) (auto elim!: and_then_InrE dest!: geometry_of_InrD)
  with c show ?thesis by simp
qed

lemma suffixed_id: "c \<notin> set others \<Longrightarrow> suffixed others sfx c = c"
  by (simp add: suffixed_def)

lemma rename_keys_id:
  "\<forall>kv \<in> set x. fst kv \<notin> set others \<Longrightarrow> map (\<lambda>kv. (suffixed others sfx (fst kv), snd kv)) x = x"
  by (induction x) (auto simp: suffixed_def)

lemma traverse_comp: "traverse (f \<circ> g) xs = traverse f (map g xs)"
  by (induction xs) auto

lemma parts_single: "\<not> is_multi G g \<Longrightarrow> parts G g = [(0, g)]"
  by (simp add: parts_def)

lemma concat_map_single:
  "(\<And>x. x \<in> set xs \<Longrightarrow> f x = [g x]) \<Longrightarrow> concat (map f xs) = map g xs"
  by (induction xs) auto

lemma explode_geometry_single:
  assumes gs: "geometry_column gdf = Inr gs"
    and single: "\<forall>g \<in> set gs. \<not> is_multi G g"
    and name: "''name'' \<notin> set (columns gdf)"
  shows "explode_geometry G gdf = Inr (map (\<lambda>rg. ((fst (fst rg), 0), snd rg)) (zip (rows gdf) gs))"
proof -
  have "concat (map (\<lambda>rg. map (\<lambda>jp. ((fst (fst rg), fst jp), snd jp)) (parts G (snd rg)))
                   (zip (rows gdf) gs))
      = map (\<lambda>rg. ((fst (fst rg), 0), snd rg)) (zip (rows gdf) gs)"
  proof (rule concat_map_single)
    fix rg assume "rg \<in> set (zip (rows gdf) gs)"
    then have "snd rg \<in> set gs" by (metis prod.collapse set_zip_rightD)
    with single have "parts G (snd rg) = [(0, snd rg)]" by (simp add: parts_single)
    then show "map (\<lambda>jp. ((fst (fst rg), fst jp), snd jp)) (parts G (snd rg))
        = [((fst (fst rg), 0), snd rg)]" by simp
  qed
  then show ?thesis by (simp add: explode_geometry_def gs and_then_Inr name)
qed

lemma explode_frame_single:
  assumes gs: "geometry_column gdf = Inr gs"
    and single: "\<forall>g \<in> set gs. \<not> is_multi G g"
  shows "explode_frame G gdf =
     Inr \<lparr>columns = filter (\<lambda>c. c \<noteq> ''geometry'') (columns gdf) @ [''geometry''],
          rows = map (\<lambda>rg. ((fst (fst rg), 0),
                         filter (\<lambda>kv. fst kv \<noteq> ''geometry'') (snd (fst rg))
                         @ [(''geometry'', Geom (snd rg))]))
                   (zip (rows gdf) gs),
          crs = crs gdf\<rparr>"
proof -
  have "concat (map (\<lambda>rg. map (\<lambda>jp. ((fst (fst rg), fst jp),
                               filter (\<lambda>kv. fst kv \<noteq> ''geometry'') (snd (fst rg))
                               @ [(''geometry'', Geom (snd jp))]))
                             (parts G (snd rg)))
                      (zip (rows gdf) gs))
      = map (\<lambda>rg. ((fst (fst rg), 0),
                         filter (\<lambda>kv. fst kv \<noteq> ''geometry'') (snd (fst rg))
                         @ [(''geometry'', Geom (snd rg))]))
                   (zip (rows gdf) gs)"
  proof (rule concat_map_single)
    fix rg assume "rg \<in> set (zip (rows gdf) gs)"
    then have "snd rg \<in> set gs" by (metis prod.collapse set_zip_rightD)
    with single have "parts G (snd rg) = [(0, snd rg)]" by (simp add: parts_single)
    then show "map (\<lambda>jp. ((fst (fst rg), fst jp),
                               filter (\<lambda>kv. fst kv \<noteq> ''geometry'') (snd (fst rg))
                               @ [(''geometry'', Geom (snd jp))]))
                             (parts G (snd rg))
        = [((fst (fst rg), 0), filter (\<lambda>kv. fst kv \<noteq> ''geometry'') (snd (fst rg))
                         @ [(''geometry'', Geom (snd rg))])]" by simp
  qed
  then show ?thesis by (simp add: explode_frame_def gs and_then_Inr)
qed

lemma last_of_suffix: "c @ [a, b] = k \<Longrightarrow> last k = b"
  by auto

lemma suffixed_not_level:
  assumes "c \<noteq> ''level_0''" and "c \<noteq> ''level_1''" and "sfx = ''_x'' \<or> sfx = ''_y''"
  shows "suffixed others sfx c \<noteq> ''level_0'' \<and> suffixed others sfx c \<noteq> ''level_1''"
proof (cases "c \<in> set others")
  case False
  with assms show ?thesis by (simp add: suffixed_def)
next
  case True
  have "c @ sfx \<noteq> ''level_0''"
  proof
    assume "c @ sfx = ''level_0''"
    from assms(3) this have "last ''level_0'' = CHR ''x'' \<or> last ''level_0'' = CHR ''y''"
      by (auto dest: last_of_suffix)
    then show False by simp
  qed
  moreover have "c @ sfx \<noteq> ''level_1''"
  proof
    assume "c @ sfx = ''level_1''"
    from assms(3) this have "last ''level_1'' = CHR ''x'' \<or> last ''level_1'' = CHR ''y''"
      by (auto dest: last_of_suffix)
    then show False by simp
  qed
  ultimately show ?thesis using True by (simp add: suffixed_def)
qed


lemma filter_keep_all: "(\<And>x. x \<in> set xs \<Longrightarrow> P x) \<Longrightarrow> filter P xs = xs"
  by (simp add: filter_id_conv)

lemma enumerate_memD: "nz \<in> set (enumerate n Z) \<Longrightarrow> snd nz \<in> set Z"
  by (cases nz) (auto simp: enumerate_eq_zip dest: set_zip_rightD)

lemma explode_join:
  fixes gdf :: "(int, 'g, 'b) frame" and gs :: "'g list"
    and gdf2 :: "(int, 'g, 'b) frame"
    and mid :: "(int \<times> ('g, 'b) series) \<times> 'g \<Rightarrow> ('g, 'b) series"
  assumes wf: "wf_frame gdf"
    and geo: "''geometry'' \<in> set (columns gdf)"
    and labels: "distinct (map fst (rows gdf))"
    and l0: "''level_0'' \<notin> set (columns gdf)" and l1: "''level_1'' \<notin> set (columns gdf)"
    and m0: "''level_0'' \<notin> set midcols" and m1: "''level_1'' \<notin> set midcols"
    and midkeys: "\<And>z. z \<in> set (zip (rows gdf) gs) \<Longrightarrow> map fst (mid z) = midcols"
    and cols2: "columns gdf2 = [''level_0'', ''level_1''] @ midcols"
    and rows2: "rows gdf2 = map (\<lambda>nz. (int (fst nz),
                    [(''level_0'', IntV (fst (fst (snd nz)))), (''level_1'', IntV 0)] @ mid (snd nz)))
                  (enumerate 0 (zip (rows gdf) gs))"
  shows "and_then (drop_columns [''geometry''] gdf) (\<lambda>attributes.
         and_then (merge_on_index gdf2 ''level_0'' attributes (''_x'', ''_y'')) (\<lambda>gdf_out.
         and_then (set_index2 ''level_0'' ''level_1'' gdf_out) (\<lambda>gdf_out.
           Inr (gdf_out\<lparr>crs := crs gdf\<rparr>))))
       = Inr \<lparr>columns = map (suffixed (filter (\<lambda>c. c \<noteq> ''geometry'') (columns gdf)) ''_x'') midcols
                        @ map (suffixed ([''level_0'', ''level_1''] @ midcols) ''_y'')
                            (filter (\<lambda>c. c \<noteq> ''geometry'') (columns gdf)),
              rows = map (\<lambda>z. ((fst (fst z), 0),
                         map (\<lambda>kv. (suffixed (filter (\<lambda>c. c \<noteq> ''geometry'') (columns gdf)) ''_x'' (fst kv),
                                    snd kv)) (mid z)
                         @ map (\<lambda>kv. (suffixed ([''level_0'', ''level_1''] @ midcols) ''_y'' (fst kv), snd kv))
                             (filter (\<lambda>kv. fst kv \<noteq> ''geometry'') (snd (fst z)))))
                       (zip (rows gdf) gs),
              crs = crs gdf\<rparr>"
proof -
  let ?Z = "zip (rows gdf) gs"
  let ?A = "filter (\<lambda>c. c \<noteq> ''geometry'') (columns gdf)"
  let ?C2 = "[''level_0'', ''level_1''] @ midcols"
  define attr :: "int \<times> ('g, 'b) series \<Rightarrow> int \<times> ('g, 'b) series"
    where "attr = (\<lambda>r. (fst r, filter (\<lambda>kv. fst kv \<noteq> ''geometry'') (snd r)))"
  define L :: "nat \<times> (int \<times> ('g, 'b) series) \<times> 'g \<Rightarrow> int \<times> ('g, 'b) series"
    where "L = (\<lambda>nz. (int (fst nz),
                    [(''level_0'', IntV (fst (fst (snd nz)))), (''level_1'', IntV 0)] @ mid (snd nz)))"
  define rx :: "string \<times> ('g, 'b) cell \<Rightarrow> string \<times> ('g, 'b) cell"
    where "rx = (\<lambda>kv. (suffixed ?A ''_x'' (fst kv), snd kv))"
  define ry :: "string \<times> ('g, 'b) cell \<Rightarrow> string \<times> ('g, 'b) cell"
    where "ry = (\<lambda>kv. (suffixed ?C2 ''_y'' (fst kv), snd kv))"
  define M :: "nat \<times> (int \<times> ('g, 'b) series) \<times> 'g \<Rightarrow> int \<times> ('g, 'b) series"
    where "M = (\<lambda>nz. (int (fst nz),
                 [(''level_0'', IntV (fst (fst (snd nz)))), (''level_1'', IntV 0)]
                 @ map rx (mid (snd nz)) @ map ry (snd (attr (fst (snd nz))))))"
  define final :: "(int \<times> ('g, 'b) series) \<times> 'g \<Rightarrow> (int \<times> int) \<times> ('g, 'b) series"
    where "final = (\<lambda>z. ((fst (fst z), 0), map rx (mid z) @ map ry (snd (attr (fst z)))))"
  define attrs where "attrs = gdf\<lparr>columns := ?A, rows := map attr (rows gdf)\<rparr>"
  have rows2': "rows gdf2 = map L (enumerate 0 ?Z)"
    by (simp add: rows2 L_def)
  have keys: "map fst (snd r) = columns gdf" if "r \<in> set (rows gdf)" for r
    using wf that by (auto simp: wf_frame_def list_all_iff)
  have dropc: "drop_columns [''geometry''] gdf = Inr attrs"
    using geo by (simp add: drop_columns_def attrs_def attr_def)
  have A0: "''level_0'' \<notin> set ?A" and A1: "''level_1'' \<notin> set ?A"
    using l0 l1 by simp_all
  have rx_levels: "map rx [(''level_0'', v0), (''level_1'', v1)] = [(''level_0'', v0), (''level_1'', v1)]"
    for v0 v1 :: "('g, 'b) cell"
    by (simp add: rx_def suffixed_id[OF A0] suffixed_id[OF A1])
  have parent: "fst (snd nz) \<in> set (rows gdf)" if "nz \<in> set (enumerate 0 ?Z)" for nz
  proof -
    from that have "snd nz \<in> set ?Z" by (rule enumerate_memD)
    then have "(fst (snd nz), snd (snd nz)) \<in> set ?Z" by simp
    then show ?thesis by (rule set_zip_leftD)
  qed
  have match: "filter (\<lambda>r. getitem (snd (L nz)) ''level_0'' = Inr (IntV (fst r))) (rows attrs)
        = [attr (fst (snd nz))]" if nz: "nz \<in> set (enumerate 0 ?Z)" for nz
  proof -
    have g: "getitem (snd (L nz)) ''level_0'' = Inr (IntV (fst (fst (snd nz))))"
      by (simp add: L_def getitem_Cons)
    have "filter (\<lambda>r. getitem (snd (L nz)) ''level_0'' = Inr (IntV (fst r))) (rows attrs)
        = map attr (filter (\<lambda>r'. fst (fst (snd nz)) = fst r') (rows gdf))"
      unfolding g by (simp add: attrs_def filter_map o_def attr_def)
    also have "(\<lambda>r'::int \<times> ('g, 'b) series. fst (fst (snd nz)) = fst r') = (\<lambda>r'. fst r' = fst (fst (snd nz)))"
      by (rule ext) (rule eq_commute)
    also have "map attr (filter (\<lambda>r'. fst r' = fst (fst (snd nz))) (rows gdf)) = [attr (fst (snd nz))]"
      by (simp only: filter_label_single[OF labels parent[OF nz]] list.map)
    finally show ?thesis .
  qed
  define merged :: "(int, 'g, 'b) frame" where
    "merged = \<lparr>columns = [''level_0'', ''level_1''] @ map (suffixed ?A ''_x'') midcols
                         @ map (suffixed ?C2 ''_y'') ?A,
               rows = map M (enumerate 0 ?Z), crs = crs gdf2\<rparr>"
  have mg: "merge_on_index gdf2 ''level_0'' attrs (''_x'', ''_y'') = Inr merged"
  proof -
    have c: "map (suffixed (columns attrs) ''_x'') (columns gdf2)
          @ map (suffixed (columns gdf2) ''_y'') (columns attrs)
        = [''level_0'', ''level_1''] @ map (suffixed ?A ''_x'') midcols @ map (suffixed ?C2 ''_y'') ?A"
      by (simp add: cols2 attrs_def suffixed_id[OF A0] suffixed_id[OF A1])
    have row: "map (\<lambda>r. (fst (L nz),
                  map (\<lambda>kv. (suffixed (columns attrs) ''_x'' (fst kv), snd kv)) (snd (L nz))
                  @ map (\<lambda>kv. (suffixed (columns gdf2) ''_y'' (fst kv), snd kv)) (snd r)))
              (filter (\<lambda>r. getitem (snd (L nz)) ''level_0'' = Inr (IntV (fst r))) (rows attrs))
          = [M nz]" if nz: "nz \<in> set (enumerate 0 ?Z)" for nz
    proof -
      have "map (\<lambda>kv. (suffixed (columns attrs) ''_x'' (fst kv), snd kv)) (snd (L nz))
          = [(''level_0'', IntV (fst (fst (snd nz)))), (''level_1'', IntV 0)] @ map rx (mid (snd nz))"
        using rx_levels[of "IntV (fst (fst (snd nz)))" "IntV 0"]
        by (simp add: L_def attrs_def rx_def)
      moreover have "map (\<lambda>kv. (suffixed (columns gdf2) ''_y'' (fst kv), snd kv)) (snd (attr (fst (snd nz))))
          = map ry (snd (attr (fst (snd nz))))"
        by (simp add: ry_def cols2)
      ultimately show ?thesis
        unfolding match[OF nz] by (simp add: M_def L_def)
    qed
    have "concat (map (\<lambda>l. map (\<lambda>r. (fst l,
                  map (\<lambda>kv. (suffixed (columns attrs) ''_x'' (fst kv), snd kv)) (snd l)
                  @ map (\<lambda>kv. (suffixed (columns gdf2) ''_y'' (fst kv), snd kv)) (snd r)))
              (filter (\<lambda>r. getitem (snd l) ''level_0'' = Inr (IntV (fst r))) (rows attrs)))
            (map L (enumerate 0 ?Z)))
        = map M (enumerate 0 ?Z)"
      unfolding map_map o_def by (rule concat_map_single) (rule row)
    then have r: "concat (map (\<lambda>l. map (\<lambda>r. (fst l,
                  map (\<lambda>kv. (suffixed (columns attrs) ''_x'' (fst kv), snd kv)) (snd l)
                  @ map (\<lambda>kv. (suffixed (columns gdf2) ''_y'' (fst kv), snd kv)) (snd r)))
              (filter (\<lambda>r. getitem (snd l) ''level_0'' = Inr (IntV (fst r))) (rows attrs)))
            (rows gdf2)) = rows merged"
      by (simp only: rows2' merged_def frame.simps)
    have "merge_on_index gdf2 ''level_0'' attrs (''_x'', ''_y'')
        = Inr \<lparr>columns = map (suffixed (columns attrs) ''_x'') (columns gdf2)
                       @ map (suffixed (columns gdf2) ''_y'') (columns attrs),
               rows = concat (map (\<lambda>l. map (\<lambda>r. (fst l,
                  map (\<lambda>kv. (suffixed (columns attrs) ''_x'' (fst kv), snd kv)) (snd l)
                  @ map (\<lambda>kv. (suffixed (columns gdf2) ''_y'' (fst kv), snd kv)) (snd r)))
              (filter (\<lambda>r. getitem (snd l) ''level_0'' = Inr (IntV (fst r))) (rows attrs)))
            (rows gdf2)),
               crs = crs gdf2\<rparr>"
      by (simp add: merge_on_index_def cols2)
    then show ?thesis unfolding c r by (simp add: merged_def)
  qed
  have not_level_x: "fst (rx kv) \<noteq> ''level_0'' \<and> fst (rx kv) \<noteq> ''level_1''"
    if "fst kv \<in> set midcols" for kv :: "string \<times> ('g, 'b) cell"
  proof -
    from that m0 m1 have "fst kv \<noteq> ''level_0''" and "fst kv \<noteq> ''level_1''" by auto
    then show ?thesis
      unfolding rx_def fst_conv by (rule suffixed_not_level) simp
  qed
  have not_level_y: "fst (ry kv) \<noteq> ''level_0'' \<and> fst (ry kv) \<noteq> ''level_1''"
    if "fst kv \<in> set (columns gdf)" for kv :: "string \<times> ('g, 'b) cell"
  proof -
    from that l0 l1 have "fst kv \<noteq> ''level_0''" and "fst kv \<noteq> ''level_1''" by auto
    then show ?thesis
      unfolding ry_def fst_conv by (rule suffixed_not_level) simp
  qed
  have si: "set_index2 ''level_0'' ''level_1'' merged
      = Inr \<lparr>columns = map (suffixed ?A ''_x'') midcols @ map (suffixed ?C2 ''_y'') ?A,
             rows = map (final \<circ> snd) (enumerate 0 ?Z), crs = crs gdf2\<rparr>"
  proof -
    have t: "traverse ((\<lambda>r.
                    and_then (getitem (snd r) ''level_0'') (\<lambda>v0. and_then (integer_of v0) (\<lambda>i0.
                    and_then (getitem (snd r) ''level_1'') (\<lambda>v1. and_then (integer_of v1) (\<lambda>i1.
                      Inr ((i0, i1), filter (\<lambda>kv. fst kv \<noteq> ''level_0'' \<and> fst kv \<noteq> ''level_1'') (snd r))))))) \<circ> M)
                  (enumerate 0 ?Z) = Inr (map (final \<circ> snd) (enumerate 0 ?Z))"
    proof (rule traverse_map)
      fix nz assume nz: "nz \<in> set (enumerate 0 ?Z)"
      from nz have z: "snd nz \<in> set ?Z" by (rule enumerate_memD)
      have "filter (\<lambda>kv. fst kv \<noteq> ''level_0'' \<and> fst kv \<noteq> ''level_1'') (map rx (mid (snd nz)))
          = map rx (mid (snd nz))"
      proof (rule filter_keep_all)
        fix kv assume "kv \<in> set (map rx (mid (snd nz)))"
        then obtain kv' where kv': "kv' \<in> set (mid (snd nz))" and kv: "kv = rx kv'" by auto
        from kv' have "fst kv' \<in> set (map fst (mid (snd nz)))" by simp
        then have "fst kv' \<in> set midcols" by (simp only: midkeys[OF z])
        from not_level_x[OF this] show "fst kv \<noteq> ''level_0'' \<and> fst kv \<noteq> ''level_1''"
          unfolding kv by blast
      qed
      moreover have "filter (\<lambda>kv. fst kv \<noteq> ''level_0'' \<and> fst kv \<noteq> ''level_1'')
            (map ry (snd (attr (fst (snd nz)))))
          = map ry (snd (attr (fst (snd nz))))"
      proof (rule filter_keep_all)
        fix kv assume "kv \<in> set (map ry (snd (attr (fst (snd nz)))))"
        then obtain kv' where kv': "kv' \<in> set (snd (attr (fst (snd nz))))" and kv: "kv = ry kv'" by auto
        from kv' have "fst kv' \<in> set (map fst (snd (fst (snd nz))))" by (auto simp: attr_def)
        then have "fst kv' \<in> set (columns gdf)" by (simp only: keys[OF parent[OF nz]])
        from not_level_y[OF this] show "fst kv \<noteq> ''level_0'' \<and> fst kv \<noteq> ''level_1''"
          unfolding kv by blast
      qed
      ultimately show "((\<lambda>r.
                    and_then (getitem (snd r) ''level_0'') (\<lambda>v0. and_then (integer_of v0) (\<lambda>i0.
                    and_then (getitem (snd r) ''level_1'') (\<lambda>v1. and_then (integer_of v1) (\<lambda>i1.
                      Inr ((i0, i1), filter (\<lambda>kv. fst kv \<noteq> ''level_0'' \<and> fst kv \<noteq> ''level_1'') (snd r))))))) \<circ> M) nz
              = Inr ((final \<circ> snd) nz)"
        by (simp add: M_def final_def getitem_Cons and_then_Inr)
    qed
    have fx: "filter (\<lambda>c. c \<noteq> ''level_0'' \<and> c \<noteq> ''level_1'') (map (suffixed ?A ''_x'') midcols)
        = map (suffixed ?A ''_x'') midcols"
    proof (rule filter_keep_all)
      fix c assume "c \<in> set (map (suffixed ?A ''_x'') midcols)"
      then obtain c' where c': "c' \<in> set midcols" and c: "c = suffixed ?A ''_x'' c'" by auto
      from c' m0 m1 have "c' \<noteq> ''level_0''" and "c' \<noteq> ''level_1''" by auto
      then show "c \<noteq> ''level_0'' \<and> c \<noteq> ''level_1''"
        unfolding c by (rule suffixed_not_level) simp
    qed
    have fy: "filter (\<lambda>c. c \<noteq> ''level_0'' \<and> c \<noteq> ''level_1'') (map (suffixed ?C2 ''_y'') ?A)
        = map (suffixed ?C2 ''_y'') ?A"
    proof (rule filter_keep_all)
      fix c assume "c \<in> set (map (suffixed ?C2 ''_y'') ?A)"
      then obtain c' where c': "c' \<in> set ?A" and c: "c = suffixed ?C2 ''_y'' c'" by auto
      from c' A0 A1 have "c' \<noteq> ''level_0''" and "c' \<noteq> ''level_1''" by auto
      then show "c \<noteq> ''level_0'' \<and> c \<noteq> ''level_1''"
        unfolding c by (rule suffixed_not_level) simp
    qed
    have cm: "columns merged = [''level_0'', ''level_1''] @ map (suffixed ?A ''_x'') midcols
                         @ map (suffixed ?C2 ''_y'') ?A"
      unfolding merged_def by (simp only: frame.simps)
    have fl: "filter (\<lambda>c. c \<noteq> ''level_0'' \<and> c \<noteq> ''level_1'') [''level_0'', ''level_1''] = []"
      by simp
    have fc: "filter (\<lambda>c. c \<noteq> ''level_0'' \<and> c \<noteq> ''level_1'') (columns merged)
        = map (suffixed ?A ''_x'') midcols @ map (suffixed ?C2 ''_y'') ?A"
      unfolding cm filter_append fl fx fy by (simp only: append_Nil)
    have inc: "''level_0'' \<in> set (columns merged)" "''level_1'' \<in> set (columns merged)"
      by (simp_all add: merged_def)
    have rm: "rows merged = map M (enumerate 0 ?Z)" by (simp add: merged_def)
    show ?thesis
      unfolding set_index2_def rm traverse_comp[symmetric] t fc
      using inc by (simp add: and_then_Inr merged_def)
  qed
  have fin: "map (final \<circ> snd) (enumerate 0 ?Z) = map final ?Z"
    by (simp only: map_map[symmetric] map_snd_enumerate)
  show ?thesis
    unfolding dropc and_then_Inr mg si fin
    by (simp add: final_def rx_def ry_def attr_def)
qed


lemma enumerate_map: "enumerate n (map f xs) = map (\<lambda>nx. (fst nx, f (snd nx))) (enumerate n xs)"
  by (induction xs arbitrary: n) auto

lemma attribute_keys:
  assumes "wf_frame gdf" and "r \<in> set (rows gdf)"
  shows "map fst (filter (\<lambda>kv. fst kv \<noteq> ''geometry'') (snd r))
       = filter (\<lambda>c. c \<noteq> ''geometry'') (columns gdf)"
proof -
  from assms have k: "map fst (snd r) = columns gdf"
    by (auto simp: wf_frame_def list_all_iff)
  have "filter (\<lambda>c. c \<noteq> ''geometry'') (map fst (snd r))
      = map fst (filter (\<lambda>kv. fst kv \<noteq> ''geometry'') (snd r))"
    by (simp add: filter_map o_def)
  then show ?thesis unfolding k by (rule sym)
qed

lemma rename_keys_all:
  "\<forall>kv \<in> set x. fst kv \<in> set others
     \<Longrightarrow> map (\<lambda>kv. (suffixed others sfx (fst kv), snd kv)) x = map (\<lambda>kv. (fst kv @ sfx, snd kv)) x"
  by (induction x) (auto simp: suffixed_def)

lemma explode_single_part_series:
  fixes gdf :: "(int, 'g, 'b) frame"
  assumes wf: "wf_frame gdf"
    and gs: "geometry_column gdf = Inr gs"
    and single: "\<forall>g \<in> set gs. \<not> is_multi G g"
    and labels: "distinct (map fst (rows gdf))"
    and l0: "''level_0'' \<notin> set (columns gdf)" and l1: "''level_1'' \<notin> set (columns gdf)"
    and series: "\<not> frame_explode G" and name: "''name'' \<notin> set (columns gdf)"
  shows "explode G gdf =
     Inr \<lparr>columns = ''geometry'' # filter (\<lambda>c. c \<noteq> ''geometry'') (columns gdf),
          rows = map (\<lambda>rg. ((fst (fst rg), 0),
                         (''geometry'', Geom (snd rg)) # filter (\<lambda>kv. fst kv \<noteq> ''geometry'') (snd (fst rg))))
                   (zip (rows gdf) gs),
          crs = crs gdf\<rparr>"
proof -
  let ?Z = "zip (rows gdf) gs"
  let ?A = "filter (\<lambda>c. c \<noteq> ''geometry'') (columns gdf)"
  define gdf2 :: "(int, 'g, 'b) frame" where
    "gdf2 = reset_index_geometry (map (\<lambda>rg. ((fst (fst rg), 0), snd rg)) ?Z)"
  define mid :: "(int \<times> ('g, 'b) series) \<times> 'g \<Rightarrow> ('g, 'b) series"
    where "mid = (\<lambda>z. [(''geometry'', Geom (snd z))])"
  from geometry_column_InrD[OF gs] have geo: "''geometry'' \<in> set (columns gdf)" by simp
  have eg: "explode_geometry G gdf = Inr (map (\<lambda>rg. ((fst (fst rg), 0), snd rg)) ?Z)"
    by (rule explode_geometry_single[OF gs single name])
  have cols2: "columns gdf2 = [''level_0'', ''level_1''] @ [''geometry'']"
    by (simp add: gdf2_def reset_index_geometry_def)
  have rows2: "rows gdf2 = map (\<lambda>nz. (int (fst nz),
                    [(''level_0'', IntV (fst (fst (snd nz)))), (''level_1'', IntV 0)] @ mid (snd nz)))
                  (enumerate 0 ?Z)"
    by (simp add: gdf2_def reset_index_geometry_def enumerate_map mid_def)
  have midkeys: "map fst (mid z) = [''geometry'']" for z by (simp add: mid_def)
  have gx: "suffixed ?A ''_x'' ''geometry'' = ''geometry''"
    by (simp add: suffixed_def)
  have ay: "suffixed ([''level_0'', ''level_1''] @ [''geometry'']) ''_y'' c = c" if "c \<in> set ?A" for c
    using that l0 l1 by (auto simp: suffixed_def)
  have cy: "map (suffixed ([''level_0'', ''level_1''] @ [''geometry'']) ''_y'') ?A = ?A"
    by (rule map_idI) (rule ay)
  have ry: "map (\<lambda>kv. (suffixed ([''level_0'', ''level_1''] @ [''geometry'']) ''_y'' (fst kv), snd kv))
        (filter (\<lambda>kv. fst kv \<noteq> ''geometry'') (snd r))
      = filter (\<lambda>kv. fst kv \<noteq> ''geometry'') (snd r)" if r: "r \<in> set (rows gdf)" for r
  proof (rule rename_keys_id, rule ballI)
    fix kv assume "kv \<in> set (filter (\<lambda>kv. fst kv \<noteq> ''geometry'') (snd r))"
    then have "fst kv \<in> set (map fst (filter (\<lambda>kv. fst kv \<noteq> ''geometry'') (snd r)))" by simp
    then have "fst kv \<in> set ?A" by (simp only: attribute_keys[OF wf r])
    with l0 l1 show "fst kv \<notin> set ([''level_0'', ''level_1''] @ [''geometry''])" by auto
  qed
  have rows_eq: "map (\<lambda>z. ((fst (fst z), 0::int),
                         map (\<lambda>kv. (suffixed ?A ''_x'' (fst kv), snd kv)) (mid z)
                         @ map (\<lambda>kv. (suffixed ([''level_0'', ''level_1''] @ [''geometry'']) ''_y'' (fst kv), snd kv))
                             (filter (\<lambda>kv. fst kv \<noteq> ''geometry'') (snd (fst z))))) ?Z
      = map (\<lambda>rg. ((fst (fst rg), 0),
                         (''geometry'', Geom (snd rg)) # filter (\<lambda>kv. fst kv \<noteq> ''geometry'') (snd (fst rg)))) ?Z"
  proof (rule map_cong[OF refl])
    fix z assume "z \<in> set ?Z"
    then have "(fst z, snd z) \<in> set ?Z" by simp
    then have r: "fst z \<in> set (rows gdf)" by (rule set_zip_leftD)
    show "((fst (fst z), 0::int),
                         map (\<lambda>kv. (suffixed ?A ''_x'' (fst kv), snd kv)) (mid z)
                         @ map (\<lambda>kv. (suffixed ([''level_0'', ''level_1''] @ [''geometry'']) ''_y'' (fst kv), snd kv))
                             (filter (\<lambda>kv. fst kv \<noteq> ''geometry'') (snd (fst z))))
        = ((fst (fst z), 0),
                         (''geometry'', Geom (snd z)) # filter (\<lambda>kv. fst kv \<noteq> ''geometry'') (snd (fst z)))"
      unfolding ry[OF r] by (simp add: mid_def gx)
  qed
  note join = explode_join[OF wf geo labels l0 l1 _ _ midkeys cols2 rows2]
  have "explode G gdf = and_then (drop_columns [''geometry''] gdf) (\<lambda>attributes.
         and_then (merge_on_index gdf2 ''level_0'' attributes (''_x'', ''_y'')) (\<lambda>gdf_out.
         and_then (set_index2 ''level_0'' ''level_1'' gdf_out) (\<lambda>gdf_out.
           Inr (gdf_out\<lparr>crs := crs gdf\<rparr>))))"
    unfolding explode_def by (simp add: series eg and_then_Inr gdf2_def)
  also have "\<dots> = Inr \<lparr>columns = map (suffixed ?A ''_x'') [''geometry'']
                        @ map (suffixed ([''level_0'', ''level_1''] @ [''geometry'']) ''_y'') ?A,
              rows = map (\<lambda>z. ((fst (fst z), 0),
                         map (\<lambda>kv. (suffixed ?A ''_x'' (fst kv), snd kv)) (mid z)
                         @ map (\<lambda>kv. (suffixed ([''level_0'', ''level_1''] @ [''geometry'']) ''_y'' (fst kv), snd kv))
                             (filter (\<lambda>kv. fst kv \<noteq> ''geometry'') (snd (fst z))))) ?Z,
              crs = crs gdf\<rparr>"
    by (rule join) simp_all
  finally show ?thesis
    unfolding rows_eq cy by (simp add: gx)
qed


lemma explode_single_part_frame:
  fixes gdf :: "(int, 'g, 'b) frame"
  assumes wf: "wf_frame gdf"
    and gs: "geometry_column gdf = Inr gs"
    and single: "\<forall>g \<in> set gs. \<not> is_multi G g"
    and labels: "distinct (map fst (rows gdf))"
    and l0: "''level_0'' \<notin> set (columns gdf)" and l1: "''level_1'' \<notin> set (columns gdf)"
    and frame: "frame_explode G"
  shows "explode G gdf =
     Inr \<lparr>columns = map (\<lambda>c. c @ ''_x'') (filter (\<lambda>c. c \<noteq> ''geometry'') (columns gdf))
                     @ [''geometry'']
                     @ map (\<lambda>c. c @ ''_y'') (filter (\<lambda>c. c \<noteq> ''geometry'') (columns gdf)),
          rows = map (\<lambda>rg. ((fst (fst rg), 0),
                         map (\<lambda>kv. (fst kv @ ''_x'', snd kv))
                           (filter (\<lambda>kv. fst kv \<noteq> ''geometry'') (snd (fst rg)))
                         @ [(''geometry'', Geom (snd rg))]
                         @ map (\<lambda>kv. (fst kv @ ''_y'', snd kv))
                             (filter (\<lambda>kv. fst kv \<noteq> ''geometry'') (snd (fst rg)))))
                   (zip (rows gdf) gs),
          crs = crs gdf\<rparr>"
proof -
  let ?Z = "zip (rows gdf) gs"
  let ?A = "filter (\<lambda>c. c \<noteq> ''geometry'') (columns gdf)"
  let ?M = "?A @ [''geometry'']"
  let ?C2 = "[''level_0'', ''level_1''] @ ?M"
  define mid :: "(int \<times> ('g, 'b) series) \<times> 'g \<Rightarrow> ('g, 'b) series"
    where "mid = (\<lambda>z. filter (\<lambda>kv. fst kv \<noteq> ''geometry'') (snd (fst z)) @ [(''geometry'', Geom (snd z))])"
  define X :: "(int \<times> nat, 'g, 'b) frame" where
    "X = \<lparr>columns = ?M, rows = map (\<lambda>rg. ((fst (fst rg), 0), mid rg)) ?Z, crs = crs gdf\<rparr>"
  define gdf2 :: "(int, 'g, 'b) frame" where
    "gdf2 = \<lparr>columns = ?C2,
             rows = map (\<lambda>ne. (int (fst ne),
                              [(''level_0'', IntV (fst (fst (snd ne)))),
                               (''level_1'', IntV (int (snd (fst (snd ne)))))]
                              @ snd (snd ne)))
                         (enumerate 0 (rows X)),
             crs = crs X\<rparr>"
  from geometry_column_InrD[OF gs] have geo: "''geometry'' \<in> set (columns gdf)" by simp
  have ef: "explode_frame G gdf = Inr X"
    unfolding explode_frame_single[OF gs single] X_def mid_def ..
  have m0: "''level_0'' \<notin> set ?M" and m1: "''level_1'' \<notin> set ?M"
    using l0 l1 by simp_all
  have ri: "reset_index_levels X = Inr gdf2"
    using m0 m1 by (simp add: reset_index_levels_def X_def gdf2_def)
  have cols2: "columns gdf2 = ?C2" by (simp add: gdf2_def)
  have rows2: "rows gdf2 = map (\<lambda>nz. (int (fst nz),
                    [(''level_0'', IntV (fst (fst (snd nz)))), (''level_1'', IntV 0)] @ mid (snd nz)))
                  (enumerate 0 ?Z)"
    by (simp add: gdf2_def X_def enumerate_map)
  have parent: "fst z \<in> set (rows gdf)" if "z \<in> set ?Z" for z
  proof -
    from that have "(fst z, snd z) \<in> set ?Z" by simp
    then show ?thesis by (rule set_zip_leftD)
  qed
  have midkeys: "map fst (mid z) = ?M" if z: "z \<in> set ?Z" for z
    by (simp add: mid_def attribute_keys[OF wf parent[OF z]])
  have attr_in: "\<forall>kv \<in> set (filter (\<lambda>kv. fst kv \<noteq> ''geometry'') (snd r)). fst kv \<in> set ?A"
    if r: "r \<in> set (rows gdf)" for r
  proof
    fix kv assume "kv \<in> set (filter (\<lambda>kv. fst kv \<noteq> ''geometry'') (snd r))"
    then have "fst kv \<in> set (map fst (filter (\<lambda>kv. fst kv \<noteq> ''geometry'') (snd r)))" by simp
    then show "fst kv \<in> set ?A" by (simp only: attribute_keys[OF wf r])
  qed
  have attr_in2: "\<forall>kv \<in> set (filter (\<lambda>kv. fst kv \<noteq> ''geometry'') (snd r)). fst kv \<in> set ?C2"
    if r: "r \<in> set (rows gdf)" for r
    using attr_in[OF r] by auto
  have gx: "suffixed ?A ''_x'' ''geometry'' = ''geometry''"
    by (simp add: suffixed_def)
  have cx: "map (suffixed ?A ''_x'') ?M = map (\<lambda>c. c @ ''_x'') ?A @ [''geometry'']"
    unfolding map_append list.map gx by (simp add: suffixed_def)
  have cy: "map (suffixed ?C2 ''_y'') ?A = map (\<lambda>c. c @ ''_y'') ?A"
    by (rule map_cong[OF refl]) (simp add: suffixed_def)
  have rows_eq: "map (\<lambda>z. ((fst (fst z), 0::int),
                         map (\<lambda>kv. (suffixed ?A ''_x'' (fst kv), snd kv)) (mid z)
                         @ map (\<lambda>kv. (suffixed ?C2 ''_y'' (fst kv), snd kv))
                             (filter (\<lambda>kv. fst kv \<noteq> ''geometry'') (snd (fst z))))) ?Z
      = map (\<lambda>rg. ((fst (fst rg), 0),
                         map (\<lambda>kv. (fst kv @ ''_x'', snd kv))
                           (filter (\<lambda>kv. fst kv \<noteq> ''geometry'') (snd (fst rg)))
                         @ [(''geometry'', Geom (snd rg))]
                         @ map (\<lambda>kv. (fst kv @ ''_y'', snd kv))
                             (filter (\<lambda>kv. fst kv \<noteq> ''geometry'') (snd (fst rg))))) ?Z"
  proof (rule map_cong[OF refl])
    fix z assume z: "z \<in> set ?Z"
    note r = parent[OF z]
    have 1: "map (\<lambda>kv. (suffixed ?A ''_x'' (fst kv), snd kv)) (mid z)
        = map (\<lambda>kv. (fst kv @ ''_x'', snd kv)) (filter (\<lambda>kv. fst kv \<noteq> ''geometry'') (snd (fst z)))
          @ [(''geometry'', Geom (snd z))]"
      unfolding mid_def map_append rename_keys_all[OF attr_in[OF r]] by (simp add: gx)
    show "((fst (fst z), 0::int),
                         map (\<lambda>kv. (suffixed ?A ''_x'' (fst kv), snd kv)) (mid z)
                         @ map (\<lambda>kv. (suffixed ?C2 ''_y'' (fst kv), snd kv))
                             (filter (\<lambda>kv. fst kv \<noteq> ''geometry'') (snd (fst z))))
        = ((fst (fst z), 0),
                         map (\<lambda>kv. (fst kv @ ''_x'', snd kv))
                           (filter (\<lambda>kv. fst kv \<noteq> ''geometry'') (snd (fst z)))
                         @ [(''geometry'', Geom (snd z))]
                         @ map (\<lambda>kv. (fst kv @ ''_y'', snd kv))
                             (filter (\<lambda>kv. fst kv \<noteq> ''geometry'') (snd (fst z))))"
      unfolding 1 rename_keys_all[OF attr_in2[OF r]] by simp
  qed
  note join = explode_join[OF wf geo labels l0 l1 m0 m1 midkeys cols2 rows2]
  have "explode G gdf = and_then (drop_columns [''geometry''] gdf) (\<lambda>attributes.
         and_then (merge_on_index gdf2 ''level_0'' attributes (''_x'', ''_y'')) (\<lambda>gdf_out.
         and_then (set_index2 ''level_0'' ''level_1'' gdf_out) (\<lambda>gdf_out.
           Inr (gdf_out\<lparr>crs := crs gdf\<rparr>))))"
    unfolding explode_def by (simp add: frame ef ri and_then_Inr)
  also note join
  finally show ?thesis
    unfolding rows_eq cx cy by simp
qed


text \<open>
  Claim C9, as the code has it. For a well-formed table with distinct index labels, whose
  geometries \<open>gs\<close> are all single-part, which has no column named \<^verbatim>\<open>level_0\<close> or
  \<^verbatim>\<open>level_1\<close> and, where \<^verbatim>\<open>explode\<close> of geopandas returns a series, no column
  named \<^verbatim>\<open>name\<close>, \<^verbatim>\<open>explode\<close> returns one record per input record, in order: its
  index is the parent's label with part number 0, its geometry is the parent's geometry,
  its other values are the parent's, and the coordinate reference system is the input's.
  Where the library returns a series, the columns are \<^verbatim>\<open>geometry\<close> followed by the
  other columns; where it returns the table, every other column stands twice, with the
  suffix \<^verbatim>\<open>_x\<close> before \<^verbatim>\<open>geometry\<close> and with the suffix \<^verbatim>\<open>_y\<close> after it.
\<close>

theorem explode_single_part:
  fixes gdf :: "(int, 'g, 'b) frame"
  assumes wf: "wf_frame gdf"
    and gs: "geometry_column gdf = Inr gs"
    and single: "\<forall>g \<in> set gs. \<not> is_multi G g"
    and labels: "distinct (map fst (rows gdf))"
    and l0: "''level_0'' \<notin> set (columns gdf)" and l1: "''level_1'' \<notin> set (columns gdf)"
    and name: "frame_explode G \<or> ''name'' \<notin> set (columns gdf)"
  shows "explode G gdf =
     Inr \<lparr>columns =
            (if frame_explode G
             then map (\<lambda>c. c @ ''_x'') (filter (\<lambda>c. c \<noteq> ''geometry'') (columns gdf))
                  @ [''geometry'']
                  @ map (\<lambda>c. c @ ''_y'') (filter (\<lambda>c. c \<noteq> ''geometry'') (columns gdf))
             else ''geometry'' # filter (\<lambda>c. c \<noteq> ''geometry'') (columns gdf)),
          rows = map (\<lambda>rg. ((fst (fst rg), 0),
                         if frame_explode G
                         then map (\<lambda>kv. (fst kv @ ''_x'', snd kv))
                                (filter (\<lambda>kv. fst kv \<noteq> ''geometry'') (snd (fst rg)))
                              @ [(''geometry'', Geom (snd rg))]
                              @ map (\<lambda>kv. (fst kv @ ''_y'', snd kv))
                                  (filter (\<lambda>kv. fst kv \<noteq> ''geometry'') (snd (fst rg)))
                         else (''geometry'', Geom (snd rg))
                              # filter (\<lambda>kv. fst kv \<noteq> ''geometry'') (snd (fst rg))))
                   (zip (rows gdf) gs),
          crs = crs gdf\<rparr>"
proof (cases "frame_explode G")
  case True
  from explode_single_part_frame[OF wf gs single labels l0 l1 True] True
  show ?thesis by simp
next
  case False
  with name have n: "''name'' \<notin> set (columns gdf)" by simp
  from explode_single_part_series[OF wf gs single labels l0 l1 False n] False
  show ?thesis by simp
qed

lemma sample_kind_eval:
  "wf_frame \<lparr>columns = [''kind'', ''geometry''],
              rows = [(10::int, [(''kind'', Str ''a''), (''geometry'', Geom [4::nat])]),
                      (11, [(''kind'', Str ''b''), (''geometry'', Geom [7])])],
              crs = ''epsg:4326''\<rparr>"
  "geometry_column \<lparr>columns = [''kind'', ''geometry''],
              rows = [(10::int, [(''kind'', Str ''a''), (''geometry'', Geom [4::nat])]),
                      (11, [(''kind'', Str ''b''), (''geometry'', Geom [7])])],
              crs = ''epsg:4326''\<rparr> = Inr [[4], [7]]"
  by (simp_all add: wf_frame_def geometry_column_def getitem_Cons and_then_def)

lemma sample_name_eval:
  "wf_frame \<lparr>columns = [''name'', ''geometry''],
              rows = [(10::int, [(''name'', Str ''a''), (''geometry'', Geom [4::nat])]),
                      (11, [(''name'', Str ''b''), (''geometry'', Geom [7])])],
              crs = ''epsg:4326''\<rparr>"
  "geometry_column \<lparr>columns = [''name'', ''geometry''],
              rows = [(10::int, [(''name'', Str ''a''), (''geometry'', Geom [4::nat])]),
                      (11, [(''name'', Str ''b''), (''geometry'', Geom [7])])],
              crs = ''epsg:4326''\<rparr> = Inr [[4], [7]]"
  by (simp_all add: wf_frame_def geometry_column_def getitem_Cons and_then_def)

theorem explode_single_part_witness:
  "explode grid \<lparr>columns = [''kind'', ''geometry''],
                  rows = [(10, [(''kind'', Str ''a''), (''geometry'', Geom [4])]),
                          (11, [(''kind'', Str ''b''), (''geometry'', Geom [7])])],
                  crs = ''epsg:4326''\<rparr>
     = Inr \<lparr>columns = [''geometry'', ''kind''],
            rows = [((10, 0), [(''geometry'', Geom [4]), (''kind'', Str ''a'')]),
                    ((11, 0), [(''geometry'', Geom [7]), (''kind'', Str ''b'')])],
            crs = ''epsg:4326''\<rparr>
   \<and> explode grid_frame_explode
        \<lparr>columns = [''name'', ''geometry''],
         rows = [(10, [(''name'', Str ''a''), (''geometry'', Geom [4])]),
                 (11, [(''name'', Str ''b''), (''geometry'', Geom [7])])],
         crs = ''epsg:4326''\<rparr>
     = Inr \<lparr>columns = [''name_x'', ''geometry'', ''name_y''],
            rows = [((10, 0), [(''name_x'', Str ''a''), (''geometry'', Geom [4]), (''name_y'', Str ''a'')]),
                    ((11, 0), [(''name_x'', Str ''b''), (''geometry'', Geom [7]), (''name_y'', Str ''b'')])],
            crs = ''epsg:4326''\<rparr>"
proof -
  have s: "\<forall>g \<in> set [[4], [7::nat]]. \<not> is_multi grid g"
    "\<forall>g \<in> set [[4], [7::nat]]. \<not> is_multi grid_frame_explode g"
    by (simp_all add: grid_def grid_frame_explode_def)
  have v: "\<not> frame_explode grid" "frame_explode grid_frame_explode"
    by (simp_all add: grid_def grid_frame_explode_def)
  have 1: "explode grid \<lparr>columns = [''kind'', ''geometry''],
                  rows = [(10, [(''kind'', Str ''a''), (''geometry'', Geom [4])]),
                          (11, [(''kind'', Str ''b''), (''geometry'', Geom [7])])],
                  crs = ''epsg:4326''\<rparr>
     = Inr \<lparr>columns = [''geometry'', ''kind''],
            rows = [((10, 0), [(''geometry'', Geom [4]), (''kind'', Str ''a'')]),
                    ((11, 0), [(''geometry'', Geom [7]), (''kind'', Str ''b'')])],
            crs = ''epsg:4326''\<rparr>"
    using explode_single_part[OF sample_kind_eval s(1), simplified] v(1) by simp
  have 2: "explode grid_frame_explode
        \<lparr>columns = [''name'', ''geometry''],
         rows = [(10, [(''name'', Str ''a''), (''geometry'', Geom [4])]),
                 (11, [(''name'', Str ''b''), (''geometry'', Geom [7])])],
         crs = ''epsg:4326''\<rparr>
     = Inr \<lparr>columns = [''name_x'', ''geometry'', ''name_y''],
            rows = [((10, 0), [(''name_x'', Str ''a''), (''geometry'', Geom [4]), (''name_y'', Str ''a'')]),
                    ((11, 0), [(''name_x'', Str ''b''), (''geometry'', Geom [7]), (''name_y'', Str ''b'')])],
            crs = ''epsg:4326''\<rparr>"
    using explode_single_part[OF sample_name_eval s(2), simplified] v(2) by simp
  from 1 2 show ?thesis by (rule conjI)
qed

text \<open>
  Claim C9 as stated fails on tables whose geometries are all single-part: with a
  geopandas whose \<^verbatim>\<open>explode\<close> returns a series, a table with a column named
  \<^verbatim>\<open>name\<close> raises TypeError, and a table with a column named \<^verbatim>\<open>level_1\<close> raises
  KeyError (the join renames both columns of that name, and \<^verbatim>\<open>set_index\<close> finds
  none); with a geopandas whose \<^verbatim>\<open>explode\<close> returns the table, a table with a column
  named \<^verbatim>\<open>level_0\<close> raises as well, when the index is reset.
\<close>

theorem explode_name_collision_counterexample:
  "explode grid \<lparr>columns = [''name'', ''geometry''],
                  rows = [(10, [(''name'', Str ''a''), (''geometry'', Geom [4])]),
                          (11, [(''name'', Str ''b''), (''geometry'', Geom [7])])],
                  crs = ''epsg:4326''\<rparr> = Inl TypeError
   \<and> explode grid \<lparr>columns = [''level_1'', ''geometry''],
                  rows = [(0, [(''level_1'', IntV 7), (''geometry'', Geom [4])])],
                  crs = ''epsg:4326''\<rparr> = Inl KeyError
   \<and> isl (explode grid_frame_explode
             \<lparr>columns = [''level_0'', ''geometry''],
              rows = [(0, [(''level_0'', IntV 7), (''geometry'', Geom [4])])],
              crs = ''epsg:4326''\<rparr>)
   \<and> \<not> is_multi grid [4] \<and> \<not> is_multi grid [7] \<and> \<not> is_multi grid_frame_explode [4]"
  by code_simp

subsection \<open>The spatial overlay\<close>

lemma seq_new_frame: "e h = Inr d \<Longrightarrow> seq (new_frame e) f h = f (length h) (h @ [d])"
  by (simp add: seq_def new_frame_def)

lemma seq_update_frame: "e h = Inr d \<Longrightarrow> seq (update_frame r e) f h = f () (h[r := d])"
  by (simp add: seq_def update_frame_def)

lemma seq_compute: "e h = Inr v \<Longrightarrow> seq (compute e) f h = f v h"
  by (simp add: seq_def compute_def)

lemma seq_new_frame_case:
  "seq (new_frame e) f h =
     (case e h of Inl err \<Rightarrow> (Inl err, h) | Inr d \<Rightarrow> f (length h) (h @ [d]))"
  by (simp add: seq_def new_frame_def split: sum.splits)

lemma seq_update_frame_case:
  "seq (update_frame r e) f h =
     (case e h of Inl err \<Rightarrow> (Inl err, h) | Inr d \<Rightarrow> f () (h[r := d]))"
  by (simp add: seq_def update_frame_def split: sum.splits)

lemma seq_compute_case:
  "seq (compute e) f h = (case e h of Inl err \<Rightarrow> (Inl err, h) | Inr v \<Rightarrow> f v h)"
  by (simp add: seq_def compute_def split: sum.splits)

lemma preserves_ret: "preserves n (ret v)"
  by (simp add: preserves_def ret_def)

lemma preserves_seq_compute:
  "(\<And>v. preserves n (f v)) \<Longrightarrow> preserves n (seq (compute e) f)"
  by (auto simp: preserves_def seq_def compute_def split: sum.splits prod.splits)

lemma preserves_seq_new_frame:
  assumes "\<And>v. n \<le> v \<Longrightarrow> preserves n (f v)"
  shows "preserves n (seq (new_frame e) f)"
  unfolding preserves_def
proof (intro allI impI)
  fix h :: "('a, 'b) heap" assume n: "n \<le> length h"
  show "n \<le> length (snd (seq (new_frame e) f h)) \<and> take n (snd (seq (new_frame e) f h)) = take n h"
  proof (cases "e h")
    case (Inl err)
    then show ?thesis using n by (simp add: seq_def new_frame_def)
  next
    case (Inr d)
    then have s: "seq (new_frame e) f h = f (length h) (h @ [d])" by (rule seq_new_frame)
    from assms[OF n] have "preserves n (f (length h))" .
    then have "n \<le> length (snd (f (length h) (h @ [d])))
        \<and> take n (snd (f (length h) (h @ [d]))) = take n (h @ [d])"
      using n by (simp add: preserves_def)
    with n show ?thesis by (simp add: s)
  qed
qed

lemma preserves_seq_update_frame:
  assumes "n \<le> r" and "\<And>v. preserves n (f v)"
  shows "preserves n (seq (update_frame r e) f)"
  unfolding preserves_def
proof (intro allI impI)
  fix h :: "('a, 'b) heap" assume n: "n \<le> length h"
  show "n \<le> length (snd (seq (update_frame r e) f h)) \<and> take n (snd (seq (update_frame r e) f h)) = take n h"
  proof (cases "e h")
    case (Inl err)
    then show ?thesis using n by (simp add: seq_def update_frame_def)
  next
    case (Inr d)
    then have s: "seq (update_frame r e) f h = f () (h[r := d])" by (rule seq_update_frame)
    from assms(2) have "preserves n (f ())" .
    then have "n \<le> length (snd (f () (h[r := d])))
        \<and> take n (snd (f () (h[r := d]))) = take n (h[r := d])"
      using n by (simp add: preserves_def)
    with n assms(1) show ?thesis by (simp add: s)
  qed
qed

lemma preserves_overlay_intersection:
  "n \<le> df1 \<Longrightarrow> preserves n (overlay_intersection G df1 df2)"
  unfolding overlay_intersection_def
  by (intro preserves_seq_compute preserves_seq_new_frame preserves_seq_update_frame preserves_ret)
     simp_all

lemma preserves_overlay_difference:
  "n \<le> df1 \<Longrightarrow> preserves n (overlay_difference G df1 df2)"
  unfolding overlay_difference_def
  by (intro preserves_seq_compute preserves_seq_new_frame preserves_seq_update_frame preserves_ret)
     simp_all

lemma preserves_spatial_overlays: "preserves n (spatial_overlays G a b how)"
  unfolding spatial_overlays_def
  by (intro preserves_seq_new_frame preserves_seq_update_frame)
     (simp_all add: preserves_overlay_intersection preserves_overlay_difference preserves_ret)


lemma list_all2_zip_mem:
  "list_all2 P xs ys \<Longrightarrow> xy \<in> set (zip xs ys) \<Longrightarrow> P (fst xy) (snd xy)"
  by (cases xy) (auto simp: list_all2_iff)

lemma map_fst_zip_all2: "list_all2 P xs ys \<Longrightarrow> map fst (zip xs ys) = xs"
  by (simp add: list_all2_lengthD)

lemma assign_from_rows_eval:
  assumes "\<And>r. r \<in> set (rows df) \<Longrightarrow> f (snd r) = Inr (v r)"
  shows "assign_from_rows name f df
     = Inr (df\<lparr>columns := with_column name (columns df),
               rows := map (\<lambda>r. (fst r, AList.update name (v r) (snd r))) (rows df)\<rparr>)"
proof -
  have "traverse (\<lambda>r. and_then (f (snd r)) (\<lambda>v. Inr (fst r, AList.update name v (snd r)))) (rows df)
      = Inr (map (\<lambda>r. (fst r, AList.update name (v r) (snd r))) (rows df))"
    by (rule traverse_map) (simp add: assms and_then_Inr)
  then show ?thesis by (simp add: assign_from_rows_def and_then_Inr)
qed

lemma assign_from_geometry_eval:
  assumes "geometry_column df = Inr gs"
  shows "assign_from_geometry name f df
     = Inr (df\<lparr>columns := with_column name (columns df),
               rows := map (\<lambda>rg. (fst (fst rg), AList.update name (f (snd rg)) (snd (fst rg))))
                         (zip (rows df) gs)\<rparr>)"
proof -
  from geometry_column_InrD[OF assms] have geo: "''geometry'' \<in> set (columns df)"
    and all2: "list_all2 (\<lambda>r g. getitem (snd r) ''geometry'' = Inr (Geom g)) (rows df) gs"
    by simp_all
  have "traverse (\<lambda>r. and_then (and_then (getitem (snd r) ''geometry'') (\<lambda>c.
                  and_then (geometry_of c) (\<lambda>g. Inr (f g))))
                (\<lambda>v. Inr (fst r, AList.update name v (snd r)))) (rows df)
      = Inr (map (\<lambda>rg. (fst (fst rg), AList.update name (f (snd rg)) (snd (fst rg)))) (zip (rows df) gs))"
    using all2
    by (induction rule: list_all2_induct) (simp_all add: and_then_Inr)
  then show ?thesis
    by (simp add: assign_from_geometry_def geo assign_from_rows_def and_then_Inr)
qed

lemma geometry_column_repaired:
  assumes "geometry_column df = Inr gs"
  shows "geometry_column (repaired G df gs) = Inr (map (buffer0 G) gs)"
proof -
  from geometry_column_InrD[OF assms] have geo: "''geometry'' \<in> set (columns df)"
    and all2: "list_all2 (\<lambda>r g. getitem (snd r) ''geometry'' = Inr (Geom g)) (rows df) gs"
    by simp_all
  have "traverse (\<lambda>r. and_then (getitem (snd r) ''geometry'') geometry_of)
          (map (\<lambda>rg. (fst (fst rg),
                      AList.update ''geometry'' (Geom (buffer0 G (snd rg))) (snd (fst rg))))
                 (zip (rows df) gs))
       = Inr (map (buffer0 G) gs)"
    using all2
    by (induction rule: list_all2_induct) (simp_all add: and_then_Inr getitem_update_same)
  then show ?thesis by (simp add: geometry_column_def repaired_def geo)
qed

lemma repair_eval:
  assumes "geometry_column df = Inr gs"
  shows "assign_from_geometry ''geometry'' (\<lambda>g. Geom (buffer0 G g)) df = Inr (repaired G df gs)"
proof -
  from geometry_column_InrD[OF assms] have geo: "''geometry'' \<in> set (columns df)" by simp
  show ?thesis
    by (simp add: assign_from_geometry_eval[OF assms] repaired_def with_column_def geo)
qed

lemma spatial_overlays_prelude:
  assumes a: "a < length h" and b: "b < length h"
    and ga: "geometry_column (h ! a) = Inr ga" and gb: "geometry_column (h ! b) = Inr gb"
  shows "spatial_overlays G a b how h =
     (if how = ''intersection'' then overlay_intersection G (length h) (Suc (length h))
      else if how = ''difference'' then overlay_difference G (length h) (Suc (length h))
      else ret None) (h @ [repaired G (h ! a) ga, repaired G (h ! b) gb])"
  unfolding spatial_overlays_def
  using a b
  by (simp add: seq_new_frame_case seq_update_frame_case nth_append list_update_append
      repair_eval[OF ga] repair_eval[OF gb])


lemma reduce_subtract:
  "reduce (subtract G) (Geom g0 # map Geom cs)
     = Inr (Geom (foldl (\<lambda>acc c. buffer0 G (difference G acc c)) g0 cs))"
  by (induction cs arbitrary: g0) (simp_all add: subtract_def and_then_Inr)

lemma geometry_column_iloc:
  assumes "geometry_column df = Inr gs" and "\<forall>j \<in> set ks. j < length gs"
  shows "geometry_column (df\<lparr>rows := map (\<lambda>j. rows df ! j) ks\<rparr>) = Inr (map (\<lambda>j. gs ! j) ks)"
proof -
  from geometry_column_InrD[OF assms(1)] have geo: "''geometry'' \<in> set (columns df)"
    and all2: "list_all2 (\<lambda>r g. getitem (snd r) ''geometry'' = Inr (Geom g)) (rows df) gs"
    by simp_all
  have "traverse (\<lambda>r. and_then (getitem (snd r) ''geometry'') geometry_of) (map (\<lambda>j. rows df ! j) ks)
      = Inr (map (\<lambda>j. gs ! j) ks)"
    unfolding traverse_comp[symmetric]
  proof (rule traverse_map)
    fix j assume "j \<in> set ks"
    with assms(2) have "j < length gs" by simp
    with all2 have "getitem (snd (rows df ! j)) ''geometry'' = Inr (Geom (gs ! j))"
      by (simp add: list_all2_conv_all_nth)
    then show "((\<lambda>r. and_then (getitem (snd r) ''geometry'') geometry_of) \<circ> (\<lambda>j. rows df ! j)) j
        = Inr (gs ! j)"
      by (simp add: and_then_Inr)
  qed
  then show ?thesis by (simp add: geometry_column_def geo)
qed

lemma assign_rows_mapped:
  assumes "rows df = map F Z" and "\<And>z. z \<in> set Z \<Longrightarrow> f (snd (F z)) = Inr (val z)"
  shows "assign_from_rows name f df
     = Inr (df\<lparr>columns := with_column name (columns df),
               rows := map (\<lambda>z. (fst (F z), AList.update name (val z) (snd (F z)))) Z\<rparr>)"
proof -
  have "traverse ((\<lambda>r. and_then (f (snd r)) (\<lambda>v. Inr (fst r, AList.update name v (snd r)))) \<circ> F) Z
      = Inr (map (\<lambda>z. (fst (F z), AList.update name (val z) (snd (F z)))) Z)"
    by (rule traverse_map) (simp add: assms(2) and_then_Inr)
  then show ?thesis
    by (simp add: assign_from_rows_def assms(1) traverse_comp and_then_Inr)
qed

lemma select_where_mapped:
  assumes "name \<in> set (columns df)" and "rows df = map F Z"
    and "\<And>z. z \<in> set Z \<Longrightarrow> \<exists>c. getitem (snd (F z)) name = Inr c \<and> p c = Inr (q z)"
  shows "select_where name p df = Inr (df\<lparr>rows := map F (filter q Z)\<rparr>)"
proof -
  from assms(3) have "\<forall>z \<in> set Z. \<exists>c. getitem (snd (F z)) name = Inr c \<and> p c = Inr (q z)" by blast
  then obtain c where c: "\<And>z. z \<in> set Z \<Longrightarrow> getitem (snd (F z)) name = Inr (c z) \<and> p (c z) = Inr (q z)"
    by metis
  have 1: "traverse ((\<lambda>r. getitem (snd r) name) \<circ> F) Z = Inr (map c Z)"
    by (rule traverse_map) (simp add: c)
  have 2: "traverse (p \<circ> c) Z = Inr (map q Z)"
    by (rule traverse_map) (simp add: c)
  have 3: "map fst (filter snd (zip (map F Z) (map q Z))) = map F (filter q Z)"
    by (induction Z) auto
  show ?thesis
    using 1 2
    by (simp add: select_where_def get_column_def assms(1,2) traverse_comp and_then_Inr 3)
qed

lemma update_update_same: "AList.update k v (AList.update k v' x) = AList.update k v x"
  by (induction x) auto

lemma filter_update_in:
  "k \<in> S \<Longrightarrow> filter (\<lambda>kv. fst kv \<notin> S) (AList.update k v x) = filter (\<lambda>kv. fst kv \<notin> S) x"
  by (induction x) auto

lemma filter_update_out:
  "k \<notin> S \<Longrightarrow> filter (\<lambda>kv. fst kv \<notin> S) (AList.update k v x)
     = AList.update k v (filter (\<lambda>kv. fst kv \<notin> S) x)"
  by (induction x) auto

lemma filter_with_column_in:
  "k \<in> S \<Longrightarrow> filter (\<lambda>c. c \<notin> S) (with_column k cs) = filter (\<lambda>c. c \<notin> S) cs"
  by (simp add: with_column_def)


lemma overlay_difference_eval:
  fixes A B :: "(int, 'a, 'b) frame"
  assumes ga: "geometry_column A = Inr ga" and gb: "geometry_column B = Inr gb"
    and valid: "\<forall>q. \<forall>j \<in> set (sindex G (map (buffer0 G) gb) q). j < length gb"
    and bound: "reduce_bound G"
  shows "\<exists>A5. overlay_difference G (length h) (Suc (length h)) (h @ [repaired G A ga, repaired G B gb])
     = (Inr (Some (Suc (Suc (length h)))),
        h @ [A5, repaired G B gb,
             \<lparr>columns = filter (\<lambda>c. c \<notin> {''bbox'', ''histreg'', ''new_g''}) (columns A),
              rows = map (\<lambda>z. (fst (fst z),
                         AList.update ''geometry''
                           (Geom (difference_fold G (snd z)
                              (map (\<lambda>j. map (buffer0 G) gb ! j)
                                 (sindex G (map (buffer0 G) gb) (bounds G (buffer0 G (snd z)))))))
                           (filter (\<lambda>kv. fst kv \<notin> {''bbox'', ''histreg'', ''new_g''}) (snd (fst z)))))
                       (filter (\<lambda>z. \<not> is_empty G (difference_fold G (snd z)
                              (map (\<lambda>j. map (buffer0 G) gb ! j)
                                 (sindex G (map (buffer0 G) gb) (bounds G (buffer0 G (snd z)))))))
                          (zip (rows A) ga)),
              crs = crs A\<rparr>])"
proof -
  let ?S = "{''bbox'', ''histreg'', ''new_g''}"
  let ?Z = "zip (rows A) ga"
  define gb' where "gb' = map (buffer0 G) gb"
  define B1 where "B1 = repaired G B gb"
  define ks where "ks = (\<lambda>z :: (int \<times> ('a, 'b) series) \<times> 'a. sindex G gb' (bounds G (buffer0 G (snd z))))"
  define new where "new = (\<lambda>z :: (int \<times> ('a, 'b) series) \<times> 'a.
      difference_fold G (snd z) (map (\<lambda>j. gb' ! j) (ks z)))"
  define X1 where "X1 = (\<lambda>z :: (int \<times> ('a, 'b) series) \<times> 'a.
      AList.update ''geometry'' (Geom (buffer0 G (snd z))) (snd (fst z)))"
  define X2 where "X2 = (\<lambda>z. AList.update ''bbox'' (Box (bounds G (buffer0 G (snd z)))) (X1 z))"
  define X3 where "X3 = (\<lambda>z. AList.update ''histreg'' (Hits (ks z)) (X2 z))"
  define X4 where "X4 = (\<lambda>z. AList.update ''new_g'' (Geom (new z)) (X3 z))"
  define X5 where "X5 = (\<lambda>z. AList.update ''geometry'' (Geom (new z)) (X4 z))"
  define A1 where "A1 = repaired G A ga"
  define c2 where "c2 = with_column ''bbox'' (columns A)"
  define c3 where "c3 = with_column ''histreg'' c2"
  define c4 where "c4 = with_column ''new_g'' c3"
  define A2 where "A2 = A\<lparr>columns := c2, rows := map (\<lambda>z. (fst (fst z), X2 z)) ?Z\<rparr>"
  define A3 where "A3 = A\<lparr>columns := c3, rows := map (\<lambda>z. (fst (fst z), X3 z)) ?Z\<rparr>"
  define A4 where "A4 = A\<lparr>columns := c4, rows := map (\<lambda>z. (fst (fst z), X4 z)) ?Z\<rparr>"
  define A5 where "A5 = A\<lparr>columns := c4, rows := map (\<lambda>z. (fst (fst z), X5 z)) ?Z\<rparr>"
  define A6 where "A6 = A\<lparr>columns := c4,
       rows := map (\<lambda>z. (fst (fst z), X5 z)) (filter (\<lambda>z. \<not> is_empty G (new z)) ?Z)\<rparr>"
  define A7 where "A7 = A\<lparr>columns := filter (\<lambda>c. c \<notin> ?S) (columns A),
       rows := map (\<lambda>z. (fst (fst z), AList.update ''geometry'' (Geom (new z))
                             (filter (\<lambda>kv. fst kv \<notin> ?S) (snd (fst z)))))
                 (filter (\<lambda>z. \<not> is_empty G (new z)) ?Z)\<rparr>"
  from geometry_column_InrD[OF ga] have geo: "''geometry'' \<in> set (columns A)"
    and all2: "list_all2 (\<lambda>r g. getitem (snd r) ''geometry'' = Inr (Geom g)) (rows A) ga"
    by simp_all
  have rows1: "rows A1 = map (\<lambda>z. (fst (fst z), X1 z)) ?Z"
    by (simp add: A1_def repaired_def X1_def)
  have cols1: "columns A1 = columns A" by (simp add: A1_def repaired_def)
  have gB1: "geometry_column B1 = Inr gb'"
    unfolding B1_def gb'_def by (rule geometry_column_repaired[OF gb])
  have lenB: "length gb' = length gb" by (simp add: gb'_def)
  have g1: "''geometry'' \<in> set c2" "''bbox'' \<in> set c2" by (simp_all add: c2_def with_column_def geo)
  have g3: "''geometry'' \<in> set c3" "''bbox'' \<in> set c3" "''histreg'' \<in> set c3"
    using g1 by (simp_all add: c3_def with_column_def)
  have g4: "''geometry'' \<in> set c4" "''bbox'' \<in> set c4" "''histreg'' \<in> set c4" "''new_g'' \<in> set c4"
    using g3 by (simp_all add: c4_def with_column_def)
  have s2: "assign_from_geometry ''bbox'' (\<lambda>x. Box (bounds G x)) A1 = Inr A2"
  proof -
    have "assign_from_rows ''bbox''
             (\<lambda>x. and_then (getitem x ''geometry'') (\<lambda>c.
                  and_then (geometry_of c) (\<lambda>g. Inr (Box (bounds G g))))) A1
        = Inr (A1\<lparr>columns := with_column ''bbox'' (columns A1),
               rows := map (\<lambda>z. (fst (fst z),
                   AList.update ''bbox'' (Box (bounds G (buffer0 G (snd z)))) (X1 z))) ?Z\<rparr>)"
      by (subst assign_rows_mapped[OF rows1, where val = "\<lambda>z. Box (bounds G (buffer0 G (snd z)))"])
         (simp_all add: X1_def getitem_update_same and_then_Inr)
    then show ?thesis
      by (simp add: assign_from_geometry_def cols1 geo A2_def A1_def repaired_def c2_def X2_def)
  qed
  have s3: "assign_from_column ''histreg'' ''bbox'' (index_query G gb') A2 = Inr A3"
  proof -
    have "assign_from_rows ''histreg'' (\<lambda>x. and_then (getitem x ''bbox'') (index_query G gb')) A2
        = Inr (A2\<lparr>columns := with_column ''histreg'' (columns A2),
               rows := map (\<lambda>z. (fst (fst z),
                   AList.update ''histreg'' (Hits (ks z)) (X2 z))) ?Z\<rparr>)"
      by (subst assign_rows_mapped[where Z = "?Z" and F = "\<lambda>z. (fst (fst z), X2 z)"
               and val = "\<lambda>z. Hits (ks z)"])
         (simp_all add: A2_def X2_def getitem_update_same and_then_Inr ks_def)
    then show ?thesis
      by (simp add: assign_from_column_def A2_def g1 A3_def c3_def X3_def)
  qed
  have erase: "erase_row G B1 (X3 z) = Inr (Geom (new z))" if "z \<in> set ?Z" for z
  proof -
    have own: "getitem (X3 z) ''geometry'' = Inr (Geom (buffer0 G (snd z)))"
      by (simp add: X3_def X2_def X1_def getitem_update_same getitem_update_other)
    have hr: "getitem (X3 z) ''histreg'' = Inr (Hits (ks z))"
      by (simp add: X3_def getitem_update_same)
    from geometry_column_InrD[OF gB1] have "length (rows B1) = length gb'"
      by (auto dest: list_all2_lengthD)
    with valid have v: "\<forall>j \<in> set (ks z). j < length (rows B1)" "\<forall>j \<in> set (ks z). j < length gb'"
      by (simp_all add: ks_def gb'_def)
    have il: "iloc (ks z) B1 = Inr (B1\<lparr>rows := map (\<lambda>j. rows B1 ! j) (ks z)\<rparr>)"
      using v(1) by (simp add: iloc_def)
    have gc: "geometry_column (B1\<lparr>rows := map (\<lambda>j. rows B1 ! j) (ks z)\<rparr>)
        = Inr (map (\<lambda>j. gb' ! j) (ks z))"
      by (rule geometry_column_iloc[OF gB1 v(2)])
    have "erase_row G B1 (X3 z)
        = reduce (subtract G) ([Geom (buffer0 G (snd z))] @ map Geom (map (\<lambda>j. gb' ! j) (ks z)))"
      by (simp add: erase_row_def bound own hr il gc and_then_Inr del: map_map)
    also have "\<dots> = Inr (Geom (new z))"
      by (simp only: append_Cons append_Nil reduce_subtract new_def difference_fold_def)
    finally show ?thesis .
  qed
  have s4: "assign_from_rows ''new_g'' (erase_row G B1) A3 = Inr A4"
  proof -
    have "assign_from_rows ''new_g'' (erase_row G B1) A3
        = Inr (A3\<lparr>columns := with_column ''new_g'' (columns A3),
               rows := map (\<lambda>z. (fst (fst z),
                   AList.update ''new_g'' (Geom (new z)) (X3 z))) ?Z\<rparr>)"
      by (subst assign_rows_mapped[where Z = "?Z" and F = "\<lambda>z. (fst (fst z), X3 z)"
               and val = "\<lambda>z. Geom (new z)"])
         (simp_all add: A3_def erase)
    then show ?thesis by (simp add: A3_def A4_def c4_def X4_def)
  qed
  have s5: "assign_from_column ''geometry'' ''new_g'' Inr A4 = Inr A5"
  proof -
    have "assign_from_rows ''geometry'' (\<lambda>x. and_then (getitem x ''new_g'') Inr) A4
        = Inr (A4\<lparr>columns := with_column ''geometry'' (columns A4),
               rows := map (\<lambda>z. (fst (fst z),
                   AList.update ''geometry'' (Geom (new z)) (X4 z))) ?Z\<rparr>)"
      by (subst assign_rows_mapped[where Z = "?Z" and F = "\<lambda>z. (fst (fst z), X4 z)"
               and val = "\<lambda>z. Geom (new z)"])
         (simp_all add: A4_def X4_def getitem_update_same and_then_Inr)
    then show ?thesis
      using g4 by (simp add: assign_from_column_def A4_def A5_def X5_def with_column_def)
  qed
  have s6: "select_where ''geometry'' (not_empty G) A5 = Inr A6"
  proof -
    have "select_where ''geometry'' (not_empty G) A5
        = Inr (A5\<lparr>rows := map (\<lambda>z. (fst (fst z), X5 z)) (filter (\<lambda>z. \<not> is_empty G (new z)) ?Z)\<rparr>)"
      by (rule select_where_mapped[where Z = "?Z" and F = "\<lambda>z. (fst (fst z), X5 z)"
               and q = "\<lambda>z. \<not> is_empty G (new z)"])
         (simp_all add: A5_def g4 X5_def getitem_update_same not_empty_def and_then_Inr)
    then show ?thesis by (simp add: A5_def A6_def)
  qed
  have s7: "drop_columns [''bbox'', ''histreg'', ''new_g''] A6 = Inr A7"
  proof -
    have c: "filter (\<lambda>c. c \<notin> ?S) c4 = filter (\<lambda>c. c \<notin> ?S) (columns A)"
      by (simp add: c4_def c3_def c2_def with_column_def)
    have in1: "''bbox'' \<in> ?S" and in2: "''histreg'' \<in> ?S" and in3: "''new_g'' \<in> ?S"
      and out: "''geometry'' \<notin> ?S" by simp_all
    have x: "filter (\<lambda>kv. fst kv \<notin> ?S) (X5 z)
        = AList.update ''geometry'' (Geom (new z)) (filter (\<lambda>kv. fst kv \<notin> ?S) (snd (fst z)))" for z
      unfolding X5_def X4_def X3_def X2_def X1_def
      by (simp only: filter_update_in[OF in1] filter_update_in[OF in2] filter_update_in[OF in3]
          filter_update_out[OF out] update_update_same)
    show ?thesis
      using g4 c x by (simp add: drop_columns_def A6_def A7_def)
  qed
  have "overlay_difference G (length h) (Suc (length h)) (h @ [A1, B1])
     = (Inr (Some (Suc (Suc (length h)))), h @ [A5, B1, A7])"
    unfolding overlay_difference_def
    by (simp add: seq_new_frame_case seq_update_frame_case seq_compute_case ret_def
        nth_append list_update_append gB1 s2 s3 s4 s5 s6 s7)
  then show ?thesis
    unfolding A1_def B1_def A7_def new_def ks_def gb'_def by auto
qed


lemma ensures_seq: "(\<And>u. ensures (f u) Q) \<Longrightarrow> ensures (seq m f) Q"
  by (auto simp: ensures_def seq_def split: prod.splits sum.splits)

lemma ensures_if: "ensures m Q \<Longrightarrow> ensures m' Q \<Longrightarrow> ensures (if c then m else m') Q"
  by simp

lemma not_empty_TrueD: "not_empty G c = Inr True \<Longrightarrow> \<exists>g. c = Geom g \<and> \<not> is_empty G g"
  by (cases c) (auto simp: not_empty_def and_then_def)

lemma select_not_empty:
  assumes "select_where ''geometry'' (not_empty G) df = Inr out"
  shows "no_empty_geometry G out"
  unfolding select_where_Inr[OF assms] no_empty_geometry_def
  by (auto simp: list_all_iff dest: not_empty_TrueD)

lemma getitem_filter_keep:
  "P k \<Longrightarrow> getitem (filter (\<lambda>kv. P (fst kv)) x) k = getitem x k"
  by (induction x) (auto simp: getitem_def)

lemma drop_keeps_geometry:
  fixes df :: "('l, 'g, 'b) frame"
  assumes "drop_columns [''bbox'', ''histreg'', ''new_g''] df = Inr out" and "no_empty_geometry G df"
  shows "no_empty_geometry G out"
proof -
  from assms(1) have out: "out = df\<lparr>columns := filter (\<lambda>c. c \<notin> set [''bbox'', ''histreg'', ''new_g'']) (columns df),
        rows := map (\<lambda>r. (fst r, filter (\<lambda>kv. fst kv \<notin> set [''bbox'', ''histreg'', ''new_g'']) (snd r))) (rows df)\<rparr>"
    by (auto simp: drop_columns_def split: if_splits)
  have "getitem (filter (\<lambda>kv. fst kv \<notin> set [''bbox'', ''histreg'', ''new_g'']) x) ''geometry''
      = getitem x ''geometry''" for x :: "('g, 'b) series"
    by (rule getitem_filter_keep) simp
  with assms(2) show ?thesis
    unfolding out no_empty_geometry_def by (simp add: list_all_iff del: set_simps)
qed

lemma ensures_intersection_end:
  "ensures (seq (new_frame (\<lambda>h. select_where ''geometry'' (not_empty G) (h ! d))) (\<lambda>dfinter. ret (Some dfinter)))
     (\<lambda>v h'. \<forall>r. v = Some r \<longrightarrow> no_empty_geometry G (h' ! r))"
  by (auto simp: ensures_def seq_new_frame_case ret_def select_not_empty split: sum.splits)

lemma ensures_difference_end:
  "ensures (seq (new_frame (\<lambda>h. select_where ''geometry'' (not_empty G) (h ! d))) (\<lambda>df1.
            seq (update_frame df1 (\<lambda>h. drop_columns [''bbox'', ''histreg'', ''new_g''] (h ! df1))) (\<lambda>_.
            ret (Some df1))))
     (\<lambda>v h'. \<forall>r. v = Some r \<longrightarrow> no_empty_geometry G (h' ! r))"
  by (auto simp: ensures_def seq_new_frame_case seq_update_frame_case ret_def
      select_not_empty drop_keeps_geometry split: sum.splits)

lemma ensures_overlay_intersection:
  "ensures (overlay_intersection G df1 df2)
     (\<lambda>v h'. \<forall>r. v = Some r \<longrightarrow> no_empty_geometry G (h' ! r))"
  unfolding overlay_intersection_def
  by (intro ensures_seq ensures_intersection_end)

lemma ensures_overlay_difference:
  "ensures (overlay_difference G df1 df2)
     (\<lambda>v h'. \<forall>r. v = Some r \<longrightarrow> no_empty_geometry G (h' ! r))"
  unfolding overlay_difference_def
  by (intro ensures_seq ensures_difference_end)

lemma ensures_spatial_overlays:
  "ensures (spatial_overlays G a b how)
     (\<lambda>v h'. \<forall>r. v = Some r \<longrightarrow> no_empty_geometry G (h' ! r))"
  unfolding spatial_overlays_def
  by (intro ensures_seq ensures_if ensures_overlay_intersection ensures_overlay_difference)
     (simp add: ensures_def ret_def)


text \<open>
  Claim C2. For two tables of the store that have geometry columns, a call with a mode
  that is neither \<^verbatim>\<open>intersection\<close> nor \<^verbatim>\<open>difference\<close> raises nothing and returns
  \<^verbatim>\<open>None\<close>.
\<close>

theorem unrecognized_mode_returns_none:
  assumes "a < length h" and "b < length h"
    and "geometry_column (h ! a) = Inr ga" and "geometry_column (h ! b) = Inr gb"
    and "how \<noteq> ''intersection''" and "how \<noteq> ''difference''"
  shows "fst (spatial_overlays G a b how h) = Inr None"
  using assms(5,6) by (simp add: spatial_overlays_prelude[OF assms(1-4)] ret_def)

text \<open>
  Claim C5. Whatever the mode and the outcome, every object that was in the store before
  the call, the two inputs among them, is the same after it. And for inputs with
  geometry columns the call is its mode's branch run on the store extended by two new
  objects, the copies of the inputs with every geometry replaced by its zero buffer: the
  repair comes first and in every mode, and the branches work on the copies.
\<close>

theorem inputs_repaired_and_not_mutated:
  "take (length h) (snd (spatial_overlays G a b how h)) = h
   \<and> (a < length h \<and> b < length h
        \<and> geometry_column (h ! a) = Inr ga \<and> geometry_column (h ! b) = Inr gb \<longrightarrow>
      geometry_column (repaired G (h ! a) ga) = Inr (map (buffer0 G) ga)
      \<and> geometry_column (repaired G (h ! b) gb) = Inr (map (buffer0 G) gb)
      \<and> spatial_overlays G a b how h =
          (if how = ''intersection'' then overlay_intersection G (length h) (Suc (length h))
           else if how = ''difference'' then overlay_difference G (length h) (Suc (length h))
           else ret None) (h @ [repaired G (h ! a) ga, repaired G (h ! b) gb]))"
proof -
  have "preserves (length h) (spatial_overlays G a b how)"
    by (rule preserves_spatial_overlays)
  then have "take (length h) (snd (spatial_overlays G a b how h)) = h"
    by (simp add: preserves_def)
  then show ?thesis
    by (simp add: geometry_column_repaired spatial_overlays_prelude)
qed

text \<open>
  Claim C3. Whenever \<^verbatim>\<open>spatial_overlays\<close> returns a table, in either mode, every row of
  that table holds a geometry that is not empty.
\<close>

theorem overlay_output_has_no_empty_geometry:
  assumes "fst (spatial_overlays G a b how h) = Inr (Some r)"
  shows "no_empty_geometry G (snd (spatial_overlays G a b how h) ! r)"
proof -
  from assms have "spatial_overlays G a b how h = (Inr (Some r), snd (spatial_overlays G a b how h))"
    by (metis prod.collapse)
  with ensures_spatial_overlays[of G a b how] show ?thesis
    unfolding ensures_def by blast
qed

text \<open>
  The difference branch where the name \<^verbatim>\<open>reduce\<close> is bound: for inputs with geometry
  columns, a second table with a geometry that is not empty and an index that answers
  with positions of the second table, the call returns a new table: the rows of the first input, in order, each
  with its geometry replaced by the fold of pairwise differences that starts from the
  row's repaired geometry, runs over the candidates of the index query from left to right
  and repairs after every subtraction; rows whose fold is empty are left out. Over no
  candidates the fold is the repaired geometry itself.
\<close>

lemma difference_fold_when_reduce_bound:
  assumes a: "a < length h" and b: "b < length h"
    and ga: "geometry_column (h ! a) = Inr ga" and gb: "geometry_column (h ! b) = Inr gb"
    and valid: "\<forall>q. \<forall>j \<in> set (sindex G (map (buffer0 G) gb) q). j < length gb"
    and bound: "reduce_bound G"
    and indexed: "\<not> list_all (is_empty G) (map (buffer0 G) gb)"
  shows "fst (spatial_overlays G a b ''difference'' h) = Inr (Some (length h + 2))
     \<and> snd (spatial_overlays G a b ''difference'' h) ! (length h + 2) =
         \<lparr>columns = filter (\<lambda>c. c \<notin> {''bbox'', ''histreg'', ''new_g''}) (columns (h ! a)),
          rows = map (\<lambda>z. (fst (fst z),
                     AList.update ''geometry''
                       (Geom (difference_fold G (snd z) (candidates G gb (snd z))))
                       (filter (\<lambda>kv. fst kv \<notin> {''bbox'', ''histreg'', ''new_g''}) (snd (fst z)))))
                   (filter (\<lambda>z. \<not> is_empty G (difference_fold G (snd z) (candidates G gb (snd z))))
                      (zip (rows (h ! a)) ga)),
          crs = crs (h ! a)\<rparr>
     \<and> difference_fold G g [] = buffer0 G g"
proof -
  from overlay_difference_eval[OF ga gb valid bound, of h] obtain A5 where
    "overlay_difference G (length h) (Suc (length h)) (h @ [repaired G (h ! a) ga, repaired G (h ! b) gb])
     = (Inr (Some (Suc (Suc (length h)))),
        h @ [A5, repaired G (h ! b) gb,
             \<lparr>columns = filter (\<lambda>c. c \<notin> {''bbox'', ''histreg'', ''new_g''}) (columns (h ! a)),
              rows = map (\<lambda>z. (fst (fst z),
                         AList.update ''geometry''
                           (Geom (difference_fold G (snd z)
                              (map (\<lambda>j. map (buffer0 G) gb ! j)
                                 (sindex G (map (buffer0 G) gb) (bounds G (buffer0 G (snd z)))))))
                           (filter (\<lambda>kv. fst kv \<notin> {''bbox'', ''histreg'', ''new_g''}) (snd (fst z)))))
                       (filter (\<lambda>z. \<not> is_empty G (difference_fold G (snd z)
                              (map (\<lambda>j. map (buffer0 G) gb ! j)
                                 (sindex G (map (buffer0 G) gb) (bounds G (buffer0 G (snd z)))))))
                          (zip (rows (h ! a)) ga)),
              crs = crs (h ! a)\<rparr>])"
    by blast
  then show ?thesis
    by (simp add: spatial_overlays_prelude[OF a b ga gb] candidates_def difference_fold_def nth_append)
qed

lemma difference_histreg_rows:
  fixes A B :: "(int, 'a, 'b) frame"
  assumes ga: "geometry_column A = Inr ga"
  shows "\<exists>A2 A3.
       assign_from_geometry ''bbox'' (\<lambda>x. Box (bounds G x)) (repaired G A ga) = Inr A2
     \<and> assign_from_column ''histreg'' ''bbox'' (index_query G gb') A2 = Inr A3
     \<and> length (rows A3) = length (rows A)"
proof -
  let ?Z = "zip (rows A) ga"
  define ks where "ks = (\<lambda>z :: (int \<times> ('a, 'b) series) \<times> 'a. sindex G gb' (bounds G (buffer0 G (snd z))))"
  define X1 where "X1 = (\<lambda>z :: (int \<times> ('a, 'b) series) \<times> 'a.
      AList.update ''geometry'' (Geom (buffer0 G (snd z))) (snd (fst z)))"
  define X2 where "X2 = (\<lambda>z. AList.update ''bbox'' (Box (bounds G (buffer0 G (snd z)))) (X1 z))"
  define X3 where "X3 = (\<lambda>z. AList.update ''histreg'' (Hits (ks z)) (X2 z))"
  define A1 where "A1 = repaired G A ga"
  define c2 where "c2 = with_column ''bbox'' (columns A)"
  define c3 where "c3 = with_column ''histreg'' c2"
  define A2 where "A2 = A\<lparr>columns := c2, rows := map (\<lambda>z. (fst (fst z), X2 z)) ?Z\<rparr>"
  define A3 where "A3 = A\<lparr>columns := c3, rows := map (\<lambda>z. (fst (fst z), X3 z)) ?Z\<rparr>"
  from geometry_column_InrD[OF ga] have geo: "''geometry'' \<in> set (columns A)"
    and all2: "list_all2 (\<lambda>r g. getitem (snd r) ''geometry'' = Inr (Geom g)) (rows A) ga"
    by simp_all
  have rows1: "rows A1 = map (\<lambda>z. (fst (fst z), X1 z)) ?Z"
    by (simp add: A1_def repaired_def X1_def)
  have cols1: "columns A1 = columns A" by (simp add: A1_def repaired_def)
  have g1: "''geometry'' \<in> set c2" "''bbox'' \<in> set c2" by (simp_all add: c2_def with_column_def geo)
  have s2: "assign_from_geometry ''bbox'' (\<lambda>x. Box (bounds G x)) A1 = Inr A2"
  proof -
    have "assign_from_rows ''bbox''
             (\<lambda>x. and_then (getitem x ''geometry'') (\<lambda>c.
                  and_then (geometry_of c) (\<lambda>g. Inr (Box (bounds G g))))) A1
        = Inr (A1\<lparr>columns := with_column ''bbox'' (columns A1),
               rows := map (\<lambda>z. (fst (fst z),
                   AList.update ''bbox'' (Box (bounds G (buffer0 G (snd z)))) (X1 z))) ?Z\<rparr>)"
      by (subst assign_rows_mapped[OF rows1, where val = "\<lambda>z. Box (bounds G (buffer0 G (snd z)))"])
         (simp_all add: X1_def getitem_update_same and_then_Inr)
    then show ?thesis
      by (simp add: assign_from_geometry_def cols1 geo A2_def A1_def repaired_def c2_def X2_def)
  qed
  have s3: "assign_from_column ''histreg'' ''bbox'' (index_query G gb') A2 = Inr A3"
  proof -
    have "assign_from_rows ''histreg'' (\<lambda>x. and_then (getitem x ''bbox'') (index_query G gb')) A2
        = Inr (A2\<lparr>columns := with_column ''histreg'' (columns A2),
               rows := map (\<lambda>z. (fst (fst z),
                   AList.update ''histreg'' (Hits (ks z)) (X2 z))) ?Z\<rparr>)"
      by (subst assign_rows_mapped[where Z = "?Z" and F = "\<lambda>z. (fst (fst z), X2 z)"
               and val = "\<lambda>z. Hits (ks z)"])
         (simp_all add: A2_def X2_def getitem_update_same and_then_Inr ks_def)
    then show ?thesis
      by (simp add: assign_from_column_def A2_def g1 A3_def c3_def X3_def)
  qed
  from all2 have "length ga = length (rows A)" by (simp add: list_all2_lengthD)
  then have "length (rows A3) = length (rows A)" by (simp add: A3_def)
  with s2 s3 show ?thesis unfolding A1_def by blast
qed

lemma assign_from_rows_raises:
  assumes "rows df \<noteq> []" and "\<And>x. f x = Inl e"
  shows "assign_from_rows name f df = Inl e"
proof -
  from assms(1) obtain r rs where "rows df = r # rs" by (cases "rows df") auto
  then show ?thesis by (simp add: assign_from_rows_def assms(2) and_then_def)
qed

text \<open>
  Claim C1. The fold of the differences is what line 73 of the module writes, and what it
  computes where \<^verbatim>\<open>reduce\<close> is bound. Where the name is not bound, as on Python 3,
  a call in difference mode raises NameError, for every pair of inputs with geometry
  columns, a record in the first table and, for the spatial index, a geometry in the
  second that is not empty: the bounds and the candidates of the first table are
  computed, and the first record's fold raises before any difference is taken.
\<close>

theorem difference_mode_raises_name_error:
  assumes a: "a < length h" and b: "b < length h"
    and ga: "geometry_column (h ! a) = Inr ga" and gb: "geometry_column (h ! b) = Inr gb"
    and unbound: "\<not> reduce_bound G" and some: "rows (h ! a) \<noteq> []"
    and indexed: "\<not> list_all (is_empty G) (map (buffer0 G) gb)"
  shows "fst (spatial_overlays G a b ''difference'' h) = Inl NameError"
proof -
  from difference_histreg_rows[OF ga, of G "map (buffer0 G) gb"] obtain A2 A3 where
    s2: "assign_from_geometry ''bbox'' (\<lambda>x. Box (bounds G x)) (repaired G (h ! a) ga) = Inr A2"
    and s3: "assign_from_column ''histreg'' ''bbox'' (index_query G (map (buffer0 G) gb)) A2 = Inr A3"
    and len: "length (rows A3) = length (rows (h ! a))"
    by blast
  from len some have "rows A3 \<noteq> []" by auto
  then have s4: "assign_from_rows ''new_g'' (erase_row G (repaired G (h ! b) gb)) A3 = Inl NameError"
    by (rule assign_from_rows_raises) (simp add: erase_row_def unbound)
  have "fst (overlay_difference G (length h) (Suc (length h))
          (h @ [repaired G (h ! a) ga, repaired G (h ! b) gb])) = Inl NameError"
    unfolding overlay_difference_def
    by (simp add: seq_new_frame_case seq_update_frame_case seq_compute_case ret_def
        nth_append list_update_append geometry_column_repaired[OF gb] s2 s3 s4)
  then show ?thesis
    by (simp add: spatial_overlays_prelude[OF a b ga gb])
qed

lemma grid_sindex_valid: "\<forall>j \<in> set (grid_sindex gs q). j < length gs"
  by (auto simp: grid_sindex_def enumerate_eq_zip dest!: set_zip_leftD)



lemma sample_A_geometries: "geometry_column sample_A = Inr [[1, 2, 2, 3], [7, 9], [20], [4]]"
  by (simp add: sample_A_def geometry_column_def getitem_Cons and_then_def)

lemma sample_B_geometries: "geometry_column sample_B = Inr [[2, 3, 4], [8], [3, 3, 7]]"
  by (simp add: sample_B_def geometry_column_def getitem_Cons and_then_def)

lemma grid_index_positions: "\<forall>q. \<forall>j \<in> set (sindex grid (map (buffer0 grid) gs) q). j < length gs"
  using grid_sindex_valid[of "map remdups gs"] by (simp add: grid_def)


lemma sample_intersection_returns:
  "fst (spatial_overlays grid 0 1 ''intersection'' [sample_A, sample_B]) = Inr (Some 10)"
  by code_simp

lemma sample_difference_returns:
  "fst (spatial_overlays grid_with_reduce 0 1 ''difference'' [sample_A, sample_B]) = Inr (Some 4)"
  by code_simp

lemma sample_difference_result:
  "snd (spatial_overlays grid_with_reduce 0 1 ''difference'' [sample_A, sample_B]) ! 4 =
     \<lparr>columns = [''name'', ''geometry''],
      rows = [(0, [(''name'', Str ''a0''), (''geometry'', Geom [1])]),
              (1, [(''name'', Str ''a1''), (''geometry'', Geom [9])]),
              (2, [(''name'', Str ''a2''), (''geometry'', Geom [20])])],
      crs = ''epsg:4326''\<rparr>"
  by code_simp

theorem difference_mode_raises_name_error_witness:
  "fst (spatial_overlays grid 0 1 ''difference'' [sample_A, sample_B]) = Inl NameError"
proof -
  have a: "0 < length [sample_A, sample_B]" and b: "1 < length [sample_A, sample_B]" by simp_all
  have ga_at: "geometry_column ([sample_A, sample_B] ! 0) = Inr [[1, 2, 2, 3], [7, 9], [20], [4]]"
    using sample_A_geometries by simp
  have gb_at: "geometry_column ([sample_A, sample_B] ! 1) = Inr [[2, 3, 4], [8], [3, 3, 7]]"
    using sample_B_geometries by simp
  have u: "\<not> reduce_bound grid" by (simp add: grid_def)
  have r: "rows ([sample_A, sample_B] ! 0) \<noteq> []" by (simp add: sample_A_def)
  have i: "\<not> list_all (is_empty grid) (map (buffer0 grid) [[2, 3, 4], [8], [3, 3, 7]])"
    by (simp add: grid_def)
  show ?thesis
    by (rule difference_mode_raises_name_error[OF a b ga_at gb_at u r i])
qed

theorem unrecognized_mode_returns_none_witness:
  "fst (spatial_overlays grid 0 1 ''union'' [sample_A, sample_B]) = Inr None"
  using unrecognized_mode_returns_none[of 0 "[sample_A, sample_B]" 1 "[[1, 2, 2, 3], [7, 9], [20], [4]]"
      "[[2, 3, 4], [8], [3, 3, 7]]" "''union''" grid] sample_A_geometries sample_B_geometries
  by simp

theorem overlay_output_has_no_empty_geometry_witness:
  "fst (spatial_overlays grid 0 1 ''intersection'' [sample_A, sample_B]) = Inr (Some 10)
   \<and> no_empty_geometry grid (snd (spatial_overlays grid 0 1 ''intersection'' [sample_A, sample_B]) ! 10)
   \<and> fst (spatial_overlays grid_with_reduce 0 1 ''difference'' [sample_A, sample_B]) = Inr (Some 4)
   \<and> no_empty_geometry grid_with_reduce
         (snd (spatial_overlays grid_with_reduce 0 1 ''difference'' [sample_A, sample_B]) ! 4)"
  using overlay_output_has_no_empty_geometry[OF sample_intersection_returns] overlay_output_has_no_empty_geometry[OF sample_difference_returns]
    sample_intersection_returns sample_difference_returns
  by simp

lemma sample_repairs:
  "map (buffer0 grid) [[1, 2, 2, 3], [7, 9], [20], [4]] = [[1, 2, 3], [7, 9], [20], [4]]"
  "map (buffer0 grid) [[2, 3, 4], [8], [3, 3, 7]] = [[2, 3, 4], [8], [3, 7]]"
  by (simp_all add: grid_def)

theorem inputs_repaired_and_not_mutated_witness:
  "take 2 (snd (spatial_overlays grid 0 1 ''difference'' [sample_A, sample_B])) = [sample_A, sample_B]
   \<and> geometry_column (repaired grid sample_A [[1, 2, 2, 3], [7, 9], [20], [4]])
        = Inr [[1, 2, 3], [7, 9], [20], [4]]
   \<and> geometry_column (repaired grid sample_B [[2, 3, 4], [8], [3, 3, 7]])
        = Inr [[2, 3, 4], [8], [3, 7]]
   \<and> spatial_overlays grid 0 1 ''difference'' [sample_A, sample_B]
        = overlay_difference grid 2 3
            [sample_A, sample_B, repaired grid sample_A [[1, 2, 2, 3], [7, 9], [20], [4]],
             repaired grid sample_B [[2, 3, 4], [8], [3, 3, 7]]]"
proof -
  have len: "Suc (length [sample_A, sample_B]) = 3" "length [sample_A, sample_B] = 2" by simp_all
  have pre: "0 < length [sample_A, sample_B] \<and> 1 < length [sample_A, sample_B]
      \<and> geometry_column ([sample_A, sample_B] ! 0) = Inr [[1, 2, 2, 3], [7, 9], [20], [4]]
      \<and> geometry_column ([sample_A, sample_B] ! 1) = Inr [[2, 3, 4], [8], [3, 3, 7]]"
    using sample_A_geometries sample_B_geometries by simp
  note t = inputs_repaired_and_not_mutated[of "[sample_A, sample_B]" grid 0 1 "''difference''" "[[1, 2, 2, 3], [7, 9], [20], [4]]"
      "[[2, 3, 4], [8], [3, 3, 7]]"]
  from t have frame: "take (length [sample_A, sample_B])
      (snd (spatial_overlays grid 0 1 ''difference'' [sample_A, sample_B])) = [sample_A, sample_B]"
    by (rule conjunct1)
  from t pre have rest:
    "geometry_column (repaired grid ([sample_A, sample_B] ! 0) [[1, 2, 2, 3], [7, 9], [20], [4]])
        = Inr (map (buffer0 grid) [[1, 2, 2, 3], [7, 9], [20], [4]])
      \<and> geometry_column (repaired grid ([sample_A, sample_B] ! 1) [[2, 3, 4], [8], [3, 3, 7]])
        = Inr (map (buffer0 grid) [[2, 3, 4], [8], [3, 3, 7]])
      \<and> spatial_overlays grid 0 1 ''difference'' [sample_A, sample_B] =
          (if ''difference'' = ''intersection''
           then overlay_intersection grid (length [sample_A, sample_B]) (Suc (length [sample_A, sample_B]))
           else if ''difference'' = ''difference''
           then overlay_difference grid (length [sample_A, sample_B]) (Suc (length [sample_A, sample_B]))
           else ret None)
            ([sample_A, sample_B] @
             [repaired grid ([sample_A, sample_B] ! 0) [[1, 2, 2, 3], [7, 9], [20], [4]],
              repaired grid ([sample_A, sample_B] ! 1) [[2, 3, 4], [8], [3, 3, 7]]])"
    by blast
  show ?thesis
    using frame rest unfolding len sample_repairs by simp
qed

subsection \<open>The schema of the intersection\<close>

lemma seq_new_frameE:
  assumes "seq (new_frame e) f h = (Inr v, h')"
  obtains d where "e h = Inr d" and "f (length h) (h @ [d]) = (Inr v, h')"
  using assms by (auto simp: seq_new_frame_case split: sum.splits)

lemma seq_update_frameE:
  assumes "seq (update_frame r e) f h = (Inr v, h')"
  obtains d where "e h = Inr d" and "f () (h[r := d]) = (Inr v, h')"
  using assms by (auto simp: seq_update_frame_case split: sum.splits)

lemma seq_computeE:
  assumes "seq (compute e) f h = (Inr v, h')"
  obtains u where "e h = Inr u" and "f u h = (Inr v, h')"
  using assms by (auto simp: seq_compute_case split: sum.splits)

lemma columns_assign_from_rows:
  "assign_from_rows name f df = Inr d \<Longrightarrow> columns d = with_column name (columns df)"
  by (simp add: assign_from_rows_Inr)

lemma columns_assign_from_geometry:
  "assign_from_geometry name f df = Inr d \<Longrightarrow> columns d = with_column name (columns df)"
  by (auto simp: assign_from_geometry_def columns_assign_from_rows split: if_splits)

lemma columns_assign_from_column:
  "assign_from_column name src f df = Inr d \<Longrightarrow> columns d = with_column name (columns df)"
  by (auto simp: assign_from_column_def columns_assign_from_rows split: if_splits)

lemma columns_merge_on_index:
  "merge_on_index l k r sfx = Inr d \<Longrightarrow>
     columns d = map (suffixed (columns r) (fst sfx)) (columns l)
               @ map (suffixed (columns l) (snd sfx)) (columns r)"
  by (auto simp: merge_on_index_def split: if_splits)

lemma columns_select_columns: "select_columns names df = Inr d \<Longrightarrow> columns d = names"
  by (auto simp: select_columns_def elim!: and_then_InrE split: if_splits)

lemma columns_select_where:
  assumes "select_where name p df = Inr d"
  shows "columns d = columns df"
  by (subst select_where_Inr[OF assms]) simp

lemma list_remove_InrD: "list_remove x xs = Inr ys \<Longrightarrow> x \<in> set xs \<and> ys = remove1 x xs"
  by (auto simp: list_remove_def split: if_splits)

lemma columns_repaired: "columns (repaired G df gs) = columns df"
  by (simp add: repaired_def)

lemma intersection_columns:
  fixes joined :: "string list"
  assumes run: "overlay_intersection G (length h) (Suc (length h)) (h @ [A1, B1]) = (Inr (Some r), h')"
    and joined: "joined =
          map (suffixed (columns B1) ''_1'')
            (map (suffixed (with_column ''histreg'' (with_column ''bbox'' (columns A1))) ''_x'')
               [''idx1'', ''idx2'']
             @ map (suffixed [''idx1'', ''idx2''] ''_y'')
                 (with_column ''histreg'' (with_column ''bbox'' (columns A1))))
          @ map (suffixed
                  (map (suffixed (with_column ''histreg'' (with_column ''bbox'' (columns A1))) ''_x'')
                     [''idx1'', ''idx2'']
                   @ map (suffixed [''idx1'', ''idx2''] ''_y'')
                       (with_column ''histreg'' (with_column ''bbox'' (columns A1)))) ''_2'')
              (columns B1)"
  shows "r = length h + 8
     \<and> columns (h' ! (length h + 4)) = with_column ''Intersection'' joined
     \<and> ''geometry_1'' \<in> set (with_column ''Intersection'' joined)
     \<and> ''geometry_2'' \<in> set (remove1 ''geometry_1'' (with_column ''Intersection'' joined))
     \<and> ''histreg'' \<in> set (remove1 ''geometry_2'' (remove1 ''geometry_1'' (with_column ''Intersection'' joined)))
     \<and> ''bbox'' \<in> set (remove1 ''histreg'' (remove1 ''geometry_2'' (remove1 ''geometry_1''
                        (with_column ''Intersection'' joined))))
     \<and> columns (h' ! r) =
          map (\<lambda>c. if c = ''Intersection'' then ''geometry'' else c)
            (remove1 ''Intersection'' (remove1 ''bbox'' (remove1 ''histreg''
               (remove1 ''geometry_2'' (remove1 ''geometry_1'' (with_column ''Intersection'' joined)))))
             @ [''Intersection''])"
  using run unfolding overlay_intersection_def
  apply (elim seq_computeE seq_update_frameE seq_new_frameE)
  subgoal premises p for u d da ua ub db dc dd de df uc ud ue uf ug uh dg dh di dj
  proof -
    have p2: "assign_from_geometry ''bbox'' (\<lambda>x. Box (bounds G x)) A1 = Inr d"
      using p(2) by (simp add: nth_append)
    have p3: "assign_from_column ''histreg'' ''bbox'' (index_query G u) d = Inr da"
      using p(3) by (simp add: nth_append list_update_append)
    have p6: "pairs_frame ub (crs da) = db"
      using p(6) by (simp add: nth_append list_update_append)
    have p7: "merge_on_index db ''idx1'' da (''_x'', ''_y'') = Inr dc"
      using p(7) by (simp add: nth_append list_update_append)
    have p8: "merge_on_index dc ''idx2'' B1 (''_1'', ''_2'') = Inr dd"
      using p(8) by (simp add: nth_append list_update_append)
    have p9: "assign_from_rows ''Intersection'' (intersect_row G) dd = Inr de"
      using p(9) by (simp add: nth_append list_update_append)
    have p10: "de\<lparr>crs := crs da\<rparr> = df"
      using p(10) by (simp add: nth_append list_update_append)
    have p11: "columns df = uc"
      using p(11) by (simp add: nth_append list_update_append)
    have p17: "select_columns (uh @ [''Intersection'']) df = Inr dg"
      using p(17) by (simp add: nth_append list_update_append)
    have p18: "rename_column ''Intersection'' ''geometry'' dg = dh"
      using p(18) by (simp add: nth_append list_update_append)
    have p19: "dh\<lparr>crs := crs df\<rparr> = di"
      using p(19) by (simp add: nth_append list_update_append)
    have p20: "select_where ''geometry'' (not_empty G) di = Inr dj"
      using p(20) by (simp add: nth_append list_update_append)
    have p21: "r = length h + 8 \<and> h' = h @ [da, B1, db, dc, de, df, dh, di, dj]"
      using p(21) by (auto simp: ret_def list_update_append)
    have cd: "columns d = with_column ''bbox'' (columns A1)"
      using p2 by (rule columns_assign_from_geometry)
    have cda: "columns da = with_column ''histreg'' (with_column ''bbox'' (columns A1))"
      using columns_assign_from_column[OF p3] cd by simp
    have cdb: "columns db = [''idx1'', ''idx2'']"
      using p6 by (auto simp: pairs_frame_def)
    have cdc: "columns dc = map (suffixed (columns da) ''_x'') [''idx1'', ''idx2'']
                  @ map (suffixed [''idx1'', ''idx2''] ''_y'') (columns da)"
      using columns_merge_on_index[OF p7] cdb by simp
    have cdd: "columns dd = map (suffixed (columns B1) ''_1'') (columns dc)
                  @ map (suffixed (columns dc) ''_2'') (columns B1)"
      using columns_merge_on_index[OF p8] by simp
    have j: "columns dd = joined"
      unfolding joined cdd cdc cda ..
    have cde: "columns de = with_column ''Intersection'' joined"
      using columns_assign_from_rows[OF p9] j by simp
    have uc: "uc = with_column ''Intersection'' joined" using p10 p11 cde by auto
    note r1 = list_remove_InrD[OF p(12)] and r2 = list_remove_InrD[OF p(13)]
      and r3 = list_remove_InrD[OF p(14)] and r4 = list_remove_InrD[OF p(15)]
      and r5 = list_remove_InrD[OF p(16)]
    have cdg: "columns dg = uh @ [''Intersection'']"
      using p17 by (rule columns_select_columns)
    have cdh: "columns dh = map (\<lambda>c. if c = ''Intersection'' then ''geometry'' else c) (columns dg)"
      using p18 by (auto simp: rename_column_def)
    have cdj: "columns dj = columns dh"
      using columns_select_where[OF p20] p19 by auto
    from p21 have r: "r = length h + 8" and h': "h' = h @ [da, B1, db, dc, de, df, dh, di, dj]"
      by auto
    have at4: "h' ! (length h + 4) = de" and atr: "h' ! (length h + 8) = dj"
      by (simp_all add: h' nth_append)
    have uh: "uh = remove1 ''Intersection'' (remove1 ''bbox'' (remove1 ''histreg''
               (remove1 ''geometry_2'' (remove1 ''geometry_1'' (with_column ''Intersection'' joined)))))"
      using r1 r2 r3 r4 r5 uc by simp
    have m1: "''geometry_1'' \<in> set (with_column ''Intersection'' joined)"
      using r1 uc by simp
    have m2: "''geometry_2'' \<in> set (remove1 ''geometry_1'' (with_column ''Intersection'' joined))"
      using r1 r2 uc by simp
    have m3: "''histreg'' \<in> set (remove1 ''geometry_2'' (remove1 ''geometry_1'' (with_column ''Intersection'' joined)))"
      using r1 r2 r3 uc by simp
    have m4: "''bbox'' \<in> set (remove1 ''histreg'' (remove1 ''geometry_2'' (remove1 ''geometry_1''
                        (with_column ''Intersection'' joined))))"
      using r1 r2 r3 r4 uc by simp
    have out: "columns (h' ! r) = map (\<lambda>c. if c = ''Intersection'' then ''geometry'' else c)
            (uh @ [''Intersection''])"
      unfolding r atr cdj cdh cdg ..
    show ?thesis
      unfolding at4 cde out uh[symmetric]
      using r m1 m2 m3 m4 by (simp only: simp_thms)
  qed
  done

lemma suffixed_cases: "suffixed others sfx c = c \<or> suffixed others sfx c = c @ sfx"
  by (simp add: suffixed_def)

lemma underscore_suffix:
  "c @ [CHR ''_'', d] = k \<Longrightarrow> rev k ! 1 = CHR ''_''"
  by auto

lemma bookkeeping_not_suffixed:
  assumes "k \<in> {''idx1'', ''idx2'', ''bbox'', ''histreg'', ''Intersection''}"
    and "k \<notin> set cs" and "sfx = ''_1'' \<or> sfx = ''_2''"
  shows "k \<notin> set (map (suffixed others sfx) cs)"
proof
  assume "k \<in> set (map (suffixed others sfx) cs)"
  then obtain c where c: "c \<in> set cs" and k: "k = suffixed others sfx c" by auto
  from suffixed_cases[of others sfx c] show False
  proof
    assume "suffixed others sfx c = c"
    with k c assms(2) show False by simp
  next
    assume "suffixed others sfx c = c @ sfx"
    with k have "c @ sfx = k" by simp
    with assms(3) have "rev k ! 1 = CHR ''_''" by (auto dest: underscore_suffix)
    with assms(1) show False by auto
  qed
qed

lemma remove1_map_distinct:
  "distinct (map f xs) \<Longrightarrow> x \<in> set xs \<Longrightarrow>
     remove1 (f x) (map f xs) = map f (filter (\<lambda>y. y \<noteq> x) xs)"
proof (induction xs)
  case Nil then show ?case by simp
next
  case (Cons a xs)
  show ?case
  proof (cases "a = x")
    case True
    with Cons.prems have "x \<notin> set xs" by auto
    then have "filter (\<lambda>y. y \<noteq> x) xs = xs" by (auto simp: filter_id_conv)
    with True show ?thesis by simp
  next
    case False
    with Cons.prems have "x \<in> set xs" and "f a \<noteq> f x" by auto
    with Cons False show ?thesis by simp
  qed
qed

lemma joined_columns:
  assumes names: "\<forall>k \<in> {''idx1'', ''idx2'', ''bbox'', ''histreg'', ''Intersection''}.
                    k \<notin> set cA \<and> k \<notin> set cB"
  shows "map (suffixed cB ''_1'')
            (map (suffixed (with_column ''histreg'' (with_column ''bbox'' cA)) ''_x'')
               [''idx1'', ''idx2'']
             @ map (suffixed [''idx1'', ''idx2''] ''_y'')
                 (with_column ''histreg'' (with_column ''bbox'' cA)))
          @ map (suffixed
                  (map (suffixed (with_column ''histreg'' (with_column ''bbox'' cA)) ''_x'')
                     [''idx1'', ''idx2'']
                   @ map (suffixed [''idx1'', ''idx2''] ''_y'')
                       (with_column ''histreg'' (with_column ''bbox'' cA))) ''_2'')
              cB
      = [''idx1'', ''idx2''] @ map (suffixed cB ''_1'') cA @ [''bbox'', ''histreg'']
        @ map (suffixed cA ''_2'') cB"
proof -
  from names have nA: "''idx1'' \<notin> set cA" "''idx2'' \<notin> set cA" "''bbox'' \<notin> set cA" "''histreg'' \<notin> set cA"
    and nB: "''idx1'' \<notin> set cB" "''idx2'' \<notin> set cB" "''bbox'' \<notin> set cB" "''histreg'' \<notin> set cB"
    by simp_all
  have c3: "with_column ''histreg'' (with_column ''bbox'' cA) = cA @ [''bbox'', ''histreg'']"
    using nA by (simp add: with_column_def)
  have x: "map (suffixed (cA @ [''bbox'', ''histreg'']) ''_x'') [''idx1'', ''idx2''] = [''idx1'', ''idx2'']"
    using nA by (simp add: suffixed_def)
  have y: "map (suffixed [''idx1'', ''idx2''] ''_y'') (cA @ [''bbox'', ''histreg''])
      = cA @ [''bbox'', ''histreg'']"
    using nA by (intro map_idI) (auto simp: suffixed_def)
  have l: "map (suffixed cB ''_1'') ([''idx1'', ''idx2''] @ cA @ [''bbox'', ''histreg''])
      = [''idx1'', ''idx2''] @ map (suffixed cB ''_1'') cA @ [''bbox'', ''histreg'']"
    using nB by (simp add: suffixed_def)
  have r: "map (suffixed ([''idx1'', ''idx2''] @ cA @ [''bbox'', ''histreg'']) ''_2'') cB
      = map (suffixed cA ''_2'') cB"
    using nB by (intro map_cong refl) (auto simp: suffixed_def)
  show ?thesis
    unfolding c3 x y l r by simp
qed

lemma remove1_in_front: "x \<in> set xs \<Longrightarrow> remove1 x (xs @ ys) = remove1 x xs @ ys"
  by (simp add: remove1_append)

lemma remove1_behind: "x \<notin> set xs \<Longrightarrow> remove1 x (xs @ ys) = xs @ remove1 x ys"
  by (simp add: remove1_append)

lemma removal_chain:
  fixes MA MB :: "string list"
  assumes d: "distinct (MA @ MB)" and g1: "g1 \<in> set MA" and g2: "g2 \<in> set MB"
    and bk: "\<forall>k \<in> {''idx1'', ''idx2'', ''bbox'', ''histreg'', ''Intersection''}.
               k \<notin> set MA \<and> k \<notin> set MB"
  shows "map (\<lambda>c. if c = ''Intersection'' then ''geometry'' else c)
           (remove1 ''Intersection'' (remove1 ''bbox'' (remove1 ''histreg'' (remove1 g2
              (remove1 g1
                 (([''idx1'', ''idx2''] @ MA @ [''bbox'', ''histreg''] @ MB) @ [''Intersection''])))))
            @ [''Intersection''])
       = [''idx1'', ''idx2''] @ remove1 g1 MA @ remove1 g2 MB @ [''geometry'']"
proof -
  let ?A = "remove1 g1 MA" and ?B = "remove1 g2 MB"
  from bk have nA: "''idx1'' \<notin> set MA" "''idx2'' \<notin> set MA" "''bbox'' \<notin> set MA"
      "''histreg'' \<notin> set MA" "''Intersection'' \<notin> set MA"
    and nB: "''idx1'' \<notin> set MB" "''idx2'' \<notin> set MB" "''bbox'' \<notin> set MB"
      "''histreg'' \<notin> set MB" "''Intersection'' \<notin> set MB"
    by simp_all
  have sA: "set ?A \<subseteq> set MA" and sB: "set ?B \<subseteq> set MB"
    by (rule set_remove1_subset)+
  from nA sA have nA': "''idx1'' \<notin> set ?A" "''idx2'' \<notin> set ?A" "''bbox'' \<notin> set ?A"
      "''histreg'' \<notin> set ?A" "''Intersection'' \<notin> set ?A"
    by blast+
  from nB sB have nB': "''idx1'' \<notin> set ?B" "''idx2'' \<notin> set ?B" "''bbox'' \<notin> set ?B"
      "''histreg'' \<notin> set ?B" "''Intersection'' \<notin> set ?B"
    by blast+
  from g1 nA have g1n: "g1 \<noteq> ''idx1''" "g1 \<noteq> ''idx2''" by auto
  from g2 nB have g2n: "g2 \<noteq> ''idx1''" "g2 \<noteq> ''idx2''" "g2 \<noteq> ''bbox''" "g2 \<noteq> ''histreg''"
    by auto
  from d g2 have "g2 \<notin> set MA" by auto
  with sA have g2A: "g2 \<notin> set ?A" by blast
  have s1: "remove1 g1 (([''idx1'', ''idx2''] @ MA @ [''bbox'', ''histreg''] @ MB) @ [''Intersection''])
      = [''idx1'', ''idx2''] @ ?A @ [''bbox'', ''histreg''] @ MB @ [''Intersection'']"
    using g1n g1 by (simp add: remove1_in_front)
  have s2: "remove1 g2 ([''idx1'', ''idx2''] @ ?A @ [''bbox'', ''histreg''] @ MB @ [''Intersection''])
      = [''idx1'', ''idx2''] @ ?A @ [''bbox'', ''histreg''] @ ?B @ [''Intersection'']"
    using g2n g2 g2A by (simp add: remove1_in_front remove1_behind)
  have s3: "remove1 ''histreg'' ([''idx1'', ''idx2''] @ ?A @ [''bbox'', ''histreg''] @ ?B @ [''Intersection''])
      = [''idx1'', ''idx2''] @ ?A @ [''bbox''] @ ?B @ [''Intersection'']"
    using nA'(4) by (simp add: remove1_behind)
  have s4: "remove1 ''bbox'' ([''idx1'', ''idx2''] @ ?A @ [''bbox''] @ ?B @ [''Intersection''])
      = [''idx1'', ''idx2''] @ ?A @ ?B @ [''Intersection'']"
    using nA'(3) by (simp add: remove1_behind)
  have s5: "remove1 ''Intersection'' ([''idx1'', ''idx2''] @ ?A @ ?B @ [''Intersection''])
      = [''idx1'', ''idx2''] @ ?A @ ?B"
    using nA'(5) nB'(5) by (simp add: remove1_behind)
  have mA: "map (\<lambda>c. if c = ''Intersection'' then ''geometry'' else c) ?A = ?A"
    using nA'(5) by (intro map_idI) auto
  have mB: "map (\<lambda>c. if c = ''Intersection'' then ''geometry'' else c) ?B = ?B"
    using nB'(5) by (intro map_idI) auto
  show ?thesis
    unfolding s1 s2 s3 s4 s5 by (simp add: mA mB)
qed

text \<open>
  Claim C4 (as amended). In intersection mode, for inputs with geometry columns, none of
  whose columns is named idx1, idx2, bbox, histreg or Intersection, and whose column
  names are pairwise different after suffixing, the returned table has the columns idx1,
  idx2, the attribute columns of the first input, the attribute columns of the second
  input and geometry, in this order. A column of the first input whose name is also a
  column name of the second carries the suffix _1, a column of the second input whose
  name is also a column name of the first carries _2, every other name is kept. The joined
  table, before the helper columns are removed, holds the two geometry columns as
  geometry_1 and geometry_2, whatever the other names are.
\<close>

theorem intersection_schema:
  assumes run: "fst (spatial_overlays G a b ''intersection'' h) = Inr (Some r)"
    and a: "a < length h" and b: "b < length h"
    and ga: "geometry_column (h ! a) = Inr ga" and gb: "geometry_column (h ! b) = Inr gb"
    and names: "\<forall>k \<in> {''idx1'', ''idx2'', ''bbox'', ''histreg'', ''Intersection''}.
                  k \<notin> set (columns (h ! a)) \<and> k \<notin> set (columns (h ! b))"
    and d: "distinct (map (suffixed (columns (h ! b)) ''_1'') (columns (h ! a))
                      @ map (suffixed (columns (h ! a)) ''_2'') (columns (h ! b)))"
  shows "columns (snd (spatial_overlays G a b ''intersection'' h) ! r)
       = [''idx1'', ''idx2'']
         @ map (suffixed (columns (h ! b)) ''_1'') (filter (\<lambda>c. c \<noteq> ''geometry'') (columns (h ! a)))
         @ map (suffixed (columns (h ! a)) ''_2'') (filter (\<lambda>c. c \<noteq> ''geometry'') (columns (h ! b)))
         @ [''geometry'']
     \<and> columns (snd (spatial_overlays G a b ''intersection'' h) ! (length h + 4))
       = [''idx1'', ''idx2'']
         @ map (suffixed (columns (h ! b)) ''_1'') (columns (h ! a))
         @ [''bbox'', ''histreg'']
         @ map (suffixed (columns (h ! a)) ''_2'') (columns (h ! b))
         @ [''Intersection'']
     \<and> suffixed (columns (h ! b)) ''_1'' ''geometry'' = ''geometry_1''
     \<and> suffixed (columns (h ! a)) ''_2'' ''geometry'' = ''geometry_2''"
proof -
  let ?cA = "columns (h ! a)" and ?cB = "columns (h ! b)"
  let ?MA = "map (suffixed ?cB ''_1'') ?cA" and ?MB = "map (suffixed ?cA ''_2'') ?cB"
  let ?J = "[''idx1'', ''idx2''] @ ?MA @ [''bbox'', ''histreg''] @ ?MB"
  let ?run = "spatial_overlays G a b ''intersection'' h"
  from geometry_column_InrD[OF ga] have inA: "''geometry'' \<in> set ?cA" by simp
  from geometry_column_InrD[OF gb] have inB: "''geometry'' \<in> set ?cB" by simp
  have g1: "suffixed ?cB ''_1'' ''geometry'' = ''geometry_1''"
    using inB by (simp add: suffixed_def)
  have g2: "suffixed ?cA ''_2'' ''geometry'' = ''geometry_2''"
    using inA by (simp add: suffixed_def)
  have "suffixed ?cB ''_1'' ''geometry'' \<in> set ?MA"
    using inA by (simp only: set_map imageI)
  then have g1in: "''geometry_1'' \<in> set ?MA"
    unfolding g1 .
  have "suffixed ?cA ''_2'' ''geometry'' \<in> set ?MB"
    using inB by (simp only: set_map imageI)
  then have g2in: "''geometry_2'' \<in> set ?MB"
    unfolding g2 .
  have bk: "\<forall>k \<in> {''idx1'', ''idx2'', ''bbox'', ''histreg'', ''Intersection''}.
               k \<notin> set ?MA \<and> k \<notin> set ?MB"
  proof (intro ballI conjI)
    fix k :: string
    assume k: "k \<in> {''idx1'', ''idx2'', ''bbox'', ''histreg'', ''Intersection''}"
    from bspec[OF names k] have kA: "k \<notin> set ?cA" and kB: "k \<notin> set ?cB"
      by (rule conjunct1, rule conjunct2)
    show "k \<notin> set ?MA"
      by (rule bookkeeping_not_suffixed[OF k kA disjI1[OF refl]])
    show "k \<notin> set ?MB"
      by (rule bookkeeping_not_suffixed[OF k kB disjI2[OF refl]])
  qed
  have "''Intersection'' \<in> {''idx1'', ''idx2'', ''bbox'', ''histreg'', ''Intersection''}"
    by simp
  from bspec[OF bk this] have "''Intersection'' \<notin> set ?MA" and "''Intersection'' \<notin> set ?MB"
    by (rule conjunct1, rule conjunct2)
  then have noI: "''Intersection'' \<notin> set ?J" by simp
  have wc: "with_column ''Intersection'' ?J = ?J @ [''Intersection'']"
    using noI unfolding with_column_def by (simp only: if_False)
  from d have dA: "distinct ?MA" and dB: "distinct ?MB" by simp_all
  have rA: "remove1 ''geometry_1'' ?MA
      = map (suffixed ?cB ''_1'') (filter (\<lambda>c. c \<noteq> ''geometry'') ?cA)"
    using remove1_map_distinct[OF dA inA] unfolding g1 .
  have rB: "remove1 ''geometry_2'' ?MB
      = map (suffixed ?cA ''_2'') (filter (\<lambda>c. c \<noteq> ''geometry'') ?cB)"
    using remove1_map_distinct[OF dB inB] unfolding g2 .
  obtain h' where pair: "?run = (Inr (Some r), h')"
    using run by (cases ?run) simp
  then have "overlay_intersection G (length h) (Suc (length h))
               (h @ [repaired G (h ! a) ga, repaired G (h ! b) gb]) = (Inr (Some r), h')"
    by (simp add: spatial_overlays_prelude[OF a b ga gb])
  note ic = intersection_columns[OF this refl, unfolded columns_repaired joined_columns[OF names] wc]
  have cj: "columns (h' ! (length h + 4)) = ?J @ [''Intersection'']"
    by (rule ic[THEN conjunct2, THEN conjunct1])
  have cr: "columns (h' ! r) = map (\<lambda>c. if c = ''Intersection'' then ''geometry'' else c)
           (remove1 ''Intersection'' (remove1 ''bbox'' (remove1 ''histreg'' (remove1 ''geometry_2''
              (remove1 ''geometry_1'' (?J @ [''Intersection''])))))
            @ [''Intersection''])"
    by (rule ic[THEN conjunct2, THEN conjunct2, THEN conjunct2, THEN conjunct2, THEN conjunct2,
                THEN conjunct2])
  have out: "columns (h' ! r) = [''idx1'', ''idx2''] @ remove1 ''geometry_1'' ?MA
        @ remove1 ''geometry_2'' ?MB @ [''geometry'']"
    unfolding cr by (rule removal_chain[OF d g1in g2in bk])
  have s: "snd ?run = h'" using pair by simp
  show ?thesis
    unfolding s using out[unfolded rA rB] cj[unfolded append_assoc] g1 g2 by (intro conjI)
qed

lemma sample_columns:
  "columns ([sample_A, sample_B] ! 0) = [''name'', ''geometry'']"
  "columns ([sample_A, sample_B] ! 1) = [''name'', ''geometry'']"
  by (simp_all add: sample_A_def sample_B_def)

theorem intersection_schema_witness:
  "columns (snd (spatial_overlays grid 0 1 ''intersection'' [sample_A, sample_B]) ! 10)
     = [''idx1'', ''idx2'', ''name_1'', ''name_2'', ''geometry'']
   \<and> columns (snd (spatial_overlays grid 0 1 ''intersection'' [sample_A, sample_B]) ! 6)
     = [''idx1'', ''idx2'', ''name_1'', ''geometry_1'', ''bbox'', ''histreg'',
        ''name_2'', ''geometry_2'', ''Intersection'']"
proof -
  have a: "0 < length [sample_A, sample_B]" and b: "1 < length [sample_A, sample_B]" by simp_all
  have ga_at: "geometry_column ([sample_A, sample_B] ! 0) = Inr [[1, 2, 2, 3], [7, 9], [20], [4]]"
    using sample_A_geometries by simp
  have gb_at: "geometry_column ([sample_A, sample_B] ! 1) = Inr [[2, 3, 4], [8], [3, 3, 7]]"
    using sample_B_geometries by simp
  have names: "\<forall>k \<in> {''idx1'', ''idx2'', ''bbox'', ''histreg'', ''Intersection''}.
      k \<notin> set (columns ([sample_A, sample_B] ! 0)) \<and> k \<notin> set (columns ([sample_A, sample_B] ! 1))"
    unfolding sample_columns by simp
  have d: "distinct (map (suffixed (columns ([sample_A, sample_B] ! 1)) ''_1'')
                        (columns ([sample_A, sample_B] ! 0))
                     @ map (suffixed (columns ([sample_A, sample_B] ! 0)) ''_2'')
                        (columns ([sample_A, sample_B] ! 1)))"
    unfolding sample_columns by (simp add: suffixed_def)
  have six: "length [sample_A, sample_B] + 4 = 6" by simp
  show ?thesis
    using intersection_schema[OF sample_intersection_returns a b ga_at gb_at names d]
    unfolding sample_columns six
    by (simp add: suffixed_def)
qed

text \<open>
  With an attribute column named \<open>bbox\<close> in the first input the call returns a table,
  and the attribute column is not in it: line 42 writes the bounds over it and line 59
  removes it.
\<close>

theorem intersection_drops_bbox_attribute_counterexample:
  "fst (spatial_overlays grid 0 1 ''intersection'' [sample_boxed, sample_B]) = Inr (Some 10)
   \<and> ''bbox'' \<in> set (columns ([sample_boxed, sample_B] ! 0))
   \<and> columns (snd (spatial_overlays grid 0 1 ''intersection'' [sample_boxed, sample_B]) ! 10)
       = [''idx1'', ''idx2'', ''name'', ''geometry'']"
  by code_simp

end
